theory Spec2Isabelle
  imports Complex_Main "HOL-Library.Word"
begin

section \<open>Data model\<close>

text \<open>
  The program (\<^verbatim>\<open>src/main.cpp\<close>) is a single class \<^verbatim>\<open>Scene\<close> and a \<^verbatim>\<open>main\<close>
  function that drive the Vulkan and GLFW libraries. The libraries are external: every
  answer they give is an input of the model (the record \<open>env\<close>), every call the program
  makes is recorded, in order, in the \<open>trace\<close> of the \<open>world\<close>.
\<close>

type_synonym handle = nat

text \<open>Negative \<^verbatim>\<open>VkResult\<close> codes, as far as the program tells them apart.\<close>

datatype vk_error = ErrorDeviceLost | ErrorOther string

text \<open>
  The C++ exceptions of the program: \<^verbatim>\<open>vk::DeviceLostError\<close>, any other
  \<^verbatim>\<open>vk::SystemError\<close>, and the \<^verbatim>\<open>std::runtime_error\<close> the program throws itself.
  All three derive from \<^verbatim>\<open>std::exception\<close>; the string is what \<^verbatim>\<open>what()\<close> returns.
\<close>

datatype exn = DeviceLostError string | SystemError string | RuntimeError string

fun what :: "exn \<Rightarrow> string" where
  "what (DeviceLostError m) = m"
| "what (SystemError m) = m"
| "what (RuntimeError m) = m"

fun throwResultException :: "vk_error \<Rightarrow> string \<Rightarrow> exn" where
  "throwResultException ErrorDeviceLost m = DeviceLostError (m @ '': ErrorDeviceLost'')"
| "throwResultException (ErrorOther c) m = SystemError (m @ '': '' @ c)"

text \<open>
  How a piece of code can end other than by returning: a thrown exception; undefined
  behaviour (\<^verbatim>\<open>operator[]\<close> of a \<^verbatim>\<open>std::vector\<close> out of range, an invalid fence
  handle); a wait without timeout that is never satisfied; and, for the frame loop, the
  end of the script of answers the environment gives.
\<close>

datatype abrupt = Throw exn | Undefined | Blocked | OutOfScript

datatype 'a outcome = Normal 'a | Abrupt abrupt

datatype format = eUndefined | eB8G8R8A8Unorm | eD32Sfloat | OtherFormat nat

datatype present_mode = eImmediate | eMailbox | eFifo | eFifoRelaxed

datatype shader_source = Vertex_vert | Fragment_frag

datatype pipeline_stage = eTopOfPipe | eColorAttachmentOutput | eBottomOfPipe

datatype bind_point = eGraphics | eCompute

text \<open>The calls the program makes to GLFW, Vulkan, the console and the C library.\<close>

datatype event =
    SetProcessDPIAware
  | GlfwInit
  | GlfwSetErrorCallback
  | GlfwWindowHint_ClientApi_NoApi
  | GlfwCreateWindow "32 word" "32 word"
  | GlfwPollEvents
  | GlfwWindowShouldClose "handle option"
  | GlfwDestroyWindow handle
  | GlfwTerminate
  | EnumerateInstanceExtensionProperties
  | CreateInstance "string list" "string list"
  | EnumeratePhysicalDevices
  | GetQueueFamilyProperties
  | CreateDevice "32 word" "string list"
  | GetDeviceQueue "32 word" "32 word"
  | CreateWin32Surface "handle option"
  | GetSurfaceSupport "32 word"
  | GetSurfaceCapabilities
  | GetSurfaceFormats
  | GetSurfacePresentModes
  | CreateSwapchain "32 word" format "32 word" "32 word" present_mode
  | GetSwapchainImages
  | CreateImageView handle
  | CreateRenderPass
  | CreateFramebuffer handle
  | CreateCommandPool
  | AllocateCommandBuffers "32 word"
  | CreatePipelineLayout
  | CreateShaderModule shader_source
  | CreateGraphicsPipeline
  | CreateFence bool
  | CreateSemaphore
  | AcquireNextImage "handle option" "64 word" "handle option"
  | WaitForFences handle bool "64 word"
  | ResetFences handle
  | CmdBegin handle
  | CmdBeginRenderPass handle "handle option" handle "real list"
  | CmdBindPipeline handle bind_point "handle option"
  | CmdDraw handle "32 word" "32 word" "32 word" "32 word"
  | CmdEndRenderPass handle
  | CmdEnd handle
  | QueueSubmit "handle list" "handle option list" pipeline_stage "handle option list" handle
  | QueuePresent "handle option list" "handle option" "32 word"
  | DeviceWaitIdle
  | Cerr string
  | Cout string
  | SystemCall string

text \<open>
  The members of \<^verbatim>\<open>class Scene\<close>. A \<^verbatim>\<open>vk::Unique...\<close> handle or a pointer is
  \<open>None\<close> when null; a \<^verbatim>\<open>std::vector\<close> is a list.
\<close>

record scene =
  m_window :: "handle option"
  m_width :: "32 word"
  m_height :: "32 word"
  m_instance :: "handle option"
  m_phys_dev :: "handle option"
  m_gq_fam_idx :: "32 word"
  m_device :: "handle option"
  m_gr_queue :: "handle option"
  m_surface :: "handle option"
  m_swapchain :: "handle option"
  m_swapchain_imgs :: "handle list"
  m_swapchain_img_views :: "handle list"
  m_render_pass :: "handle option"
  m_framebuffers :: "handle list"
  m_cmd_b_pool :: "handle option"
  m_command_buffers :: "handle list"
  m_vert_shader :: "handle option"
  m_frag_shader :: "handle option"
  m_pipeline_layout :: "handle option"
  m_pipeline :: "handle option"
  m_fences :: "handle list"
  m_present_semaphore :: "handle option"
  m_draw_semaphore :: "handle option"

text \<open>The \<^verbatim>\<open>const\<close> members of \<^verbatim>\<open>Scene\<close>.\<close>

definition m_swapchain_format :: format where
  "m_swapchain_format = eB8G8R8A8Unorm"

definition m_depth_image_format :: format where
  "m_depth_image_format = eD32Sfloat"

definition m_present_mode :: present_mode where
  "m_present_mode = eFifo"

definition m_sw_num_images :: "32 word" where
  "m_sw_num_images = 2"

text \<open>
  A default-constructed \<^verbatim>\<open>Scene\<close>. The member \<^verbatim>\<open>m_window\<close> has no initialiser, so
  its value is whatever the memory holds: the parameter \<open>g\<close>.
\<close>

definition Scene_new :: "handle option \<Rightarrow> scene" where
  "Scene_new g =
     \<lparr> m_window = g, m_width = 1280, m_height = 720,
       m_instance = None, m_phys_dev = None, m_gq_fam_idx = - 1,
       m_device = None, m_gr_queue = None,
       m_surface = None, m_swapchain = None,
       m_swapchain_imgs = [], m_swapchain_img_views = [],
       m_render_pass = None, m_framebuffers = [],
       m_cmd_b_pool = None, m_command_buffers = [],
       m_vert_shader = None, m_frag_shader = None,
       m_pipeline_layout = None, m_pipeline = None,
       m_fences = [], m_present_semaphore = None, m_draw_semaphore = None \<rparr>"

text \<open>Macros of the Vulkan and C headers.\<close>

definition VK_KHR_SURFACE_EXTENSION_NAME :: string where
  "VK_KHR_SURFACE_EXTENSION_NAME = ''VK_KHR_surface''"

definition VK_KHR_WIN32_SURFACE_EXTENSION_NAME :: string where
  "VK_KHR_WIN32_SURFACE_EXTENSION_NAME = ''VK_KHR_win32_surface''"

definition VK_KHR_SWAPCHAIN_EXTENSION_NAME :: string where
  "VK_KHR_SWAPCHAIN_EXTENSION_NAME = ''VK_KHR_swapchain''"

definition UINT64_MAX :: "64 word" where
  "UINT64_MAX = 0xFFFFFFFFFFFFFFFF"

subsection \<open>The environment\<close>

text \<open>
  A fence is signaled, unsignaled with no work that will signal it, or unsignaled with
  a submission pending that signals it on completion.
\<close>

datatype fence_status = Signaled | Unsignaled | Pending

record world =
  trace :: "event list"
  next_handle :: handle
  fence_state :: "handle \<Rightarrow> fence_status option"

record queue_family =
  has_graphics :: bool
  queueCount :: "32 word"

record surface_caps =
  currentExtent_width :: "32 word"
  currentExtent_height :: "32 word"
  minImageCount :: "32 word"
  maxImageCount :: "32 word"
  supports_color_attachment :: bool

text \<open>The answers of the libraries during one pass of the frame loop.\<close>

record frame =
  should_close :: bool
  acquire_res :: "vk_error + 32 word"
  wait_res :: "vk_error option"
  reset_res :: "vk_error option"
  begin_res :: "vk_error option"
  end_res :: "vk_error option"
  submit_res :: "vk_error option"
  present_res :: "vk_error option"

text \<open>
  The answers of the libraries during the life of one \<^verbatim>\<open>Scene\<close>. A call that the
  program repeats takes the number of the repetition.
\<close>

record env =
  createWindow_ok :: bool
  instance_extensions :: "nat \<Rightarrow> vk_error + string list"
  createInstance_res :: "vk_error option"
  physical_devices :: "vk_error + handle list"
  queue_family_properties :: "queue_family list"
  createDevice_res :: "vk_error option"
  createSurface_res :: "vk_error + bool"
  surfaceSupport_res :: "vk_error + bool"
  surfaceCapabilities_res :: "vk_error + surface_caps"
  surfaceFormats_res :: "vk_error + format list"
  surfacePresentModes_res :: "vk_error + present_mode list"
  createSwapchain_res :: "vk_error option"
  swapchainImages_res :: "vk_error + nat"
  createImageView_res :: "nat \<Rightarrow> vk_error option"
  createRenderPass_res :: "vk_error option"
  createFramebuffer_res :: "nat \<Rightarrow> vk_error option"
  createCommandPool_res :: "vk_error option"
  allocateCommandBuffers_res :: "vk_error option"
  createPipelineLayout_res :: "vk_error option"
  createShaderModule_res :: "shader_source \<Rightarrow> vk_error option"
  createGraphicsPipeline_res :: "vk_error option"
  createFence_res :: "nat \<Rightarrow> vk_error option"
  createSemaphore_res :: "nat \<Rightarrow> vk_error option"
  frames :: "frame list"
  waitIdle_res :: "vk_error option"

section \<open>Programs\<close>

text \<open>A member function of \<^verbatim>\<open>Scene\<close> acts on the object and on the world.\<close>

type_synonym 'a prog = "scene \<times> world \<Rightarrow> 'a outcome \<times> (scene \<times> world)"

definition return :: "'a \<Rightarrow> 'a prog" where
  "return x = (\<lambda>\<sigma>. (Normal x, \<sigma>))"

definition abort :: "abrupt \<Rightarrow> 'a prog" where
  "abort a = (\<lambda>\<sigma>. (Abrupt a, \<sigma>))"

definition throw :: "exn \<Rightarrow> 'a prog" where
  "throw e = abort (Throw e)"

definition bnd :: "'a prog \<Rightarrow> ('a \<Rightarrow> 'b prog) \<Rightarrow> 'b prog" where
  "bnd m f = (\<lambda>\<sigma>. case m \<sigma> of
                     (Normal x, \<sigma>') \<Rightarrow> f x \<sigma>'
                   | (Abrupt a, \<sigma>') \<Rightarrow> (Abrupt a, \<sigma>'))"

primrec block :: "unit prog list \<Rightarrow> unit prog" where
  "block [] = return ()"
| "block (m # ms) = bnd m (\<lambda>_. block ms)"

primrec foreach :: "'a list \<Rightarrow> ('a \<Rightarrow> unit prog) \<Rightarrow> unit prog" where
  "foreach [] body = return ()"
| "foreach (x # xs) body = bnd (body x) (\<lambda>_. foreach xs body)"

text \<open>\<^verbatim>\<open>try { m } catch (...) {}\<close>: only an exception is caught.\<close>

definition try_catch_all :: "unit prog \<Rightarrow> unit prog" where
  "try_catch_all m = (\<lambda>\<sigma>. case m \<sigma> of
                          (Abrupt (Throw e), \<sigma>') \<Rightarrow> (Normal (), \<sigma>')
                        | r \<Rightarrow> r)"

definition get_scene :: "scene prog" where
  "get_scene = (\<lambda>\<sigma>. (Normal (fst \<sigma>), \<sigma>))"

definition modify_scene :: "(scene \<Rightarrow> scene) \<Rightarrow> unit prog" where
  "modify_scene f = (\<lambda>\<sigma>. (Normal (), (f (fst \<sigma>), snd \<sigma>)))"

definition get_world :: "world prog" where
  "get_world = (\<lambda>\<sigma>. (Normal (snd \<sigma>), \<sigma>))"

definition modify_world :: "(world \<Rightarrow> world) \<Rightarrow> unit prog" where
  "modify_world f = (\<lambda>\<sigma>. (Normal (), (fst \<sigma>, f (snd \<sigma>))))"

definition log_event :: "event \<Rightarrow> world \<Rightarrow> world" where
  "log_event ev w = w\<lparr>trace := trace w @ [ev]\<rparr>"

definition emit :: "event \<Rightarrow> unit prog" where
  "emit ev = modify_world (log_event ev)"

text \<open>A newly created object gets a handle that no earlier object has.\<close>

definition fresh :: "handle prog" where
  "fresh = bnd get_world (\<lambda>w.
           bnd (modify_world (\<lambda>w. w\<lparr>next_handle := Suc (next_handle w)\<rparr>)) (\<lambda>_.
           return (next_handle w)))"

primrec fresh_n :: "nat \<Rightarrow> handle list prog" where
  "fresh_n 0 = return []"
| "fresh_n (Suc n) = bnd fresh (\<lambda>h. bnd (fresh_n n) (\<lambda>hs. return (h # hs)))"

text \<open>
  \<^verbatim>\<open>vulkan.hpp\<close> turns an error code into an exception; \<open>m\<close> is the name of the call.
\<close>

definition vk_check :: "string \<Rightarrow> vk_error option \<Rightarrow> unit prog" where
  "vk_check m r = (case r of None \<Rightarrow> return () | Some e \<Rightarrow> throw (throwResultException e m))"

definition vk_value :: "string \<Rightarrow> vk_error + 'a \<Rightarrow> 'a prog" where
  "vk_value m r = (case r of Inr x \<Rightarrow> return x | Inl e \<Rightarrow> throw (throwResultException e m))"

text \<open>A \<^verbatim>\<open>create...Unique\<close> call: made, checked, and answered with a new handle.\<close>

definition vk_create :: "event \<Rightarrow> string \<Rightarrow> vk_error option \<Rightarrow> handle prog" where
  "vk_create ev m r = bnd (emit ev) (\<lambda>_. bnd (vk_check m r) (\<lambda>_. fresh))"

text \<open>\<^verbatim>\<open>v[i]\<close> on a \<^verbatim>\<open>std::vector\<close>: no bounds check, undefined out of range.\<close>

definition at_index :: "'a list \<Rightarrow> nat \<Rightarrow> 'a prog" where
  "at_index v i = (if i < length v then return (v ! i) else abort Undefined)"


section \<open>The member functions of Scene\<close>

subsection \<open>Library calls\<close>

definition isInstanceExtensionAvailable :: "env \<Rightarrow> nat \<Rightarrow> string \<Rightarrow> bool prog" where
  "isInstanceExtensionAvailable env k ext =
     bnd (emit EnumerateInstanceExtensionProperties) (\<lambda>_.
     bnd (vk_value ''vk::enumerateInstanceExtensionProperties'' (instance_extensions env k))
       (\<lambda>avail_exts.
     return (ext \<in> set avail_exts)))"

definition glfwCreateWindow :: "env \<Rightarrow> 32 word \<Rightarrow> 32 word \<Rightarrow> handle option prog" where
  "glfwCreateWindow env w h =
     bnd (emit (GlfwCreateWindow w h)) (\<lambda>_.
     if createWindow_ok env then bnd fresh (\<lambda>x. return (Some x)) else return None)"

definition set_fence :: "handle \<Rightarrow> fence_status \<Rightarrow> unit prog" where
  "set_fence h st = modify_world (\<lambda>w. w\<lparr>fence_state := (fence_state w)(h \<mapsto> st)\<rparr>)"

definition createFenceUnique :: "vk_error option \<Rightarrow> bool \<Rightarrow> handle prog" where
  "createFenceUnique r signaled =
     bnd (vk_create (CreateFence signaled) ''vk::Device::createFenceUnique'' r) (\<lambda>h.
     bnd (set_fence h (if signaled then Signaled else Unsignaled)) (\<lambda>_.
     return h))"

text \<open>
  A wait without timeout on one fence: it returns when the fence is signaled or when
  the pending submission completes, and never when nothing will signal the fence.
\<close>

definition waitForFences :: "vk_error option \<Rightarrow> handle \<Rightarrow> bool \<Rightarrow> 64 word \<Rightarrow> unit prog" where
  "waitForFences r f wait_all timeout =
     bnd (emit (WaitForFences f wait_all timeout)) (\<lambda>_.
     bnd (vk_check ''vk::Device::waitForFences'' r) (\<lambda>_.
     bnd get_world (\<lambda>w.
     case fence_state w f of
       None \<Rightarrow> abort Undefined
     | Some Signaled \<Rightarrow> return ()
     | Some Pending \<Rightarrow> set_fence f Signaled
     | Some Unsignaled \<Rightarrow> abort Blocked)))"

definition resetFences :: "vk_error option \<Rightarrow> handle \<Rightarrow> unit prog" where
  "resetFences r f =
     bnd (emit (ResetFences f)) (\<lambda>_.
     bnd (vk_check ''vk::Device::resetFences'' r) (\<lambda>_.
     set_fence f Unsignaled))"

definition queue_submit ::
  "vk_error option \<Rightarrow> handle list \<Rightarrow> handle option list \<Rightarrow> pipeline_stage \<Rightarrow>
   handle option list \<Rightarrow> handle \<Rightarrow> unit prog" where
  "queue_submit r cmds waits stage signals f =
     bnd (emit (QueueSubmit cmds waits stage signals f)) (\<lambda>_.
     bnd (vk_check ''vk::Queue::submit'' r) (\<lambda>_.
     set_fence f Pending))"

subsection \<open>initialize\<close>

definition createWindowAndSurface :: "env \<Rightarrow> unit prog" where
  "createWindowAndSurface env =
     bnd (emit GlfwInit) (\<lambda>_.
     bnd (emit GlfwSetErrorCallback) (\<lambda>_.
     bnd (emit GlfwWindowHint_ClientApi_NoApi) (\<lambda>_.
     bnd get_scene (\<lambda>s.
     bnd (glfwCreateWindow env (m_width s) (m_height s)) (\<lambda>win.
     bnd (modify_scene (\<lambda>s. s\<lparr>m_window := win\<rparr>)) (\<lambda>_.
     if win = None then throw (RuntimeError ''Window Creation failed!'')
     else return ()))))))"

definition initializeVKInstance :: "env \<Rightarrow> unit prog" where
  "initializeVKInstance env =
     bnd (isInstanceExtensionAvailable env 0 VK_KHR_SURFACE_EXTENSION_NAME) (\<lambda>a.
     bnd (if \<not> a
          then throw (RuntimeError (VK_KHR_SURFACE_EXTENSION_NAME @ '' is not available!''))
          else return ()) (\<lambda>_.
     bnd (isInstanceExtensionAvailable env 1 VK_KHR_WIN32_SURFACE_EXTENSION_NAME) (\<lambda>b.
     bnd (if \<not> b
          then throw (RuntimeError (VK_KHR_SURFACE_EXTENSION_NAME @ '' is not available!''))
          else return ()) (\<lambda>_.
     bnd (vk_create
            (CreateInstance
               [VK_KHR_SURFACE_EXTENSION_NAME, VK_KHR_WIN32_SURFACE_EXTENSION_NAME] [])
            ''vk::createInstanceUnique'' (createInstance_res env)) (\<lambda>h.
     modify_scene (\<lambda>s. s\<lparr>m_instance := Some h\<rparr>))))))"

text \<open>The loop over the queue families: the first one with graphics and a queue.\<close>

fun find_graphics_family :: "nat \<Rightarrow> queue_family list \<Rightarrow> nat option" where
  "find_graphics_family i [] = None"
| "find_graphics_family i (prop # props) =
     (if has_graphics prop \<and> 0 < queueCount prop then Some i
      else find_graphics_family (Suc i) props)"

definition selectQueueFamilyAndPhysicalDevice :: "env \<Rightarrow> unit prog" where
  "selectQueueFamilyAndPhysicalDevice env =
     bnd (emit EnumeratePhysicalDevices) (\<lambda>_.
     bnd (vk_value ''vk::Instance::enumeratePhysicalDevices'' (physical_devices env))
       (\<lambda>phys_devs.
     if length phys_devs \<le> 0
     then throw (RuntimeError ''Invalid Physical Device Index provided!'')
     else
       bnd (modify_scene (\<lambda>s. s\<lparr>m_phys_dev := Some (phys_devs ! 0)\<rparr>)) (\<lambda>_.
       bnd (emit GetQueueFamilyProperties) (\<lambda>_.
       case find_graphics_family 0 (queue_family_properties env) of
         Some i \<Rightarrow> modify_scene (\<lambda>s. s\<lparr>m_gq_fam_idx := of_nat i\<rparr>)
       | None \<Rightarrow> throw (RuntimeError ''Can not find graphics family index!'')))))"

definition initializeDevice :: "env \<Rightarrow> unit prog" where
  "initializeDevice env =
     bnd get_scene (\<lambda>s.
     bnd (vk_create (CreateDevice (m_gq_fam_idx s) [VK_KHR_SWAPCHAIN_EXTENSION_NAME])
            ''vk::PhysicalDevice::createDeviceUnique'' (createDevice_res env)) (\<lambda>d.
     bnd (modify_scene (\<lambda>s. s\<lparr>m_device := Some d\<rparr>)) (\<lambda>_.
     bnd (emit (GetDeviceQueue (m_gq_fam_idx s) 0)) (\<lambda>_.
     bnd fresh (\<lambda>q.
     modify_scene (\<lambda>s. s\<lparr>m_gr_queue := Some q\<rparr>))))))"

definition createSurface :: "env \<Rightarrow> unit prog" where
  "createSurface env =
     bnd get_scene (\<lambda>s.
     bnd (emit (CreateWin32Surface (m_window s))) (\<lambda>_.
     bnd (vk_value ''vk::Instance::createWin32SurfaceKHRUnique'' (createSurface_res env))
       (\<lambda>non_null.
     bnd (if non_null then bnd fresh (\<lambda>h. return (Some h)) else return None) (\<lambda>surf_tmp.
     bnd (if surf_tmp = None then return True
          else
            bnd (emit (GetSurfaceSupport (m_gq_fam_idx s))) (\<lambda>_.
            bnd (vk_value ''vk::PhysicalDevice::getSurfaceSupportKHR''
                   (surfaceSupport_res env)) (\<lambda>supported.
            return (\<not> supported)))) (\<lambda>unusable.
     if unusable then throw (RuntimeError ''Can not create Surface!'')
     else modify_scene (\<lambda>s. s\<lparr>m_surface := surf_tmp\<rparr>))))))"

definition createSwapChainAndImages :: "env \<Rightarrow> unit prog" where
  "createSwapChainAndImages env =
     bnd get_scene (\<lambda>s.
     bnd (emit GetSurfaceCapabilities) (\<lambda>_.
     bnd (vk_value ''vk::PhysicalDevice::getSurfaceCapabilitiesKHR''
            (surfaceCapabilities_res env)) (\<lambda>caps.
     if m_width s \<noteq> currentExtent_width caps \<or> m_height s \<noteq> currentExtent_height caps
     then throw (RuntimeError ''chosen image size not supported by window surface'')
     else if m_sw_num_images < minImageCount caps
     then throw (RuntimeError
       ''chosen image count is too small and not supported by the window surface'')
     else if maxImageCount caps \<noteq> 0 \<and> m_sw_num_images > maxImageCount caps
     then throw (RuntimeError
       ''chosen image count is too large and not supported by the window surface'')
     else if \<not> supports_color_attachment caps
     then throw (RuntimeError ''window surface cannot be used as color attachment'')
     else
       bnd (emit GetSurfaceFormats) (\<lambda>_.
       bnd (vk_value ''vk::PhysicalDevice::getSurfaceFormatsKHR'' (surfaceFormats_res env))
         (\<lambda>surf_formats.
       if \<not> list_ex (\<lambda>f. f = eUndefined \<or> f = m_swapchain_format) surf_formats
       then throw (RuntimeError ''window surface not compatible with chosen color format'')
       else
         bnd (emit GetSurfacePresentModes) (\<lambda>_.
         bnd (vk_value ''vk::PhysicalDevice::getSurfacePresentModesKHR''
                (surfacePresentModes_res env)) (\<lambda>surf_modes.
         if \<not> list_ex (\<lambda>surf_mode. m_present_mode = surf_mode) surf_modes
         then throw (RuntimeError ''Chosen Present Mode is not supported!'')
         else
           bnd (vk_create
                  (CreateSwapchain m_sw_num_images m_swapchain_format
                     (m_width s) (m_height s) m_present_mode)
                  ''vk::Device::createSwapchainKHRUnique'' (createSwapchain_res env)) (\<lambda>sc.
           bnd (modify_scene (\<lambda>s. s\<lparr>m_swapchain := Some sc\<rparr>)) (\<lambda>_.
           bnd (emit GetSwapchainImages) (\<lambda>_.
           bnd (vk_value ''vk::Device::getSwapchainImagesKHR'' (swapchainImages_res env))
             (\<lambda>n.
           bnd (fresh_n n) (\<lambda>imgs.
           modify_scene (\<lambda>s. s\<lparr>m_swapchain_imgs := imgs\<rparr>)))))))))))))"

definition createSwapChainImageViews :: "env \<Rightarrow> unit prog" where
  "createSwapChainImageViews env =
     bnd get_scene (\<lambda>s.
     foreach (zip [0..<length (m_swapchain_imgs s)] (m_swapchain_imgs s)) (\<lambda>(k, sc_image).
       bnd (vk_create (CreateImageView sc_image) ''vk::Device::createImageViewUnique''
              (createImageView_res env k)) (\<lambda>v.
       modify_scene (\<lambda>s. s\<lparr>m_swapchain_img_views := m_swapchain_img_views s @ [v]\<rparr>))))"

definition createPass :: "env \<Rightarrow> unit prog" where
  "createPass env =
     bnd (vk_create CreateRenderPass ''vk::Device::createRenderPassUnique''
            (createRenderPass_res env)) (\<lambda>rp.
     modify_scene (\<lambda>s. s\<lparr>m_render_pass := Some rp\<rparr>))"

definition createFramebuffer :: "env \<Rightarrow> unit prog" where
  "createFramebuffer env =
     foreach [0..<unat m_sw_num_images] (\<lambda>i.
       bnd get_scene (\<lambda>s.
       bnd (at_index (m_swapchain_img_views s) i) (\<lambda>view.
       bnd (vk_create (CreateFramebuffer view) ''vk::Device::createFramebufferUnique''
              (createFramebuffer_res env i)) (\<lambda>fb.
       modify_scene (\<lambda>s. s\<lparr>m_framebuffers := m_framebuffers s @ [fb]\<rparr>)))))"

definition allocateCommandBuffers :: "env \<Rightarrow> unit prog" where
  "allocateCommandBuffers env =
     bnd (vk_create CreateCommandPool ''vk::Device::createCommandPoolUnique''
            (createCommandPool_res env)) (\<lambda>pool.
     bnd (modify_scene (\<lambda>s. s\<lparr>m_cmd_b_pool := Some pool\<rparr>)) (\<lambda>_.
     bnd (emit (AllocateCommandBuffers m_sw_num_images)) (\<lambda>_.
     bnd (vk_check ''vk::Device::allocateCommandBuffersUnique''
            (allocateCommandBuffers_res env)) (\<lambda>_.
     bnd (fresh_n (unat m_sw_num_images)) (\<lambda>cbs.
     modify_scene (\<lambda>s. s\<lparr>m_command_buffers := cbs\<rparr>))))))"

definition createShaderInterface :: "env \<Rightarrow> unit prog" where
  "createShaderInterface env =
     bnd (vk_create CreatePipelineLayout ''vk::Device::createPipelineLayoutUnique''
            (createPipelineLayout_res env)) (\<lambda>pl.
     modify_scene (\<lambda>s. s\<lparr>m_pipeline_layout := Some pl\<rparr>))"

definition createShader :: "env \<Rightarrow> shader_source \<Rightarrow> handle prog" where
  "createShader env spv =
     vk_create (CreateShaderModule spv) ''vk::Device::createShaderModuleUnique''
       (createShaderModule_res env spv)"

definition createPipeline :: "env \<Rightarrow> unit prog" where
  "createPipeline env =
     bnd (createShader env Vertex_vert) (\<lambda>vs.
     bnd (modify_scene (\<lambda>s. s\<lparr>m_vert_shader := Some vs\<rparr>)) (\<lambda>_.
     bnd (createShader env Fragment_frag) (\<lambda>fs.
     bnd (modify_scene (\<lambda>s. s\<lparr>m_frag_shader := Some fs\<rparr>)) (\<lambda>_.
     bnd (vk_create CreateGraphicsPipeline ''vk::Device::createGraphicsPipelineUnique''
            (createGraphicsPipeline_res env)) (\<lambda>p.
     modify_scene (\<lambda>s. s\<lparr>m_pipeline := Some p\<rparr>))))))"

definition createSemaphoreUnique :: "vk_error option \<Rightarrow> handle prog" where
  "createSemaphoreUnique r = vk_create CreateSemaphore ''vk::Device::createSemaphoreUnique'' r"

definition initSyncEntities :: "env \<Rightarrow> unit prog" where
  "initSyncEntities env =
     bnd (foreach [0..<unat m_sw_num_images] (\<lambda>i.
            bnd (createFenceUnique (createFence_res env i) True) (\<lambda>f.
            modify_scene (\<lambda>s. s\<lparr>m_fences := m_fences s @ [f]\<rparr>)))) (\<lambda>_.
     bnd (createSemaphoreUnique (createSemaphore_res env 0)) (\<lambda>ds.
     bnd (modify_scene (\<lambda>s. s\<lparr>m_draw_semaphore := Some ds\<rparr>)) (\<lambda>_.
     bnd (createSemaphoreUnique (createSemaphore_res env 1)) (\<lambda>ps.
     modify_scene (\<lambda>s. s\<lparr>m_present_semaphore := Some ps\<rparr>)))))"

definition initialize :: "env \<Rightarrow> unit prog" where
  "initialize env =
     block
       [createWindowAndSurface env,
        initializeVKInstance env,
        selectQueueFamilyAndPhysicalDevice env,
        initializeDevice env,
        createSurface env,
        createSwapChainAndImages env,
        createSwapChainImageViews env,
        createPass env,
        createFramebuffer env,
        allocateCommandBuffers env,
        createShaderInterface env,
        createPipeline env,
        initSyncEntities env]"

subsection \<open>run\<close>

definition buildCommandBuffer :: "frame \<Rightarrow> 32 word \<Rightarrow> unit prog" where
  "buildCommandBuffer fr image_index =
     bnd get_scene (\<lambda>s.
     bnd (at_index (m_command_buffers s) (unat image_index)) (\<lambda>cmd.
     bnd (emit (CmdBegin cmd)) (\<lambda>_.
     bnd (vk_check ''vk::CommandBuffer::begin'' (begin_res fr)) (\<lambda>_.
     bnd (at_index (m_framebuffers s) (unat image_index)) (\<lambda>fb.
     bnd (emit (CmdBeginRenderPass cmd (m_render_pass s) fb [0, 0, 1, 1])) (\<lambda>_.
     bnd (emit (CmdBindPipeline cmd eGraphics (m_pipeline s))) (\<lambda>_.
     bnd (emit (CmdDraw cmd 3 1 0 0)) (\<lambda>_.
     bnd (emit (CmdEndRenderPass cmd)) (\<lambda>_.
     bnd (emit (CmdEnd cmd)) (\<lambda>_.
     vk_check ''vk::CommandBuffer::end'' (end_res fr)))))))))))"

text \<open>One pass of the loop body after the test of the close flag.\<close>

definition render_frame :: "frame \<Rightarrow> unit prog" where
  "render_frame fr =
     bnd get_scene (\<lambda>s.
     bnd (emit (AcquireNextImage (m_swapchain s) UINT64_MAX (m_draw_semaphore s))) (\<lambda>_.
     bnd (vk_value ''vk::Device::acquireNextImageKHR'' (acquire_res fr)) (\<lambda>image_index.
     bnd (at_index (m_fences s) (unat image_index)) (\<lambda>f.
     bnd (waitForFences (wait_res fr) f True UINT64_MAX) (\<lambda>_.
     bnd (at_index (m_fences s) (unat image_index)) (\<lambda>f.
     bnd (resetFences (reset_res fr) f) (\<lambda>_.
     bnd (buildCommandBuffer fr image_index) (\<lambda>_.
     bnd (at_index (m_command_buffers s) (unat image_index)) (\<lambda>cmd.
     bnd (at_index (m_fences s) (unat image_index)) (\<lambda>f.
     bnd (queue_submit (submit_res fr) [cmd] [m_draw_semaphore s] eColorAttachmentOutput
            [m_present_semaphore s] f) (\<lambda>_.
     bnd (emit (QueuePresent [m_present_semaphore s] (m_swapchain s) image_index)) (\<lambda>_.
     vk_check ''vk::Queue::presentKHR'' (present_res fr)))))))))))))"

text \<open>
  One pass of the body of \<^verbatim>\<open>while (true)\<close>; the result says whether the pass ends
  in \<^verbatim>\<open>break\<close>.
\<close>

definition loop_pass :: "frame \<Rightarrow> bool prog" where
  "loop_pass fr =
     bnd (emit GlfwPollEvents) (\<lambda>_.
     bnd get_scene (\<lambda>s.
     bnd (emit (GlfwWindowShouldClose (m_window s))) (\<lambda>_.
     if should_close fr then return True
     else bnd (render_frame fr) (\<lambda>_. return False))))"

text \<open>
  \<^verbatim>\<open>while (true)\<close>: one element of the script per pass. The loop has no exit but the
  close flag and an exception, so a script that ends before either leaves it running.
\<close>

primrec run_loop :: "frame list \<Rightarrow> unit prog" where
  "run_loop [] = abort OutOfScript"
| "run_loop (fr # frs) =
     bnd (loop_pass fr) (\<lambda>brk. if brk then return () else run_loop frs)"

definition run :: "env \<Rightarrow> unit prog" where
  "run env = run_loop (frames env)"

subsection \<open>shutdown\<close>

definition waitIdle :: "env \<Rightarrow> unit prog" where
  "waitIdle env =
     bnd (emit DeviceWaitIdle) (\<lambda>_. vk_check ''vk::Device::waitIdle'' (waitIdle_res env))"

definition shutdown :: "env \<Rightarrow> unit prog" where
  "shutdown env =
     bnd (try_catch_all
            (bnd get_scene (\<lambda>s. if m_device s \<noteq> None then waitIdle env else return ())))
       (\<lambda>_.
     bnd get_scene (\<lambda>s.
     bnd (case m_window s of Some win \<Rightarrow> emit (GlfwDestroyWindow win) | None \<Rightarrow> return ())
       (\<lambda>_.
     emit GlfwTerminate)))"

section \<open>main\<close>

text \<open>
  The \<^verbatim>\<open>try\<close> block of the first lifecycle and its two handlers. The handlers give the
  new values of \<^verbatim>\<open>return_value\<close> and \<^verbatim>\<open>device_lost\<close> and what is printed.
\<close>

definition first_try :: "env \<Rightarrow> unit prog" where
  "first_try env = bnd (initialize env) (\<lambda>_. run env)"

fun first_catch :: "exn \<Rightarrow> int \<times> bool \<times> event" where
  "first_catch (DeviceLostError m) = (0, True, Cerr ''Device Lost, re-init...'')"
| "first_catch e = (1, False, Cerr (''Error Occurred: '' @ what e))"

text \<open>The second part of \<^verbatim>\<open>main\<close>, from the comment \<^verbatim>\<open>// re-init\<close> on.\<close>

definition re_init :: "handle option \<Rightarrow> env \<Rightarrow> int \<Rightarrow> world \<Rightarrow> int outcome \<times> world" where
  "re_init g env return_value w =
     (case initialize env (Scene_new g, w) of
        (Abrupt (Throw e), (scene, w1)) \<Rightarrow>
          (case shutdown env (scene, log_event (Cerr (''Error Occurred: '' @ what e)) w1) of
             (Normal _, (_, w2)) \<Rightarrow> (Normal 1, log_event (SystemCall ''pause'') w2)
           | (Abrupt a, (_, w2)) \<Rightarrow> (Abrupt a, w2))
      | (Abrupt a, (_, w1)) \<Rightarrow> (Abrupt a, w1)
      | (Normal _, (scene, w1)) \<Rightarrow>
          (case shutdown env (scene, log_event (Cout ''re-initialization successful'') w1) of
             (Normal _, (_, w2)) \<Rightarrow> (Normal return_value, log_event (SystemCall ''pause'') w2)
           | (Abrupt a, (_, w2)) \<Rightarrow> (Abrupt a, w2)))"

text \<open>
  \<^verbatim>\<open>main\<close>: \<open>g1\<close> and \<open>g2\<close> are the uninitialised window pointers of the two
  \<^verbatim>\<open>Scene\<close> objects, \<open>env1\<close> and \<open>env2\<close> the answers of the libraries during the
  life of each.
\<close>

definition main_prog ::
  "handle option \<Rightarrow> handle option \<Rightarrow> env \<Rightarrow> env \<Rightarrow> world \<Rightarrow> int outcome \<times> world" where
  "main_prog g1 g2 env1 env2 w0 =
     (case first_try env1 (Scene_new g1, log_event SetProcessDPIAware w0) of
        (Abrupt (Throw e), (scene, w1)) \<Rightarrow>
          (case first_catch e of (return_value, device_lost, msg) \<Rightarrow>
             (case shutdown env1 (scene, log_event msg w1) of
                (Normal _, (_, w2)) \<Rightarrow>
                  if \<not> device_lost then (Normal return_value, w2)
                  else re_init g2 env2 return_value w2
              | (Abrupt a, (_, w2)) \<Rightarrow> (Abrupt a, w2)))
      | (Abrupt a, (_, w1)) \<Rightarrow> (Abrupt a, w1)
      | (Normal _, (scene, w1)) \<Rightarrow>
          (case shutdown env1 (scene, w1) of
             (Normal _, (_, w2)) \<Rightarrow> (Normal 0, w2)
           | (Abrupt a, (_, w2)) \<Rightarrow> (Abrupt a, w2)))"


section \<open>Notions used in the statements\<close>

text \<open>The calls made between two worlds, the second being a later state of the first.\<close>

definition emitted :: "world \<Rightarrow> world \<Rightarrow> event list" where
  "emitted w w' = drop (length (trace w)) (trace w')"

text \<open>The calls of one \<^verbatim>\<open>shutdown()\<close> on a scene.\<close>

definition shutdown_calls :: "scene \<Rightarrow> event list" where
  "shutdown_calls s =
     (if m_device s \<noteq> None then [DeviceWaitIdle] else []) @
     (case m_window s of Some win \<Rightarrow> [GlfwDestroyWindow win] | None \<Rightarrow> []) @
     [GlfwTerminate]"

text \<open>
  The calls of one complete pass of the frame loop that draws on the image \<open>i\<close>:
  acquire, wait and reset the fence, record, submit, present.
\<close>

definition frame_calls :: "scene \<Rightarrow> 32 word \<Rightarrow> event list" where
  "frame_calls s i =
     (let f = m_fences s ! unat i;
          cmd = m_command_buffers s ! unat i;
          fb = m_framebuffers s ! unat i
      in [GlfwPollEvents,
          GlfwWindowShouldClose (m_window s),
          AcquireNextImage (m_swapchain s) UINT64_MAX (m_draw_semaphore s),
          WaitForFences f True UINT64_MAX,
          ResetFences f,
          CmdBegin cmd,
          CmdBeginRenderPass cmd (m_render_pass s) fb [0, 0, 1, 1],
          CmdBindPipeline cmd eGraphics (m_pipeline s),
          CmdDraw cmd 3 1 0 0,
          CmdEndRenderPass cmd,
          CmdEnd cmd,
          QueueSubmit [cmd] [m_draw_semaphore s] eColorAttachmentOutput
            [m_present_semaphore s] f,
          QueuePresent [m_present_semaphore s] (m_swapchain s) i])"

text \<open>The code returned or threw: it neither hung nor left defined behaviour.\<close>

fun returns_or_throws :: "'a outcome \<Rightarrow> bool" where
  "returns_or_throws (Normal x) = True"
| "returns_or_throws (Abrupt (Throw e)) = True"
| "returns_or_throws (Abrupt a) = False"

fun is_device_lost :: "'a outcome \<Rightarrow> bool" where
  "is_device_lost (Abrupt (Throw (DeviceLostError m))) = True"
| "is_device_lost r = False"

text \<open>Which function of the program makes a call: each call has one place in the source.\<close>

datatype caller = Main | Init nat | Run | Shutdown

fun caller_of :: "event \<Rightarrow> caller" where
  "caller_of SetProcessDPIAware = Main"
| "caller_of (Cerr m) = Main"
| "caller_of (Cout m) = Main"
| "caller_of (SystemCall m) = Main"
| "caller_of GlfwInit = Init 1"
| "caller_of GlfwSetErrorCallback = Init 1"
| "caller_of GlfwWindowHint_ClientApi_NoApi = Init 1"
| "caller_of (GlfwCreateWindow w h) = Init 1"
| "caller_of EnumerateInstanceExtensionProperties = Init 2"
| "caller_of (CreateInstance exts layers) = Init 2"
| "caller_of EnumeratePhysicalDevices = Init 3"
| "caller_of GetQueueFamilyProperties = Init 3"
| "caller_of (CreateDevice q exts) = Init 4"
| "caller_of (GetDeviceQueue q i) = Init 4"
| "caller_of (CreateWin32Surface win) = Init 5"
| "caller_of (GetSurfaceSupport q) = Init 5"
| "caller_of GetSurfaceCapabilities = Init 6"
| "caller_of GetSurfaceFormats = Init 6"
| "caller_of GetSurfacePresentModes = Init 6"
| "caller_of (CreateSwapchain n f w h pm) = Init 6"
| "caller_of GetSwapchainImages = Init 6"
| "caller_of (CreateImageView img) = Init 7"
| "caller_of CreateRenderPass = Init 8"
| "caller_of (CreateFramebuffer v) = Init 9"
| "caller_of CreateCommandPool = Init 10"
| "caller_of (AllocateCommandBuffers n) = Init 10"
| "caller_of CreatePipelineLayout = Init 11"
| "caller_of (CreateShaderModule spv) = Init 12"
| "caller_of CreateGraphicsPipeline = Init 12"
| "caller_of (CreateFence b) = Init 13"
| "caller_of CreateSemaphore = Init 13"
| "caller_of GlfwPollEvents = Run"
| "caller_of (GlfwWindowShouldClose win) = Run"
| "caller_of (AcquireNextImage sc t sem) = Run"
| "caller_of (WaitForFences f b t) = Run"
| "caller_of (ResetFences f) = Run"
| "caller_of (CmdBegin cmd) = Run"
| "caller_of (CmdBeginRenderPass cmd rp fb col) = Run"
| "caller_of (CmdBindPipeline cmd bp p) = Run"
| "caller_of (CmdDraw cmd a b c d) = Run"
| "caller_of (CmdEndRenderPass cmd) = Run"
| "caller_of (CmdEnd cmd) = Run"
| "caller_of (QueueSubmit cmds ws st ss f) = Run"
| "caller_of (QueuePresent ws sc i) = Run"
| "caller_of DeviceWaitIdle = Shutdown"
| "caller_of (GlfwDestroyWindow win) = Shutdown"
| "caller_of GlfwTerminate = Shutdown"

text \<open>The steps of \<^verbatim>\<open>initialize()\<close> that come before \<^verbatim>\<open>createSwapChainAndImages()\<close>.\<close>

definition before_swapchain :: "env \<Rightarrow> unit prog" where
  "before_swapchain env =
     block
       [createWindowAndSurface env, initializeVKInstance env,
        selectQueueFamilyAndPhysicalDevice env, initializeDevice env, createSurface env]"

text \<open>
  The image \<open>i\<close> has its fence, its command buffer and its framebuffer in the scene.
\<close>

definition in_range :: "scene \<Rightarrow> 32 word \<Rightarrow> bool" where
  "in_range s i \<longleftrightarrow>
     unat i < length (m_fences s) \<and> unat i < length (m_command_buffers s) \<and>
     unat i < length (m_framebuffers s)"

text \<open>
  The answers of a pass leave it no reason to stop: the acquired image is one of the
  scene, and no call reports an error.
\<close>

definition pass_succeeds :: "scene \<Rightarrow> frame \<Rightarrow> bool" where
  "pass_succeeds s fr \<longleftrightarrow>
     (case acquire_res fr of Inl e \<Rightarrow> False | Inr i \<Rightarrow> in_range s i) \<and>
     wait_res fr = None \<and> reset_res fr = None \<and> begin_res fr = None \<and>
     end_res fr = None \<and> submit_res fr = None \<and> present_res fr = None"

text \<open>
  Every fence of the scene is signaled or has a submission pending that will signal it,
  as after \<^verbatim>\<open>initialize()\<close> and after every complete pass: no wait blocks for ever.
\<close>

definition fences_ready :: "scene \<Rightarrow> world \<Rightarrow> bool" where
  "fences_ready s w \<longleftrightarrow>
     (\<forall>f\<in>set (m_fences s). fence_state w f = Some Signaled \<or> fence_state w f = Some Pending)"


section \<open>Notions used in the proofs\<close>

text \<open>A relation between the state before and the state after, whatever the outcome.\<close>

definition preserves :: "(scene \<times> world \<Rightarrow> scene \<times> world \<Rightarrow> bool) \<Rightarrow> 'a prog \<Rightarrow> bool" where
  "preserves R m \<longleftrightarrow> (\<forall>\<sigma>. R \<sigma> (snd (m \<sigma>)))"

text \<open>
  A program only adds calls to the trace, and every call it adds satisfies \<open>P\<close>.
\<close>

definition extends_with :: "(event \<Rightarrow> bool) \<Rightarrow> scene \<times> world \<Rightarrow> scene \<times> world \<Rightarrow> bool" where
  "extends_with P \<sigma> \<sigma>' \<longleftrightarrow>
     take (length (trace (snd \<sigma>))) (trace (snd \<sigma>')) = trace (snd \<sigma>) \<and>
     list_all P (emitted (snd \<sigma>) (snd \<sigma>'))"

text \<open>A program that leaves a part \<open>f\<close> of the scene as it is, whatever the outcome.\<close>

definition keeps :: "(scene \<Rightarrow> 'b) \<Rightarrow> scene \<times> world \<Rightarrow> scene \<times> world \<Rightarrow> bool" where
  "keeps f \<sigma> \<sigma>' \<longleftrightarrow> f (fst \<sigma>') = f (fst \<sigma>)"

text \<open>A program that returns or throws, whatever the state it starts in.\<close>

definition safe :: "'a prog \<Rightarrow> bool" where
  "safe m \<longleftrightarrow> (\<forall>\<sigma>. returns_or_throws (fst (m \<sigma>)))"

text \<open>
  A program that leaves the scene \<open>s\<close> as it is and makes the calls of the list \<open>L\<close> in
  order, all of them when it returns, the first ones when it ends otherwise.
\<close>

definition emits_prefix :: "scene \<Rightarrow> event list \<Rightarrow> 'a prog \<Rightarrow> bool" where
  "emits_prefix s L m \<longleftrightarrow>
     (\<forall>w. fst (snd (m (s, w))) = s \<and>
          (\<exists>k. trace (snd (snd (m (s, w)))) = trace w @ take k L) \<and>
          (\<forall>x. fst (m (s, w)) = Normal x \<longrightarrow> trace (snd (snd (m (s, w)))) = trace w @ L))"

text \<open>
  How the loop of \<^verbatim>\<open>run()\<close> ends after \<open>n\<close> complete passes, with the outcome \<open>r\<close>
  and the calls \<open>rest\<close> of the pass that is not complete.
\<close>

definition last_pass ::
  "scene \<Rightarrow> world \<Rightarrow> frame list \<Rightarrow> nat \<Rightarrow> unit outcome \<Rightarrow> event list \<Rightarrow> bool" where
  "last_pass s w frs n r rest \<longleftrightarrow>
     (if n = length frs then r = Abrupt OutOfScript \<and> rest = []
      else if should_close (frs ! n) then
        r = Normal () \<and> rest = [GlfwPollEvents, GlfwWindowShouldClose (m_window s)]
      else (\<exists>a. r = Abrupt a) \<and>
           (\<exists>k i. 3 \<le> k \<and> rest = take k (frame_calls s i) \<and>
                  (\<forall>j. acquire_res (frs ! n) = Inr j \<longrightarrow> j = i)) \<and>
           (fences_ready s w \<longrightarrow> \<not> pass_succeeds s (frs ! n)))"

section \<open>Sample environments\<close>

text \<open>A world in which nothing has happened yet.\<close>

definition world0 :: world where
  "world0 = \<lparr> trace = [], next_handle = 1, fence_state = Map.empty \<rparr>"

definition caps_1280x720 :: surface_caps where
  "caps_1280x720 =
     \<lparr> currentExtent_width = 1280, currentExtent_height = 720,
       minImageCount = 2, maxImageCount = 8, supports_color_attachment = True \<rparr>"

definition frame_close :: frame where
  "frame_close =
     \<lparr> should_close = True, acquire_res = Inr 0, wait_res = None, reset_res = None,
       begin_res = None, end_res = None, submit_res = None, present_res = None \<rparr>"

definition frame_ok :: "32 word \<Rightarrow> frame" where
  "frame_ok i = frame_close\<lparr> should_close := False, acquire_res := Inr i \<rparr>"

text \<open>A conformant driver with a swapchain of two images; the window is closed at once.\<close>

definition env_ok :: env where
  "env_ok =
     \<lparr> createWindow_ok = True,
       instance_extensions = (\<lambda>_. Inr [''VK_KHR_surface'', ''VK_KHR_win32_surface'']),
       createInstance_res = None,
       physical_devices = Inr [100],
       queue_family_properties = [\<lparr> has_graphics = True, queueCount = 16 \<rparr>],
       createDevice_res = None,
       createSurface_res = Inr True,
       surfaceSupport_res = Inr True,
       surfaceCapabilities_res = Inr caps_1280x720,
       surfaceFormats_res = Inr [eB8G8R8A8Unorm],
       surfacePresentModes_res = Inr [eFifo, eMailbox],
       createSwapchain_res = None,
       swapchainImages_res = Inr 2,
       createImageView_res = (\<lambda>_. None),
       createRenderPass_res = None,
       createFramebuffer_res = (\<lambda>_. None),
       createCommandPool_res = None,
       allocateCommandBuffers_res = None,
       createPipelineLayout_res = None,
       createShaderModule_res = (\<lambda>_. None),
       createGraphicsPipeline_res = None,
       createFence_res = (\<lambda>_. None),
       createSemaphore_res = (\<lambda>_. None),
       frames = [frame_close],
       waitIdle_res = None \<rparr>"

text \<open>
  The run the program is written for: two frames are drawn, then the wait on the fence of
  the first image reports the loss of the device.
\<close>

definition env_lost :: env where
  "env_lost =
     env_ok\<lparr> frames := [frame_ok 0, frame_ok 1, (frame_ok 0)\<lparr> wait_res := Some ErrorDeviceLost \<rparr>],
             waitIdle_res := Some ErrorDeviceLost \<rparr>"

text \<open>A system without the Win32 surface extension.\<close>

definition env_no_win32 :: env where
  "env_no_win32 = env_ok\<lparr> instance_extensions := (\<lambda>_. Inr [''VK_KHR_surface'']) \<rparr>"

text \<open>The device is lost while it is being created: \<^verbatim>\<open>vkCreateDevice\<close> may say so.\<close>

definition env_lost_in_init :: env where
  "env_lost_in_init = env_ok\<lparr> createDevice_res := Some ErrorDeviceLost \<rparr>"

text \<open>A surface of another size than the window that was asked for.\<close>

definition env_other_extent :: env where
  "env_other_extent =
     env_ok\<lparr> surfaceCapabilities_res :=
       Inr (caps_1280x720\<lparr> currentExtent_width := 800, currentExtent_height := 600 \<rparr>) \<rparr>"


subsection \<open>States reached in the sample environments\<close>

text \<open>
  The scene and the world that \<^verbatim>\<open>initialize()\<close> leaves in \<open>env_ok\<close>, when \<open>h\<close> is
  the first handle given out.
\<close>

definition scene_ok :: "handle \<Rightarrow> scene" where
  "scene_ok h =
     \<lparr> m_window = Some h, m_width = 1280, m_height = 720,
       m_instance = Some (h + 1), m_phys_dev = Some 100, m_gq_fam_idx = 0,
       m_device = Some (h + 2), m_gr_queue = Some (h + 3),
       m_surface = Some (h + 4), m_swapchain = Some (h + 5),
       m_swapchain_imgs = [h + 6, h + 7], m_swapchain_img_views = [h + 8, h + 9],
       m_render_pass = Some (h + 10), m_framebuffers = [h + 11, h + 12],
       m_cmd_b_pool = Some (h + 13), m_command_buffers = [h + 14, h + 15],
       m_vert_shader = Some (h + 17), m_frag_shader = Some (h + 18),
       m_pipeline_layout = Some (h + 16), m_pipeline = Some (h + 19),
       m_fences = [h + 20, h + 21],
       m_present_semaphore = Some (h + 23), m_draw_semaphore = Some (h + 22) \<rparr>"

definition init_calls_ok :: "handle \<Rightarrow> event list" where
  "init_calls_ok h =
     [GlfwInit, GlfwSetErrorCallback, GlfwWindowHint_ClientApi_NoApi,
      GlfwCreateWindow 1280 720,
      EnumerateInstanceExtensionProperties, EnumerateInstanceExtensionProperties,
      CreateInstance [''VK_KHR_surface'', ''VK_KHR_win32_surface''] [],
      EnumeratePhysicalDevices, GetQueueFamilyProperties,
      CreateDevice 0 [''VK_KHR_swapchain''], GetDeviceQueue 0 0,
      CreateWin32Surface (Some h), GetSurfaceSupport 0,
      GetSurfaceCapabilities, GetSurfaceFormats, GetSurfacePresentModes,
      CreateSwapchain 2 eB8G8R8A8Unorm 1280 720 eFifo, GetSwapchainImages,
      CreateImageView (h + 6), CreateImageView (h + 7), CreateRenderPass,
      CreateFramebuffer (h + 8), CreateFramebuffer (h + 9), CreateCommandPool,
      AllocateCommandBuffers 2, CreatePipelineLayout,
      CreateShaderModule Vertex_vert, CreateShaderModule Fragment_frag,
      CreateGraphicsPipeline, CreateFence True, CreateFence True,
      CreateSemaphore, CreateSemaphore]"

definition world_ok :: "world \<Rightarrow> world" where
  "world_ok w =
     w\<lparr> trace := trace w @ init_calls_ok (next_handle w),
        next_handle := next_handle w + 24,
        fence_state := (fence_state w)
          (next_handle w + 20 \<mapsto> Signaled, next_handle w + 21 \<mapsto> Signaled) \<rparr>"

text \<open>
  The world that the first lifecycle leaves in \<open>env_lost\<close>: two frames are drawn, the
  third one stops in the wait for the fence.
\<close>

definition world_lost :: "world \<Rightarrow> world" where
  "world_lost w =
     (let s = scene_ok (next_handle w) in
      w\<lparr> trace := trace w @ init_calls_ok (next_handle w) @
                   frame_calls s 0 @ frame_calls s 1 @ take 4 (frame_calls s 0),
         next_handle := next_handle w + 24,
         fence_state := (fence_state w)
           (next_handle w + 20 \<mapsto> Pending, next_handle w + 21 \<mapsto> Pending) \<rparr>)"

section \<open>Reasoning about programs\<close>

lemmas prog_defs = return_def abort_def throw_def bnd_def get_scene_def modify_scene_def
  get_world_def modify_world_def emit_def fresh_def vk_check_def vk_value_def vk_create_def
  at_index_def set_fence_def log_event_def

subsection \<open>Relations kept by every program\<close>

lemma preservesI: "(\<And>s w. R (s, w) (snd (m (s, w)))) \<Longrightarrow> preserves R m"
  by (simp add: preserves_def)

lemma preservesD: "preserves R m \<Longrightarrow> m \<sigma> = (r, \<sigma>') \<Longrightarrow> R \<sigma> \<sigma>'"
  unfolding preserves_def by (metis snd_conv)

named_theorems preserves_intros

lemma preserves_return [preserves_intros]: "reflp R \<Longrightarrow> preserves R (return x)"
  by (simp add: preserves_def return_def reflpD)

lemma preserves_abort [preserves_intros]: "reflp R \<Longrightarrow> preserves R (abort a)"
  by (simp add: preserves_def abort_def reflpD)

lemma preserves_throw [preserves_intros]: "reflp R \<Longrightarrow> preserves R (throw e)"
  by (simp add: throw_def preserves_abort)

lemma preserves_get_scene [preserves_intros]: "reflp R \<Longrightarrow> preserves R get_scene"
  by (simp add: preserves_def get_scene_def reflpD)

lemma preserves_get_world [preserves_intros]: "reflp R \<Longrightarrow> preserves R get_world"
  by (simp add: preserves_def get_world_def reflpD)

lemma preserves_bnd [preserves_intros]:
  assumes "transp R" and "preserves R m" and "\<And>x. preserves R (f x)"
  shows "preserves R (bnd m f)"
proof (rule preservesI)
  fix s w
  obtain r \<sigma>' where m: "m (s, w) = (r, \<sigma>')" by (cases "m (s, w)")
  have 1: "R (s, w) \<sigma>'" using assms(2) m by (rule preservesD)
  show "R (s, w) (snd (bnd m f (s, w)))"
  proof (cases r)
    case (Normal x)
    obtain r' \<sigma>'' where f: "f x \<sigma>' = (r', \<sigma>'')" by (cases "f x \<sigma>'")
    have "R \<sigma>' \<sigma>''" using assms(3) f by (rule preservesD)
    with 1 have "R (s, w) \<sigma>''" using assms(1) by (blast dest: transpD)
    then show ?thesis by (simp add: bnd_def m Normal f)
  next
    case (Abrupt a)
    then show ?thesis using 1 by (simp add: bnd_def m)
  qed
qed

lemma preserves_if [preserves_intros]:
  "preserves R a \<Longrightarrow> preserves R b \<Longrightarrow> preserves R (if c then a else b)"
  by simp

lemma preserves_case_option [preserves_intros]:
  "preserves R a \<Longrightarrow> (\<And>x. preserves R (b x)) \<Longrightarrow> preserves R (case v of None \<Rightarrow> a | Some x \<Rightarrow> b x)"
  by (cases v) simp_all

lemma preserves_case_sum [preserves_intros]:
  "(\<And>x. preserves R (a x)) \<Longrightarrow> (\<And>x. preserves R (b x)) \<Longrightarrow>
   preserves R (case v of Inl x \<Rightarrow> a x | Inr x \<Rightarrow> b x)"
  by (cases v) simp_all

lemma preserves_case_prod [preserves_intros]:
  "(\<And>x y. preserves R (a x y)) \<Longrightarrow> preserves R (case v of (x, y) \<Rightarrow> a x y)"
  by (cases v) simp

lemma preserves_case_fence [preserves_intros]:
  "preserves R a \<Longrightarrow> preserves R b \<Longrightarrow> preserves R c \<Longrightarrow>
   preserves R (case v of Signaled \<Rightarrow> a | Unsignaled \<Rightarrow> b | Pending \<Rightarrow> c)"
  by (cases v) simp_all

lemma preserves_vk_check [preserves_intros]: "reflp R \<Longrightarrow> preserves R (vk_check m r)"
  by (simp add: vk_check_def preserves_intros split: option.split)

lemma preserves_vk_value [preserves_intros]: "reflp R \<Longrightarrow> preserves R (vk_value m r)"
  by (simp add: vk_value_def preserves_intros split: sum.split)

lemma preserves_at_index [preserves_intros]: "reflp R \<Longrightarrow> preserves R (at_index v i)"
  by (simp add: at_index_def preserves_intros)

lemma preserves_block [preserves_intros]:
  "reflp R \<Longrightarrow> transp R \<Longrightarrow> list_all (preserves R) ms \<Longrightarrow> preserves R (block ms)"
  by (induction ms) (simp_all add: preserves_intros)

lemma preserves_foreach [preserves_intros]:
  "reflp R \<Longrightarrow> transp R \<Longrightarrow> (\<And>x. preserves R (body x)) \<Longrightarrow> preserves R (foreach xs body)"
  by (induction xs) (simp_all add: preserves_intros)

lemma preserves_modify_scene:
  "(\<And>s w. R (s, w) (f s, w)) \<Longrightarrow> preserves R (modify_scene f)"
  by (simp add: preserves_def modify_scene_def)

lemma preserves_modify_world:
  "(\<And>s w. R (s, w) (s, f w)) \<Longrightarrow> preserves R (modify_world f)"
  by (simp add: preserves_def modify_world_def)

subsection \<open>Traces\<close>

lemma emitted_self [simp]: "emitted w w = []"
  by (simp add: emitted_def)

lemma emitted_log [simp]: "emitted w (w\<lparr>trace := trace w @ evs\<rparr>) = evs"
  by (simp add: emitted_def)

lemma extends_with_refl: "reflp (extends_with P)"
  by (simp add: reflp_def extends_with_def)

lemma extends_withD:
  "extends_with P \<sigma> \<sigma>' \<Longrightarrow> trace (snd \<sigma>') = trace (snd \<sigma>) @ emitted (snd \<sigma>) (snd \<sigma>')"
  unfolding extends_with_def emitted_def by (metis append_take_drop_id)

lemma extends_withI:
  "trace (snd \<sigma>') = trace (snd \<sigma>) @ evs \<Longrightarrow> list_all P evs \<Longrightarrow> extends_with P \<sigma> \<sigma>'"
  by (simp add: extends_with_def emitted_def)

lemma extends_with_emitted_append:
  assumes "extends_with P \<sigma> \<sigma>'" and "extends_with Q \<sigma>' \<sigma>''"
  shows "emitted (snd \<sigma>) (snd \<sigma>'') = emitted (snd \<sigma>) (snd \<sigma>') @ emitted (snd \<sigma>') (snd \<sigma>'')"
proof -
  have "trace (snd \<sigma>'') = trace (snd \<sigma>) @ emitted (snd \<sigma>) (snd \<sigma>') @ emitted (snd \<sigma>') (snd \<sigma>'')"
    using extends_withD [OF assms(1)] extends_withD [OF assms(2)] by simp
  then show ?thesis by (metis append_eq_conv_conj emitted_def)
qed

lemma extends_with_trans: "transp (extends_with P)"
proof (rule transpI)
  fix \<sigma> \<sigma>' \<sigma>''
  assume a: "extends_with P \<sigma> \<sigma>'" and b: "extends_with P \<sigma>' \<sigma>''"
  have "trace (snd \<sigma>'') = trace (snd \<sigma>) @ (emitted (snd \<sigma>) (snd \<sigma>') @ emitted (snd \<sigma>') (snd \<sigma>''))"
    using extends_withD [OF a] extends_withD [OF b] by simp
  moreover have "list_all P (emitted (snd \<sigma>) (snd \<sigma>') @ emitted (snd \<sigma>') (snd \<sigma>''))"
    using a b by (simp add: extends_with_def)
  ultimately show "extends_with P \<sigma> \<sigma>''" by (rule extends_withI)
qed

lemma extends_with_mono:
  "extends_with P \<sigma> \<sigma>' \<Longrightarrow> (\<And>ev. P ev \<Longrightarrow> Q ev) \<Longrightarrow> extends_with Q \<sigma> \<sigma>'"
  by (auto simp: extends_with_def list_all_iff)

lemma preserves_mono:
  "preserves (extends_with P) m \<Longrightarrow> (\<And>ev. P ev \<Longrightarrow> Q ev) \<Longrightarrow> preserves (extends_with Q) m"
  by (auto simp: preserves_def intro: extends_with_mono)

lemma ext_emit [preserves_intros]: "P ev \<Longrightarrow> preserves (extends_with P) (emit ev)"
  by (simp add: preserves_def emit_def modify_world_def extends_with_def log_event_def emitted_def)

lemma ext_modify_scene [preserves_intros]: "preserves (extends_with P) (modify_scene f)"
  by (simp add: preserves_def modify_scene_def extends_with_def)

lemma ext_fresh [preserves_intros]: "preserves (extends_with P) fresh"
  by (simp add: preserves_def extends_with_def emitted_def prog_defs)

lemma ext_set_fence [preserves_intros]: "preserves (extends_with P) (set_fence h st)"
  by (simp add: preserves_def extends_with_def emitted_def prog_defs)

lemma ext_fresh_n [preserves_intros]: "preserves (extends_with P) (fresh_n n)"
  by (induction n) (simp_all add: preserves_intros extends_with_refl extends_with_trans)

lemma ext_vk_create [preserves_intros]: "P ev \<Longrightarrow> preserves (extends_with P) (vk_create ev m r)"
  by (simp add: vk_create_def preserves_intros extends_with_refl extends_with_trans)

lemmas ext_intros = preserves_intros extends_with_refl extends_with_trans

lemma ext_createWindowAndSurface:
  "preserves (extends_with (\<lambda>ev. caller_of ev = Init 1)) (createWindowAndSurface env)"
  unfolding createWindowAndSurface_def glfwCreateWindow_def
  by (intro ext_intros) simp_all

lemma ext_initializeVKInstance:
  "preserves (extends_with (\<lambda>ev. caller_of ev = Init 2)) (initializeVKInstance env)"
  unfolding initializeVKInstance_def isInstanceExtensionAvailable_def
  by (intro ext_intros) simp_all

lemma ext_selectQueueFamilyAndPhysicalDevice:
  "preserves (extends_with (\<lambda>ev. caller_of ev = Init 3)) (selectQueueFamilyAndPhysicalDevice env)"
  unfolding selectQueueFamilyAndPhysicalDevice_def
  by (intro ext_intros) simp_all

lemma ext_initializeDevice:
  "preserves (extends_with (\<lambda>ev. caller_of ev = Init 4)) (initializeDevice env)"
  unfolding initializeDevice_def
  by (intro ext_intros) simp_all

lemma ext_createSurface:
  "preserves (extends_with (\<lambda>ev. caller_of ev = Init 5)) (createSurface env)"
  unfolding createSurface_def
  by (intro ext_intros) simp_all

lemma ext_createSwapChainAndImages:
  "preserves (extends_with (\<lambda>ev. caller_of ev = Init 6)) (createSwapChainAndImages env)"
  unfolding createSwapChainAndImages_def
  by (intro ext_intros) simp_all

lemma ext_createSwapChainImageViews:
  "preserves (extends_with (\<lambda>ev. caller_of ev = Init 7)) (createSwapChainImageViews env)"
  unfolding createSwapChainImageViews_def
  by (intro ext_intros) simp_all

lemma ext_createPass:
  "preserves (extends_with (\<lambda>ev. caller_of ev = Init 8)) (createPass env)"
  unfolding createPass_def
  by (intro ext_intros) simp_all

lemma ext_createFramebuffer:
  "preserves (extends_with (\<lambda>ev. caller_of ev = Init 9)) (createFramebuffer env)"
  unfolding createFramebuffer_def
  by (intro ext_intros) simp_all

lemma ext_allocateCommandBuffers:
  "preserves (extends_with (\<lambda>ev. caller_of ev = Init 10)) (allocateCommandBuffers env)"
  unfolding allocateCommandBuffers_def
  by (intro ext_intros) simp_all

lemma ext_createShaderInterface:
  "preserves (extends_with (\<lambda>ev. caller_of ev = Init 11)) (createShaderInterface env)"
  unfolding createShaderInterface_def
  by (intro ext_intros) simp_all

lemma ext_createPipeline:
  "preserves (extends_with (\<lambda>ev. caller_of ev = Init 12)) (createPipeline env)"
  unfolding createPipeline_def createShader_def
  by (intro ext_intros) simp_all

lemma ext_initSyncEntities:
  "preserves (extends_with (\<lambda>ev. caller_of ev = Init 13)) (initSyncEntities env)"
  unfolding initSyncEntities_def createFenceUnique_def createSemaphoreUnique_def
  by (intro ext_intros) simp_all

subsection \<open>Evaluation\<close>

lemmas init_defs = initialize_def createWindowAndSurface_def glfwCreateWindow_def
  initializeVKInstance_def isInstanceExtensionAvailable_def
  selectQueueFamilyAndPhysicalDevice_def initializeDevice_def createSurface_def
  createSwapChainAndImages_def createSwapChainImageViews_def createPass_def
  createFramebuffer_def allocateCommandBuffers_def createShaderInterface_def
  createShader_def createPipeline_def createSemaphoreUnique_def createFenceUnique_def
  initSyncEntities_def

lemmas run_defs = run_def loop_pass_def render_frame_def buildCommandBuffer_def
  waitForFences_def resetFences_def queue_submit_def

lemmas const_defs = m_swapchain_format_def m_present_mode_def m_sw_num_images_def
  VK_KHR_SURFACE_EXTENSION_NAME_def VK_KHR_WIN32_SURFACE_EXTENSION_NAME_def
  VK_KHR_SWAPCHAIN_EXTENSION_NAME_def UINT64_MAX_def

lemmas sample_defs = env_ok_def world0_def caps_1280x720_def frame_close_def
  frame_ok_def Scene_new_def

lemma fresh_n_numeral:
  "fresh_n (numeral k) = bnd fresh (\<lambda>h. bnd (fresh_n (pred_numeral k)) (\<lambda>hs. return (h # hs)))"
  by (simp add: numeral_eq_Suc)

lemma upt_0_2: "[0..<2] = [0, 1]"
  by (simp add: upt_rec)

lemmas eval_simps = init_defs prog_defs const_defs sample_defs fresh_n_numeral upt_0_2

subsection \<open>The first step of initialize\<close>

lemma createWindowAndSurface_ok:
  "createWindow_ok env \<Longrightarrow>
   createWindowAndSurface env (s, w) =
     (Normal (),
      (s\<lparr>m_window := Some (next_handle w)\<rparr>,
       w\<lparr>trace := trace w @
            [GlfwInit, GlfwSetErrorCallback, GlfwWindowHint_ClientApi_NoApi,
             GlfwCreateWindow (m_width s) (m_height s)],
         next_handle := Suc (next_handle w)\<rparr>))"
  by (simp add: createWindowAndSurface_def glfwCreateWindow_def prog_defs)

subsection \<open>shutdown in closed form\<close>

lemma shutdown_eq:
  "shutdown env (s, w) = (Normal (), (s, w\<lparr>trace := trace w @ shutdown_calls s\<rparr>))"
  by (cases "m_device s"; cases "m_window s"; cases "waitIdle_res env")
     (simp_all add: shutdown_def waitIdle_def try_catch_all_def shutdown_calls_def prog_defs)

subsection \<open>initialize in the sample environment\<close>

lemma initialize_env_ok:
  "initialize (env_ok\<lparr>frames := frs, waitIdle_res := r\<rparr>) (Scene_new g, w) =
     (Normal (), (scene_ok (next_handle w), world_ok w))"
  apply (simp add: init_defs prog_defs const_defs env_ok_def caps_1280x720_def Scene_new_def
      fresh_n_numeral upt_0_2 scene_ok_def world_ok_def init_calls_ok_def)
  apply (rule world.equality)
     apply simp_all
  apply (rule ext)
  apply simp
  done

lemma env_ok_frames: "env_ok\<lparr>frames := [frame_close], waitIdle_res := None\<rparr> = env_ok"
  by (simp add: env_ok_def)

lemma initialize_env_lost:
  "initialize env_lost (Scene_new g, w) = (Normal (), (scene_ok (next_handle w), world_ok w))"
  unfolding env_lost_def by (rule initialize_env_ok)

lemma initialize_env_ok':
  "initialize env_ok (Scene_new g, w) = (Normal (), (scene_ok (next_handle w), world_ok w))"
  using initialize_env_ok [where frs = "[frame_close]" and r = None and g = g and w = w]
  by (simp only: env_ok_frames)

section \<open>The calls of initialize\<close>

lemma ext_initialize:
  "preserves (extends_with (\<lambda>ev. \<exists>k. caller_of ev = Init k)) (initialize env)"
  unfolding initialize_def
  by (rule preserves_block)
     (auto simp: extends_with_refl extends_with_trans
        intro: preserves_mono [OF ext_createWindowAndSurface]
          preserves_mono [OF ext_initializeVKInstance]
          preserves_mono [OF ext_selectQueueFamilyAndPhysicalDevice]
          preserves_mono [OF ext_initializeDevice]
          preserves_mono [OF ext_createSurface]
          preserves_mono [OF ext_createSwapChainAndImages]
          preserves_mono [OF ext_createSwapChainImageViews]
          preserves_mono [OF ext_createPass]
          preserves_mono [OF ext_createFramebuffer]
          preserves_mono [OF ext_allocateCommandBuffers]
          preserves_mono [OF ext_createShaderInterface]
          preserves_mono [OF ext_createPipeline]
          preserves_mono [OF ext_initSyncEntities])

lemma ext_after_window:
  "preserves (extends_with (\<lambda>ev. ev \<noteq> GlfwInit))
     (block
        [initializeVKInstance env,
         selectQueueFamilyAndPhysicalDevice env,
         initializeDevice env,
         createSurface env,
         createSwapChainAndImages env,
         createSwapChainImageViews env,
         createPass env,
         createFramebuffer env,
         allocateCommandBuffers env,
         createShaderInterface env,
         createPipeline env,
         initSyncEntities env])"
  by (rule preserves_block)
     (auto simp: extends_with_refl extends_with_trans
        intro: preserves_mono [OF ext_initializeVKInstance]
          preserves_mono [OF ext_selectQueueFamilyAndPhysicalDevice]
          preserves_mono [OF ext_initializeDevice]
          preserves_mono [OF ext_createSurface]
          preserves_mono [OF ext_createSwapChainAndImages]
          preserves_mono [OF ext_createSwapChainImageViews]
          preserves_mono [OF ext_createPass]
          preserves_mono [OF ext_createFramebuffer]
          preserves_mono [OF ext_allocateCommandBuffers]
          preserves_mono [OF ext_createShaderInterface]
          preserves_mono [OF ext_createPipeline]
          preserves_mono [OF ext_initSyncEntities])

lemma count_list_0: "list_all (\<lambda>ev. ev \<noteq> x) evs \<Longrightarrow> count_list evs x = 0"
  by (induction evs) auto

lemma createWindowAndSurface_trace:
  "trace (snd (snd (createWindowAndSurface env (s, w)))) =
     trace w @ [GlfwInit, GlfwSetErrorCallback, GlfwWindowHint_ClientApi_NoApi,
                GlfwCreateWindow (m_width s) (m_height s)]"
  by (simp add: createWindowAndSurface_def glfwCreateWindow_def prog_defs)

lemma initialize_one_GlfwInit:
  assumes "initialize env (s, w) = (r, (s', w'))"
  shows "count_list (emitted w w') GlfwInit = 1"
proof -
  let ?rest = "block
        [initializeVKInstance env,
         selectQueueFamilyAndPhysicalDevice env,
         initializeDevice env,
         createSurface env,
         createSwapChainAndImages env,
         createSwapChainImageViews env,
         createPass env,
         createFramebuffer env,
         allocateCommandBuffers env,
         createShaderInterface env,
         createPipeline env,
         initSyncEntities env]"
  obtain r1 s1 w1 where c: "createWindowAndSurface env (s, w) = (r1, (s1, w1))"
    by (metis surj_pair)
  have t1: "trace w1 = trace w @ [GlfwInit, GlfwSetErrorCallback, GlfwWindowHint_ClientApi_NoApi,
                GlfwCreateWindow (m_width s) (m_height s)]"
    using createWindowAndSurface_trace [of env s w] by (simp add: c)
  have init: "initialize env = bnd (createWindowAndSurface env) (\<lambda>_. ?rest)"
    by (simp add: initialize_def)
  show ?thesis
  proof (cases r1)
    case (Abrupt a)
    then have "w' = w1" using assms c by (simp add: init bnd_def)
    then show ?thesis by (simp add: emitted_def t1)
  next
    case (Normal u)
    then have rest: "?rest (s1, w1) = (r, (s', w'))" using assms c by (simp add: init bnd_def)
    have e: "extends_with (\<lambda>ev. ev \<noteq> GlfwInit) (s1, w1) (s', w')"
      using ext_after_window rest by (rule preservesD)
    have "trace w' = trace w1 @ emitted w1 w'"
      using extends_withD [OF e] by simp
    then have "emitted w w' = [GlfwInit, GlfwSetErrorCallback, GlfwWindowHint_ClientApi_NoApi,
                GlfwCreateWindow (m_width s) (m_height s)] @ emitted w1 w'"
      by (simp add: t1 emitted_def [of w w'])
    moreover have "count_list (emitted w1 w') GlfwInit = 0"
      using e by (simp add: extends_with_def count_list_0)
    ultimately show ?thesis by simp
  qed
qed

section \<open>main in closed form\<close>

lemma log_event_shutdown:
  "shutdown env (s, log_event ev w) =
     (Normal (), (s, w\<lparr>trace := trace w @ ev # shutdown_calls s\<rparr>))"
  by (simp add: shutdown_eq log_event_def)

lemma re_init_Normal:
  "initialize env (Scene_new g, w) = (Normal (), (s, w1)) \<Longrightarrow>
   re_init g env rv w =
     (Normal rv,
      w1\<lparr>trace := trace w1 @
         Cout ''re-initialization successful'' # shutdown_calls s @ [SystemCall ''pause'']\<rparr>)"
  by (simp add: re_init_def log_event_shutdown) (simp add: log_event_def)

lemma re_init_Throw:
  "initialize env (Scene_new g, w) = (Abrupt (Throw e), (s, w1)) \<Longrightarrow>
   re_init g env rv w =
     (Normal 1,
      w1\<lparr>trace := trace w1 @
         Cerr (''Error Occurred: '' @ what e) # shutdown_calls s @ [SystemCall ''pause'']\<rparr>)"
  by (simp add: re_init_def log_event_shutdown) (simp add: log_event_def)

lemma re_init_other:
  "initialize env (Scene_new g, w) = (r, (s, w1)) \<Longrightarrow> \<not> returns_or_throws r \<Longrightarrow>
   re_init g env rv w = (Abrupt (case r of Abrupt a \<Rightarrow> a), w1)"
  by (cases r rule: returns_or_throws.cases) (simp_all add: re_init_def)

lemma main_prog_Normal:
  "first_try env1 (Scene_new g1, log_event SetProcessDPIAware w0) = (Normal (), (s1, w1)) \<Longrightarrow>
   main_prog g1 g2 env1 env2 w0 = (Normal 0, w1\<lparr>trace := trace w1 @ shutdown_calls s1\<rparr>)"
  by (simp add: main_prog_def shutdown_eq)

lemma main_prog_lost:
  "first_try env1 (Scene_new g1, log_event SetProcessDPIAware w0) =
     (Abrupt (Throw (DeviceLostError m)), (s1, w1)) \<Longrightarrow>
   main_prog g1 g2 env1 env2 w0 =
     re_init g2 env2 0
       (w1\<lparr>trace := trace w1 @ Cerr ''Device Lost, re-init...'' # shutdown_calls s1\<rparr>)"
  by (simp add: main_prog_def log_event_shutdown)

lemma main_prog_error:
  "first_try env1 (Scene_new g1, log_event SetProcessDPIAware w0) =
     (Abrupt (Throw e), (s1, w1)) \<Longrightarrow>
   \<not> is_device_lost (Abrupt (Throw e) :: unit outcome) \<Longrightarrow>
   main_prog g1 g2 env1 env2 w0 =
     (Normal 1,
      w1\<lparr>trace := trace w1 @ Cerr (''Error Occurred: '' @ what e) # shutdown_calls s1\<rparr>)"
  by (cases e) (simp_all add: main_prog_def log_event_shutdown)

lemma caller_of_shutdown_calls: "list_all (\<lambda>ev. caller_of ev = Shutdown) (shutdown_calls s)"
  by (simp add: shutdown_calls_def split: option.split)

lemma shutdown_calls_not_Run: "list_all (\<lambda>ev. caller_of ev \<noteq> Run) (shutdown_calls s)"
  by (simp add: shutdown_calls_def split: option.split)

lemma shutdown_calls_no_GlfwInit: "count_list (shutdown_calls s) GlfwInit = 0"
  by (simp add: shutdown_calls_def split: option.split)

lemma initialize_trace:
  assumes "initialize env (s, w) = (r, (s', w'))"
  shows "trace w' = trace w @ emitted w w'"
    and "list_all (\<lambda>ev. caller_of ev \<noteq> Run) (emitted w w')"
proof -
  have e: "extends_with (\<lambda>ev. \<exists>k. caller_of ev = Init k) (s, w) (s', w')"
    using ext_initialize assms by (rule preservesD)
  show "trace w' = trace w @ emitted w w'"
    using extends_withD [OF e] by simp
  show "list_all (\<lambda>ev. caller_of ev \<noteq> Run) (emitted w w')"
    using e by (auto simp: extends_with_def list_all_iff)
qed

text \<open>What the second part of \<open>main\<close> adds to the trace.\<close>

lemma re_init_emitted:
  assumes i: "initialize env (Scene_new g, w) = (r2, (s2, w3))"
    and m: "re_init g env rv w = (r, w')"
  shows "trace w' = trace w @ emitted w w'"
    and "take (length (trace w3)) (trace w') = trace w3"
    and "list_all (\<lambda>ev. caller_of ev \<noteq> Run) (emitted w w')"
    and "count_list (emitted w w') GlfwInit = 1"
proof -
  note t = initialize_trace [OF i]
  have c: "count_list (emitted w w3) GlfwInit = 1"
    using i by (rule initialize_one_GlfwInit)
  obtain evs where w': "w' = w3\<lparr>trace := trace w3 @ evs\<rparr>"
    and evs: "list_all (\<lambda>ev. caller_of ev \<noteq> Run) evs" "count_list evs GlfwInit = 0"
  proof (cases r2 rule: returns_or_throws.cases)
    case (1 x)
    with i m have "w' = w3\<lparr>trace := trace w3 @
         Cout ''re-initialization successful'' # shutdown_calls s2 @ [SystemCall ''pause'']\<rparr>"
      by (simp add: re_init_Normal)
    then show ?thesis
      by (rule that) (simp_all add: shutdown_calls_not_Run shutdown_calls_no_GlfwInit)
  next
    case (2 e)
    with i m have "w' = w3\<lparr>trace := trace w3 @
         Cerr (''Error Occurred: '' @ what e) # shutdown_calls s2 @ [SystemCall ''pause'']\<rparr>"
      by (simp add: re_init_Throw)
    then show ?thesis
      by (rule that) (simp_all add: shutdown_calls_not_Run shutdown_calls_no_GlfwInit)
  next
    case "3_1"
    with i m have "w' = w3\<lparr>trace := trace w3 @ []\<rparr>" by (simp add: re_init_def)
    then show ?thesis by (rule that) simp_all
  next
    case "3_2"
    with i m have "w' = w3\<lparr>trace := trace w3 @ []\<rparr>" by (simp add: re_init_def)
    then show ?thesis by (rule that) simp_all
  next
    case "3_3"
    with i m have "w' = w3\<lparr>trace := trace w3 @ []\<rparr>" by (simp add: re_init_def)
    then show ?thesis by (rule that) simp_all
  qed
  have tr: "trace w' = trace w @ emitted w w3 @ evs"
    using t(1) by (simp add: w')
  then have em: "emitted w w' = emitted w w3 @ evs"
    by (simp add: emitted_def [of w w'])
  show "trace w' = trace w @ emitted w w'" by (simp add: tr em)
  show "take (length (trace w3)) (trace w') = trace w3" by (simp add: w')
  show "list_all (\<lambda>ev. caller_of ev \<noteq> Run) (emitted w w')" using t(2) evs by (simp add: em)
  show "count_list (emitted w w') GlfwInit = 1" using c evs by (simp add: em)
qed

lemma bnd_Normal: "m \<sigma> = (Normal x, \<sigma>') \<Longrightarrow> bnd m f \<sigma> = f x \<sigma>'"
  by (simp add: bnd_def)

lemma bnd_Abrupt: "m \<sigma> = (Abrupt a, \<sigma>') \<Longrightarrow> bnd m f \<sigma> = (Abrupt a, \<sigma>')"
  by (simp add: bnd_def)

lemma first_try_env_lost:
  "first_try env_lost (Scene_new g, w) =
     (Abrupt (Throw (DeviceLostError ''vk::Device::waitForFences: ErrorDeviceLost'')),
      (scene_ok (next_handle w), world_lost w))"
  unfolding first_try_def
  by (simp add: bnd_def initialize_env_lost)
     (simp add: run_defs prog_defs env_lost_def frame_ok_def frame_close_def scene_ok_def
      world_ok_def world_lost_def frame_calls_def init_calls_ok_def UINT64_MAX_def Let_def)

lemma first_try_env_ok:
  "first_try env_ok (Scene_new g, w) =
     (Normal (),
      (scene_ok (next_handle w),
       (world_ok w)\<lparr>trace := trace (world_ok w) @
          [GlfwPollEvents, GlfwWindowShouldClose (Some (next_handle w))]\<rparr>))"
  unfolding first_try_def
  by (simp add: bnd_def initialize_env_ok')
     (simp add: run_defs prog_defs env_ok_def frame_close_def scene_ok_def)

subsection \<open>The first lifecycle in the sample environments\<close>

lemma shutdown_calls_scene_ok:
  "shutdown_calls (scene_ok h) = [DeviceWaitIdle, GlfwDestroyWindow h, GlfwTerminate]"
  by (simp add: shutdown_calls_def scene_ok_def)

lemma next_handle_start: "next_handle (log_event ev world0) = 1"
  by (simp add: log_event_def world0_def)

lemma next_handle_world_lost: "next_handle (world_lost w) = next_handle w + 24"
  by (simp add: world_lost_def Let_def)

lemma initialize_env_lost_in_init:
  "initialize env_lost_in_init (Scene_new g, w) =
     (Abrupt (Throw (DeviceLostError ''vk::PhysicalDevice::createDeviceUnique: ErrorDeviceLost'')),
      ((Scene_new g)\<lparr>m_window := Some (next_handle w), m_instance := Some (next_handle w + 1),
          m_phys_dev := Some 100, m_gq_fam_idx := 0\<rparr>,
       w\<lparr>trace := trace w @ take 10 (init_calls_ok (next_handle w)),
         next_handle := next_handle w + 2\<rparr>))"
  by (simp add: init_defs prog_defs const_defs env_lost_in_init_def env_ok_def Scene_new_def
      init_calls_ok_def)

lemma first_try_initialize_Abrupt:
  "initialize env \<sigma> = (Abrupt a, \<sigma>') \<Longrightarrow> first_try env \<sigma> = (Abrupt a, \<sigma>')"
  by (simp add: first_try_def bnd_def)

lemma first_try_initialize_Normal:
  "initialize env \<sigma> = (Normal (), \<sigma>') \<Longrightarrow> first_try env \<sigma> = run env \<sigma>'"
  by (simp add: first_try_def bnd_def)

subsection \<open>A window that is closed at once\<close>

lemma loop_pass_close:
  "should_close fr \<Longrightarrow>
   loop_pass fr (s, w) =
     (Normal True,
      (s, w\<lparr>trace := trace w @ [GlfwPollEvents, GlfwWindowShouldClose (m_window s)]\<rparr>))"
  by (simp add: loop_pass_def prog_defs)

lemma run_close:
  "frames env = fr # frs \<Longrightarrow> should_close fr \<Longrightarrow>
   run env (s, w) =
     (Normal (),
      (s, w\<lparr>trace := trace w @ [GlfwPollEvents, GlfwWindowShouldClose (m_window s)]\<rparr>))"
  by (simp add: run_def bnd_def loop_pass_close return_def)

lemma initialize_env_no_win32:
  "fst (initialize env_no_win32 (Scene_new g, w)) =
     Abrupt (Throw (RuntimeError ''VK_KHR_surface is not available!''))"
  by (simp add: initialize_def createWindowAndSurface_def glfwCreateWindow_def
      initializeVKInstance_def isInstanceExtensionAvailable_def prog_defs const_defs
      env_no_win32_def env_ok_def)

lemma first_try_env_no_win32:
  "fst (first_try env_no_win32 (Scene_new g, w)) =
     Abrupt (Throw (RuntimeError ''VK_KHR_surface is not available!''))"
  using initialize_env_no_win32 [of g w]
  by (cases "initialize env_no_win32 (Scene_new g, w)") (simp add: first_try_def bnd_def)

section \<open>The frame loop\<close>

lemmas frame_defs = loop_pass_def render_frame_def buildCommandBuffer_def
  waitForFences_def resetFences_def queue_submit_def

subsection \<open>Calls in a fixed order\<close>

lemma emits_prefixI:
  assumes "\<And>w. fst (snd (m (s, w))) = s"
    and "\<And>w. \<exists>k. trace (snd (snd (m (s, w)))) = trace w @ take k L"
    and "\<And>w x. fst (m (s, w)) = Normal x \<Longrightarrow> trace (snd (snd (m (s, w)))) = trace w @ L"
  shows "emits_prefix s L m"
  using assms unfolding emits_prefix_def by blast

lemma emits_prefixD:
  assumes "emits_prefix s L m" and "m (s, w) = (r, (s', w'))"
  shows "s' = s" and "\<exists>k. trace w' = trace w @ take k L"
    and "r = Normal x \<Longrightarrow> trace w' = trace w @ L"
  using assms unfolding emits_prefix_def
  by (metis fst_conv snd_conv)+

lemma ep_eq: "emits_prefix s L m \<Longrightarrow> L = L' \<Longrightarrow> emits_prefix s L' m"
  by simp

lemma ep_return: "emits_prefix s [] (return x)"
  by (simp add: emits_prefix_def return_def)

lemma ep_abort: "emits_prefix s [] (abort a)"
  by (simp add: emits_prefix_def abort_def)

lemma ep_throw: "emits_prefix s [] (throw e)"
  by (simp add: throw_def ep_abort)

lemma ep_emit: "emits_prefix s [ev] (emit ev)"
proof (rule emits_prefixI)
  fix w
  have "trace (snd (snd (emit ev (s, w)))) = trace w @ take 1 [ev]"
    by (simp add: prog_defs)
  then show "\<exists>k. trace (snd (snd (emit ev (s, w)))) = trace w @ take k [ev]" ..
qed (simp_all add: prog_defs)

lemma ep_vk_check: "emits_prefix s [] (vk_check m r)"
  by (cases r) (simp_all add: vk_check_def ep_return ep_throw)

lemma ep_set_fence: "emits_prefix s [] (set_fence h st)"
  by (simp add: emits_prefix_def prog_defs)

lemma ep_bnd:
  assumes m: "emits_prefix s L1 m" and f: "\<And>x. emits_prefix s L2 (f x)"
  shows "emits_prefix s (L1 @ L2) (bnd m f)"
proof (rule emits_prefixI)
  fix w
  obtain r s1 w1 where mr: "m (s, w) = (r, (s1, w1))" by (metis surj_pair)
  note d = emits_prefixD [OF m mr]
  obtain k where k: "trace w1 = trace w @ take k L1" using d(2) by blast
  show "fst (snd (bnd m f (s, w))) = s"
  proof (cases r)
    case (Normal x)
    obtain r2 s2 w2 where fr: "f x (s, w1) = (r2, (s2, w2))" by (metis surj_pair)
    show ?thesis using emits_prefixD(1) [OF f fr] by (simp add: bnd_def mr d(1) Normal fr)
  qed (simp add: bnd_def mr d(1))
  show "\<exists>k. trace (snd (snd (bnd m f (s, w)))) = trace w @ take k (L1 @ L2)"
  proof (cases r)
    case (Normal x)
    obtain r2 s2 w2 where fr: "f x (s, w1) = (r2, (s2, w2))" by (metis surj_pair)
    obtain j where "trace w2 = trace w1 @ take j L2"
      using emits_prefixD(2) [OF f fr] by blast
    then have "trace w2 = trace w @ take (length L1 + j) (L1 @ L2)"
      using d(3) [of x] Normal by simp
    moreover have "snd (snd (bnd m f (s, w))) = w2"
      by (simp add: bnd_def mr d(1) Normal fr)
    ultimately show ?thesis by metis
  next
    case (Abrupt a)
    have "trace w1 = trace w @ take (min k (length L1)) (L1 @ L2)"
      by (simp add: k min_def)
    moreover have "snd (snd (bnd m f (s, w))) = w1"
      by (simp add: bnd_def mr Abrupt)
    ultimately show ?thesis by metis
  qed
  fix y
  assume n: "fst (bnd m f (s, w)) = Normal y"
  show "trace (snd (snd (bnd m f (s, w)))) = trace w @ L1 @ L2"
  proof (cases r)
    case (Normal x)
    obtain r2 s2 w2 where fr: "f x (s, w1) = (r2, (s2, w2))" by (metis surj_pair)
    have "r2 = Normal y" using n by (simp add: bnd_def mr d(1) Normal fr)
    then have "trace w2 = trace w1 @ L2" using emits_prefixD(3) [OF f fr] by simp
    then show ?thesis using d(3) [of x] Normal by (simp add: bnd_def mr d(1) fr)
  next
    case (Abrupt a)
    then show ?thesis using n by (simp add: bnd_def mr)
  qed
qed

lemma ep_get_scene: "emits_prefix s L (f s) \<Longrightarrow> emits_prefix s L (bnd get_scene f)"
  by (simp add: emits_prefix_def bnd_def get_scene_def)

lemma ep_get_world: "(\<And>w. emits_prefix s L (f w)) \<Longrightarrow> emits_prefix s L (bnd get_world f)"
  by (simp add: emits_prefix_def bnd_def get_world_def)

lemma ep_abort_any: "emits_prefix s L (abort a)"
proof (rule emits_prefixI)
  fix w
  have "trace (snd (snd (abort a (s, w)))) = trace w @ take 0 L"
    by (simp add: abort_def)
  then show "\<exists>k. trace (snd (snd (abort a (s, w)))) = trace w @ take k L" ..
qed (simp_all add: abort_def)

lemma ep_at_index:
  "emits_prefix s L (f (v ! i)) \<Longrightarrow> emits_prefix s L (bnd (at_index v i) f)"
proof (cases "i < length v")
  case True
  assume "emits_prefix s L (f (v ! i))"
  then show ?thesis using True by (simp add: emits_prefix_def bnd_def at_index_def return_def)
next
  case False
  then have "bnd (at_index v i) f = abort Undefined"
    by (simp add: bnd_def at_index_def abort_def fun_eq_iff)
  then show ?thesis by (simp add: ep_abort_any)
qed

lemma ep_vk_value:
  "emits_prefix s L (f x) \<Longrightarrow> emits_prefix s L (bnd (vk_value m (Inr x)) f)"
  by (simp add: emits_prefix_def bnd_def vk_value_def return_def)

lemma ep_vk_value_Inl: "emits_prefix s L (bnd (vk_value m (Inl e)) f)"
proof -
  have "bnd (vk_value m (Inl e)) f = abort (Throw (throwResultException e m))"
    by (simp add: bnd_def vk_value_def throw_def abort_def fun_eq_iff)
  then show ?thesis by (simp add: ep_abort_any)
qed

lemma ep_waitForFences: "emits_prefix s [WaitForFences f b t] (waitForFences r f b t)"
proof -
  have "emits_prefix s [] (case fence_state w f of
       None \<Rightarrow> abort Undefined
     | Some Signaled \<Rightarrow> return ()
     | Some Pending \<Rightarrow> set_fence f Signaled
     | Some Unsignaled \<Rightarrow> abort Blocked)" for w
    by (simp add: ep_return ep_abort ep_set_fence split: option.split fence_status.split)
  then have "emits_prefix s ([WaitForFences f b t] @ [] @ []) (waitForFences r f b t)"
    unfolding waitForFences_def
    by (intro ep_bnd ep_emit ep_vk_check ep_get_world)
  then show ?thesis by simp
qed

lemma ep_resetFences: "emits_prefix s [ResetFences f] (resetFences r f)"
proof -
  have "emits_prefix s ([ResetFences f] @ [] @ []) (resetFences r f)"
    unfolding resetFences_def
    by (intro ep_bnd ep_emit ep_vk_check ep_set_fence)
  then show ?thesis by simp
qed

lemma ep_queue_submit:
  "emits_prefix s [QueueSubmit cmds ws st ss f] (queue_submit r cmds ws st ss f)"
proof -
  have "emits_prefix s ([QueueSubmit cmds ws st ss f] @ [] @ []) (queue_submit r cmds ws st ss f)"
    unfolding queue_submit_def
    by (intro ep_bnd ep_emit ep_vk_check ep_set_fence)
  then show ?thesis by simp
qed

lemma ep_buildCommandBuffer:
  "emits_prefix s
     [CmdBegin (m_command_buffers s ! unat i),
      CmdBeginRenderPass (m_command_buffers s ! unat i) (m_render_pass s)
        (m_framebuffers s ! unat i) [0, 0, 1, 1],
      CmdBindPipeline (m_command_buffers s ! unat i) eGraphics (m_pipeline s),
      CmdDraw (m_command_buffers s ! unat i) 3 1 0 0,
      CmdEndRenderPass (m_command_buffers s ! unat i),
      CmdEnd (m_command_buffers s ! unat i)]
     (buildCommandBuffer fr i)"
  unfolding buildCommandBuffer_def
  apply (rule ep_eq)
   apply (rule ep_get_scene)
   apply (rule ep_at_index)
   apply (rule ep_bnd [OF ep_emit])
   apply (rule ep_bnd [OF ep_vk_check])
   apply (rule ep_at_index)
   apply (rule ep_bnd ep_emit ep_vk_check)+
  apply simp
  done

lemma ep_render_frame:
  assumes "acquire_res fr = Inr i"
  shows "emits_prefix s (drop 2 (frame_calls s i)) (render_frame fr)"
  unfolding render_frame_def assms
  apply (rule ep_eq)
   apply (rule ep_get_scene)
   apply (rule ep_bnd [OF ep_emit])
   apply (rule ep_vk_value)
   apply (rule ep_at_index)
   apply (rule ep_bnd [OF ep_waitForFences])
   apply (rule ep_at_index)
   apply (rule ep_bnd [OF ep_resetFences])
   apply (rule ep_bnd [OF ep_buildCommandBuffer])
   apply (rule ep_at_index)
   apply (rule ep_at_index)
   apply (rule ep_bnd [OF ep_queue_submit])
   apply (rule ep_bnd [OF ep_emit])
   apply (rule ep_vk_check)
  apply (simp add: frame_calls_def Let_def)
  done

lemma ep_loop_pass:
  assumes "\<not> should_close fr" and "acquire_res fr = Inr i"
  shows "emits_prefix s (frame_calls s i) (loop_pass fr)"
  unfolding loop_pass_def
  apply (rule ep_eq)
   apply (rule ep_bnd [OF ep_emit])
   apply (rule ep_get_scene)
   apply (rule ep_bnd [OF ep_emit])
   apply (simp only: assms if_False)
   apply (rule ep_bnd [OF ep_render_frame [OF assms(2)]])
   apply (rule ep_return)
  apply (simp add: frame_calls_def Let_def)
  done

lemma ep_loop_pass_acquire_fails:
  assumes "\<not> should_close fr" and "acquire_res fr = Inl e"
  shows "emits_prefix s (take 3 (frame_calls s j)) (loop_pass fr)"
  unfolding loop_pass_def render_frame_def assms(2)
  apply (rule ep_eq)
   apply (rule ep_bnd [OF ep_emit])
   apply (rule ep_get_scene)
   apply (rule ep_bnd [OF ep_emit])
   apply (simp only: assms if_False)
   apply (rule ep_bnd [where ?L2.0 = "[]"])
    apply (rule ep_get_scene)
    apply (rule ep_bnd [OF ep_emit])
    apply (rule ep_vk_value_Inl [where L = "[]"])
   apply (rule ep_return)
  apply (simp add: frame_calls_def Let_def)
  done

lemma emits_prefix_emitted:
  assumes "emits_prefix s L m"
  shows "fst (snd (m (s, w))) = s"
    and "take (length (trace w)) (trace (snd (snd (m (s, w))))) = trace w"
    and "take (length (emitted w (snd (snd (m (s, w)))))) L = emitted w (snd (snd (m (s, w))))"
    and "fst (m (s, w)) = Normal x \<Longrightarrow> emitted w (snd (snd (m (s, w)))) = L"
proof -
  obtain r s' w' where m: "m (s, w) = (r, (s', w'))" by (metis surj_pair)
  note d = emits_prefixD [OF assms m]
  obtain k where k: "trace w' = trace w @ take k L" using d(2) by blast
  show "fst (snd (m (s, w))) = s" by (simp add: m d(1))
  show "take (length (trace w)) (trace (snd (snd (m (s, w))))) = trace w" by (simp add: m k)
  have "emitted w w' = take k L" by (simp add: emitted_def k)
  then show "take (length (emitted w (snd (snd (m (s, w)))))) L =
      emitted w (snd (snd (m (s, w))))"
    by (simp add: m min_def take_all)
  show "emitted w (snd (snd (m (s, w)))) = L" if "fst (m (s, w)) = Normal x"
    using d(3) [of x] that by (simp add: m emitted_def)
qed

lemma loop_pass_all_ok:
  assumes "\<not> should_close fr" and "acquire_res fr = Inr i"
    and "unat i < length (m_fences s)" and "unat i < length (m_command_buffers s)"
    and "unat i < length (m_framebuffers s)"
    and "fence_state w (m_fences s ! unat i) = Some Signaled \<or>
         fence_state w (m_fences s ! unat i) = Some Pending"
    and "wait_res fr = None" and "reset_res fr = None" and "begin_res fr = None"
    and "end_res fr = None" and "submit_res fr = None" and "present_res fr = None"
  shows "fst (loop_pass fr (s, w)) = Normal False"
  using assms by (auto simp: frame_defs prog_defs)

section \<open>initialize, step by step\<close>

subsection \<open>Parts of the scene that a step leaves alone\<close>

lemma keeps_refl: "reflp (keeps f)"
  by (simp add: reflp_def keeps_def)

lemma keeps_trans: "transp (keeps f)"
  by (simp add: transp_def keeps_def)

lemma keeps_modify_world: "preserves (keeps f) (modify_world g)"
  by (simp add: preserves_def keeps_def modify_world_def)

lemma keeps_emit: "preserves (keeps f) (emit ev)"
  by (simp add: emit_def keeps_modify_world)

lemma keeps_set_fence: "preserves (keeps f) (set_fence h st)"
  by (simp add: set_fence_def keeps_modify_world)

lemma keeps_fresh: "preserves (keeps f) fresh"
  by (simp add: preserves_def keeps_def prog_defs)

lemma keeps_fresh_n: "preserves (keeps f) (fresh_n n)"
  by (induction n) (simp_all add: preserves_intros keeps_refl keeps_trans keeps_fresh)

lemma keeps_vk_create: "preserves (keeps f) (vk_create ev m r)"
  unfolding vk_create_def
  by (intro preserves_bnd preserves_vk_check keeps_emit keeps_fresh keeps_refl keeps_trans)

lemma keeps_modify_scene: "(\<And>s. f (g s) = f s) \<Longrightarrow> preserves (keeps f) (modify_scene g)"
  by (simp add: preserves_def keeps_def modify_scene_def)

lemmas keeps_intros = preserves_return preserves_abort preserves_throw preserves_get_scene
  preserves_get_world preserves_bnd preserves_if preserves_case_option preserves_case_sum
  preserves_case_prod preserves_case_fence preserves_vk_check preserves_vk_value
  preserves_at_index preserves_foreach
  keeps_refl keeps_trans keeps_modify_world keeps_emit keeps_set_fence keeps_fresh
  keeps_fresh_n keeps_vk_create keeps_modify_scene

text \<open>What the first five steps leave alone: the swapchain, its vectors and the size.\<close>

lemma keeps_createWindowAndSurface:
  "(\<And>s x. f (s\<lparr>m_window := x\<rparr>) = f s) \<Longrightarrow>
   preserves (keeps f) (createWindowAndSurface env)"
  unfolding createWindowAndSurface_def glfwCreateWindow_def
  by (intro keeps_intros) simp_all

lemma keeps_initializeVKInstance:
  "(\<And>s x. f (s\<lparr>m_instance := x\<rparr>) = f s) \<Longrightarrow>
   preserves (keeps f) (initializeVKInstance env)"
  unfolding initializeVKInstance_def isInstanceExtensionAvailable_def
  by (intro keeps_intros) simp_all

lemma keeps_selectQueueFamilyAndPhysicalDevice:
  "(\<And>s x. f (s\<lparr>m_phys_dev := x\<rparr>) = f s) \<Longrightarrow> (\<And>s x. f (s\<lparr>m_gq_fam_idx := x\<rparr>) = f s) \<Longrightarrow>
   preserves (keeps f) (selectQueueFamilyAndPhysicalDevice env)"
  unfolding selectQueueFamilyAndPhysicalDevice_def
  by (intro keeps_intros) simp_all

lemma keeps_initializeDevice:
  "(\<And>s x. f (s\<lparr>m_device := x\<rparr>) = f s) \<Longrightarrow> (\<And>s x. f (s\<lparr>m_gr_queue := x\<rparr>) = f s) \<Longrightarrow>
   preserves (keeps f) (initializeDevice env)"
  unfolding initializeDevice_def
  by (intro keeps_intros) simp_all

lemma keeps_createSurface:
  "(\<And>s x. f (s\<lparr>m_surface := x\<rparr>) = f s) \<Longrightarrow>
   preserves (keeps f) (createSurface env)"
  unfolding createSurface_def
  by (intro keeps_intros) simp_all

lemma keeps_createSwapChainAndImages:
  "(\<And>s x. f (s\<lparr>m_swapchain := x\<rparr>) = f s) \<Longrightarrow>
   (\<And>s x. f (s\<lparr>m_swapchain_imgs := x\<rparr>) = f s) \<Longrightarrow>
   preserves (keeps f) (createSwapChainAndImages env)"
  unfolding createSwapChainAndImages_def
  by (intro keeps_intros) simp_all

lemma keeps_createSwapChainImageViews:
  "(\<And>s x. f (s\<lparr>m_swapchain_img_views := x\<rparr>) = f s) \<Longrightarrow>
   preserves (keeps f) (createSwapChainImageViews env)"
  unfolding createSwapChainImageViews_def
  by (intro keeps_intros) simp_all

lemma keeps_createPass:
  "(\<And>s x. f (s\<lparr>m_render_pass := x\<rparr>) = f s) \<Longrightarrow> preserves (keeps f) (createPass env)"
  unfolding createPass_def
  by (intro keeps_intros) simp_all

lemma keeps_createFramebuffer:
  "(\<And>s x. f (s\<lparr>m_framebuffers := x\<rparr>) = f s) \<Longrightarrow>
   preserves (keeps f) (createFramebuffer env)"
  unfolding createFramebuffer_def
  by (intro keeps_intros) simp_all

lemma keeps_allocateCommandBuffers:
  "(\<And>s x. f (s\<lparr>m_cmd_b_pool := x\<rparr>) = f s) \<Longrightarrow>
   (\<And>s x. f (s\<lparr>m_command_buffers := x\<rparr>) = f s) \<Longrightarrow>
   preserves (keeps f) (allocateCommandBuffers env)"
  unfolding allocateCommandBuffers_def
  by (intro keeps_intros) simp_all

lemma keeps_createShaderInterface:
  "(\<And>s x. f (s\<lparr>m_pipeline_layout := x\<rparr>) = f s) \<Longrightarrow>
   preserves (keeps f) (createShaderInterface env)"
  unfolding createShaderInterface_def
  by (intro keeps_intros) simp_all

lemma keeps_createPipeline:
  "(\<And>s x. f (s\<lparr>m_vert_shader := x\<rparr>) = f s) \<Longrightarrow>
   (\<And>s x. f (s\<lparr>m_frag_shader := x\<rparr>) = f s) \<Longrightarrow>
   (\<And>s x. f (s\<lparr>m_pipeline := x\<rparr>) = f s) \<Longrightarrow>
   preserves (keeps f) (createPipeline env)"
  unfolding createPipeline_def createShader_def
  by (intro keeps_intros) simp_all

lemma keeps_initSyncEntities:
  "(\<And>s x. f (s\<lparr>m_fences := x\<rparr>) = f s) \<Longrightarrow>
   (\<And>s x. f (s\<lparr>m_draw_semaphore := x\<rparr>) = f s) \<Longrightarrow>
   (\<And>s x. f (s\<lparr>m_present_semaphore := x\<rparr>) = f s) \<Longrightarrow>
   preserves (keeps f) (initSyncEntities env)"
  unfolding initSyncEntities_def createFenceUnique_def createSemaphoreUnique_def
  by (intro keeps_intros) simp_all

subsection \<open>Steps that can only return or throw\<close>

lemma safeD: "safe m \<Longrightarrow> m \<sigma> = (r, \<sigma>') \<Longrightarrow> returns_or_throws r"
  unfolding safe_def by (metis fst_conv)

lemma safe_return: "safe (return x)"
  by (simp add: safe_def return_def)

lemma safe_throw: "safe (throw e)"
  by (simp add: safe_def throw_def abort_def)

lemma safe_get_scene: "safe get_scene"
  by (simp add: safe_def get_scene_def)

lemma safe_modify_scene: "safe (modify_scene f)"
  by (simp add: safe_def modify_scene_def)

lemma safe_emit: "safe (emit ev)"
  by (simp add: safe_def prog_defs)

lemma safe_fresh: "safe fresh"
  by (simp add: safe_def prog_defs)

lemma safe_bnd:
  assumes "safe m" and "\<And>x. safe (f x)"
  shows "safe (bnd m f)"
  unfolding safe_def
proof
  fix \<sigma>
  obtain r \<sigma>' where mr: "m \<sigma> = (r, \<sigma>')" by (cases "m \<sigma>")
  have rt: "returns_or_throws r" using assms(1) mr by (rule safeD)
  show "returns_or_throws (fst (bnd m f \<sigma>))"
  proof (cases r)
    case (Normal x)
    obtain r2 \<sigma>2 where fr: "f x \<sigma>' = (r2, \<sigma>2)" by (cases "f x \<sigma>'")
    have "returns_or_throws r2" using assms(2) fr by (rule safeD)
    then show ?thesis by (simp add: bnd_def mr Normal fr)
  next
    case (Abrupt a)
    then show ?thesis using rt by (cases a) (simp_all add: bnd_def mr)
  qed
qed

lemma safe_if: "safe a \<Longrightarrow> safe b \<Longrightarrow> safe (if c then a else b)"
  by simp

lemma safe_case_option:
  "safe a \<Longrightarrow> (\<And>x. safe (b x)) \<Longrightarrow> safe (case v of None \<Rightarrow> a | Some x \<Rightarrow> b x)"
  by (cases v) simp_all

lemma safe_vk_check: "safe (vk_check m r)"
  by (cases r) (simp_all add: vk_check_def safe_return safe_throw)

lemma safe_vk_value: "safe (vk_value m r)"
  by (cases r) (simp_all add: vk_value_def safe_return safe_throw)

lemma safe_vk_create: "safe (vk_create ev m r)"
  unfolding vk_create_def by (intro safe_bnd safe_emit safe_vk_check safe_fresh)

lemma safe_block: "list_all safe ms \<Longrightarrow> safe (block ms)"
  by (induction ms) (simp_all add: safe_return safe_bnd)

lemmas safe_intros = safe_return safe_throw safe_get_scene safe_modify_scene safe_emit
  safe_fresh safe_bnd safe_if safe_case_option safe_vk_check safe_vk_value safe_vk_create

lemma safe_createWindowAndSurface: "safe (createWindowAndSurface env)"
  unfolding createWindowAndSurface_def glfwCreateWindow_def by (intro safe_intros)

lemma safe_initializeVKInstance: "safe (initializeVKInstance env)"
  unfolding initializeVKInstance_def isInstanceExtensionAvailable_def by (intro safe_intros)

lemma safe_selectQueueFamilyAndPhysicalDevice: "safe (selectQueueFamilyAndPhysicalDevice env)"
  unfolding selectQueueFamilyAndPhysicalDevice_def by (intro safe_intros)

lemma safe_initializeDevice: "safe (initializeDevice env)"
  unfolding initializeDevice_def by (intro safe_intros)

lemma safe_createSurface: "safe (createSurface env)"
  unfolding createSurface_def by (intro safe_intros)

subsection \<open>The steps before the swapchain\<close>

lemma bnd_assoc: "bnd (bnd m f) g = bnd m (\<lambda>x. bnd (f x) g)"
  by (auto simp: bnd_def fun_eq_iff split: prod.split outcome.split)

lemma bnd_return: "bnd (return x) f = f x"
  by (simp add: bnd_def return_def)

lemma initialize_split:
  "initialize env =
     bnd (before_swapchain env) (\<lambda>_.
     bnd (createSwapChainAndImages env) (\<lambda>_.
     block
       [createSwapChainImageViews env, createPass env, createFramebuffer env,
        allocateCommandBuffers env, createShaderInterface env, createPipeline env,
        initSyncEntities env]))"
  by (simp add: initialize_def before_swapchain_def bnd_assoc bnd_return)

lemma before_swapchain_keeps:
  "preserves
     (keeps (\<lambda>s. (m_swapchain s, m_swapchain_imgs s, m_swapchain_img_views s,
                  m_framebuffers s, m_width s, m_height s)))
     (before_swapchain env)"
  unfolding before_swapchain_def
  by (rule preserves_block)
     (simp_all add: keeps_refl keeps_trans keeps_createWindowAndSurface
        keeps_initializeVKInstance keeps_selectQueueFamilyAndPhysicalDevice
        keeps_initializeDevice keeps_createSurface)

lemma before_swapchain_safe: "safe (before_swapchain env)"
  unfolding before_swapchain_def
  by (rule safe_block)
     (simp add: safe_createWindowAndSurface safe_initializeVKInstance
        safe_selectQueueFamilyAndPhysicalDevice safe_initializeDevice safe_createSurface)

lemma before_swapchain_trace:
  "preserves (extends_with (\<lambda>ev. \<exists>k\<le>5. caller_of ev = Init k)) (before_swapchain env)"
  unfolding before_swapchain_def
  by (rule preserves_block)
     (auto simp: extends_with_refl extends_with_trans
        intro: preserves_mono [OF ext_createWindowAndSurface]
          preserves_mono [OF ext_initializeVKInstance]
          preserves_mono [OF ext_selectQueueFamilyAndPhysicalDevice]
          preserves_mono [OF ext_initializeDevice]
          preserves_mono [OF ext_createSurface])

lemma createSwapChainAndImages_other_extent:
  assumes "surfaceCapabilities_res env = Inr caps"
    and "m_width s \<noteq> currentExtent_width caps \<or> m_height s \<noteq> currentExtent_height caps"
  shows "createSwapChainAndImages env (s, w) =
     (Abrupt (Throw (RuntimeError ''chosen image size not supported by window surface'')),
      (s, w\<lparr>trace := trace w @ [GetSurfaceCapabilities]\<rparr>))"
  using assms by (auto simp: createSwapChainAndImages_def prog_defs)

subsection \<open>What a step that returns has done\<close>

lemma bnd_Normal_iff:
  "bnd m f \<sigma> = (Normal y, \<sigma>'') \<longleftrightarrow> (\<exists>x \<sigma>'. m \<sigma> = (Normal x, \<sigma>') \<and> f x \<sigma>' = (Normal y, \<sigma>''))"
  by (cases "m \<sigma>"; cases "fst (m \<sigma>)") (auto simp: bnd_def)

lemma return_Normal_iff: "return x \<sigma> = (Normal y, \<sigma>') \<longleftrightarrow> y = x \<and> \<sigma>' = \<sigma>"
  by (auto simp: return_def)

lemma abort_Normal_iff: "abort a \<sigma> = (Normal y, \<sigma>') \<longleftrightarrow> False"
  by (simp add: abort_def)

lemma throw_Normal_iff: "throw e \<sigma> = (Normal y, \<sigma>') \<longleftrightarrow> False"
  by (simp add: throw_def abort_def)

lemma get_scene_Normal_iff: "get_scene \<sigma> = (Normal s, \<sigma>') \<longleftrightarrow> s = fst \<sigma> \<and> \<sigma>' = \<sigma>"
  by (auto simp: get_scene_def)

lemma modify_scene_Normal_iff:
  "modify_scene f \<sigma> = (Normal y, \<sigma>') \<longleftrightarrow> \<sigma>' = (f (fst \<sigma>), snd \<sigma>)"
  by (auto simp: modify_scene_def)

lemma emit_Normal_iff:
  "emit ev \<sigma> = (Normal y, \<sigma>') \<longleftrightarrow> \<sigma>' = (fst \<sigma>, (snd \<sigma>)\<lparr>trace := trace (snd \<sigma>) @ [ev]\<rparr>)"
  by (auto simp: prog_defs)

lemma fresh_Normal_iff:
  "fresh \<sigma> = (Normal h, \<sigma>') \<longleftrightarrow>
     h = next_handle (snd \<sigma>) \<and>
     \<sigma>' = (fst \<sigma>, (snd \<sigma>)\<lparr>next_handle := Suc (next_handle (snd \<sigma>))\<rparr>)"
  by (auto simp: prog_defs)

lemma vk_check_Normal_iff: "vk_check m r \<sigma> = (Normal y, \<sigma>') \<longleftrightarrow> r = None \<and> \<sigma>' = \<sigma>"
  by (cases r) (auto simp: prog_defs)

lemma vk_value_Normal_iff: "vk_value m r \<sigma> = (Normal x, \<sigma>') \<longleftrightarrow> r = Inr x \<and> \<sigma>' = \<sigma>"
  by (cases r) (auto simp: prog_defs)

lemma vk_create_Normal_iff:
  "vk_create ev m r \<sigma> = (Normal h, \<sigma>') \<longleftrightarrow>
     r = None \<and> h = next_handle (snd \<sigma>) \<and>
     \<sigma>' = (fst \<sigma>, (snd \<sigma>)\<lparr>trace := trace (snd \<sigma>) @ [ev],
                          next_handle := Suc (next_handle (snd \<sigma>))\<rparr>)"
  by (cases r) (auto simp: prog_defs)

lemma at_index_Normal_iff:
  "at_index v i \<sigma> = (Normal x, \<sigma>') \<longleftrightarrow> i < length v \<and> x = v ! i \<and> \<sigma>' = \<sigma>"
  by (auto simp: prog_defs)

lemma set_fence_Normal_iff:
  "set_fence h st \<sigma> = (Normal y, \<sigma>') \<longleftrightarrow>
     \<sigma>' = (fst \<sigma>, (snd \<sigma>)\<lparr>fence_state := (fence_state (snd \<sigma>))(h \<mapsto> st)\<rparr>)"
  by (auto simp: prog_defs)

lemma fresh_n_Normal:
  "fresh_n n \<sigma> = (Normal hs, \<sigma>') \<Longrightarrow>
     hs = [next_handle (snd \<sigma>)..<next_handle (snd \<sigma>) + n] \<and>
     \<sigma>' = (fst \<sigma>, (snd \<sigma>)\<lparr>next_handle := next_handle (snd \<sigma>) + n\<rparr>)"
proof (induction n arbitrary: \<sigma> hs \<sigma>')
  case 0
  then show ?case by (cases \<sigma>) (auto simp: return_def)
next
  case (Suc n)
  from Suc.prems obtain h \<sigma>1 hs' \<sigma>2 where
    1: "fresh \<sigma> = (Normal h, \<sigma>1)" and 2: "fresh_n n \<sigma>1 = (Normal hs', \<sigma>2)"
    and 3: "hs = h # hs'" "\<sigma>' = \<sigma>2"
    by (auto simp: bnd_Normal_iff return_Normal_iff)
  from 1 have h: "h = next_handle (snd \<sigma>)"
    and s1: "\<sigma>1 = (fst \<sigma>, (snd \<sigma>)\<lparr>next_handle := Suc (next_handle (snd \<sigma>))\<rparr>)"
    by (simp_all add: fresh_Normal_iff)
  from Suc.IH [OF 2] show ?case
    by (simp add: 3 h s1 upt_rec [of "next_handle (snd \<sigma>)"])
qed

lemmas normal_simps = bnd_Normal_iff return_Normal_iff abort_Normal_iff throw_Normal_iff
  get_scene_Normal_iff modify_scene_Normal_iff emit_Normal_iff fresh_Normal_iff
  vk_check_Normal_iff vk_value_Normal_iff vk_create_Normal_iff at_index_Normal_iff
  set_fence_Normal_iff

lemma initializeVKInstance_Normal:
  "initializeVKInstance env \<sigma> = (Normal u, \<sigma>') \<Longrightarrow> m_instance (fst \<sigma>') \<noteq> None"
  by (auto simp: initializeVKInstance_def normal_simps split: if_splits)

lemma initializeDevice_Normal:
  "initializeDevice env \<sigma> = (Normal u, \<sigma>') \<Longrightarrow> m_device (fst \<sigma>') \<noteq> None"
  by (auto simp: initializeDevice_def normal_simps split: if_splits)

lemma createSurface_Normal:
  "createSurface env \<sigma> = (Normal u, \<sigma>') \<Longrightarrow> m_surface (fst \<sigma>') \<noteq> None"
  by (auto simp: createSurface_def normal_simps split: if_splits)

lemma keepsD: "preserves (keeps f) m \<Longrightarrow> m \<sigma> = (r, \<sigma>') \<Longrightarrow> f (fst \<sigma>') = f (fst \<sigma>)"
  by (drule (1) preservesD) (simp add: keeps_def)

lemma before_swapchain_Normal:
  assumes "before_swapchain env \<sigma> = (Normal u, \<sigma>')"
  shows "m_instance (fst \<sigma>') \<noteq> None \<and> m_device (fst \<sigma>') \<noteq> None \<and> m_surface (fst \<sigma>') \<noteq> None"
proof -
  from assms obtain \<sigma>1 \<sigma>2 \<sigma>3 \<sigma>4 where
    2: "initializeVKInstance env \<sigma>1 = (Normal (), \<sigma>2)"
    and 3: "selectQueueFamilyAndPhysicalDevice env \<sigma>2 = (Normal (), \<sigma>3)"
    and 4: "initializeDevice env \<sigma>3 = (Normal (), \<sigma>4)"
    and 5: "createSurface env \<sigma>4 = (Normal (), \<sigma>')"
    by (auto simp: before_swapchain_def bnd_Normal_iff return_Normal_iff)
  have i2: "m_instance (fst \<sigma>2) \<noteq> None" using 2 by (rule initializeVKInstance_Normal)
  have "m_instance (fst \<sigma>3) = m_instance (fst \<sigma>2)"
    using keeps_selectQueueFamilyAndPhysicalDevice 3 by (rule keepsD) simp_all
  moreover have "m_instance (fst \<sigma>4) = m_instance (fst \<sigma>3)"
    using keeps_initializeDevice 4 by (rule keepsD) simp_all
  moreover have "m_instance (fst \<sigma>') = m_instance (fst \<sigma>4)"
    using keeps_createSurface 5 by (rule keepsD) simp_all
  moreover have "m_device (fst \<sigma>4) \<noteq> None" using 4 by (rule initializeDevice_Normal)
  moreover have "m_device (fst \<sigma>') = m_device (fst \<sigma>4)"
    using keeps_createSurface 5 by (rule keepsD) simp_all
  moreover have "m_surface (fst \<sigma>') \<noteq> None" using 5 by (rule createSurface_Normal)
  ultimately show ?thesis using i2 by simp
qed

subsection \<open>A surface of another size\<close>

lemma initialize_env_other_extent:
  "initialize env_other_extent (Scene_new g, w) =
     (Abrupt (Throw (RuntimeError ''chosen image size not supported by window surface'')),
      ((Scene_new g)\<lparr>m_window := Some (next_handle w), m_instance := Some (next_handle w + 1),
          m_phys_dev := Some 100, m_gq_fam_idx := 0, m_device := Some (next_handle w + 2),
          m_gr_queue := Some (next_handle w + 3), m_surface := Some (next_handle w + 4)\<rparr>,
       w\<lparr>trace := trace w @ take 14 (init_calls_ok (next_handle w)),
         next_handle := next_handle w + 5\<rparr>))"
  by (simp add: init_defs prog_defs const_defs env_other_extent_def env_ok_def Scene_new_def
      caps_1280x720_def init_calls_ok_def)

section \<open>The vectors with one element for each image\<close>

lemma upt_num_images: "[0..<unat m_sw_num_images] = [0, 1]"
  by (simp add: m_sw_num_images_def upt_0_2)

lemma createSwapChainAndImages_Normal:
  assumes "createSwapChainAndImages env \<sigma> = (Normal u, \<sigma>')"
  shows "swapchainImages_res env = Inr (length (m_swapchain_imgs (fst \<sigma>')))"
  using assms
  by (auto simp: createSwapChainAndImages_def normal_simps split: if_splits
      dest!: fresh_n_Normal)

lemma foreach_Normal_count:
  assumes step: "\<And>x \<sigma> \<sigma>' u. body x \<sigma> = (Normal u, \<sigma>') \<Longrightarrow> c (fst \<sigma>') = Suc (c (fst \<sigma>))"
    and run: "foreach xs body \<sigma> = (Normal u, \<sigma>')"
  shows "c (fst \<sigma>') = c (fst \<sigma>) + length xs"
  using run
proof (induction xs arbitrary: \<sigma>)
  case Nil
  then show ?case by (simp add: return_Normal_iff)
next
  case (Cons x xs)
  from Cons.prems obtain \<sigma>1 where 1: "body x \<sigma> = (Normal (), \<sigma>1)"
    and 2: "foreach xs body \<sigma>1 = (Normal u, \<sigma>')"
    by (auto simp: bnd_Normal_iff)
  show ?case using step [OF 1] Cons.IH [OF 2] by simp
qed

lemma createSwapChainImageViews_Normal:
  assumes "createSwapChainImageViews env \<sigma> = (Normal u, \<sigma>')"
  shows "length (m_swapchain_img_views (fst \<sigma>')) =
         length (m_swapchain_img_views (fst \<sigma>)) + length (m_swapchain_imgs (fst \<sigma>))"
proof -
  let ?body = "\<lambda>(k, sc_image).
       bnd (vk_create (CreateImageView sc_image) ''vk::Device::createImageViewUnique''
              (createImageView_res env k)) (\<lambda>v.
       modify_scene (\<lambda>s. s\<lparr>m_swapchain_img_views := m_swapchain_img_views s @ [v]\<rparr>))"
  have run: "foreach (zip [0..<length (m_swapchain_imgs (fst \<sigma>))] (m_swapchain_imgs (fst \<sigma>)))
      ?body \<sigma> = (Normal u, \<sigma>')"
    using assms by (simp add: createSwapChainImageViews_def normal_simps)
  have "length (m_swapchain_img_views (fst \<sigma>')) = length (m_swapchain_img_views (fst \<sigma>)) +
      length (zip [0..<length (m_swapchain_imgs (fst \<sigma>))] (m_swapchain_imgs (fst \<sigma>)))"
    by (rule foreach_Normal_count [OF _ run]) (auto simp: normal_simps)
  then show ?thesis by simp
qed

lemma createFramebuffer_Normal:
  assumes "createFramebuffer env \<sigma> = (Normal u, \<sigma>')"
  shows "2 \<le> length (m_swapchain_img_views (fst \<sigma>)) \<and>
         length (m_framebuffers (fst \<sigma>')) = length (m_framebuffers (fst \<sigma>)) + 2"
  using assms
  by (auto simp: createFramebuffer_def upt_num_images normal_simps)

lemma allocateCommandBuffers_Normal:
  assumes "allocateCommandBuffers env \<sigma> = (Normal u, \<sigma>')"
  shows "length (m_command_buffers (fst \<sigma>')) = 2"
  using assms
  by (auto simp: allocateCommandBuffers_def normal_simps m_sw_num_images_def
      dest!: fresh_n_Normal)

lemma initSyncEntities_Normal:
  assumes "initSyncEntities env (s, w) = (Normal u, (s', w'))"
  shows "m_fences s' = m_fences s @ [next_handle w, Suc (next_handle w)] \<and>
         fence_state w' = (fence_state w)
           (next_handle w \<mapsto> Signaled, Suc (next_handle w) \<mapsto> Signaled)"
  using assms
  by (auto simp: initSyncEntities_def createFenceUnique_def createSemaphoreUnique_def
      upt_num_images normal_simps)

text \<open>The scene and the fences after an \<^verbatim>\<open>initialize()\<close> that returns.\<close>

lemma initialize_Normal_shape:
  assumes "initialize env (Scene_new g, w) = (Normal (), (s', w'))"
  shows "swapchainImages_res env = Inr (length (m_swapchain_imgs s'))"
    and "length (m_swapchain_img_views s') = length (m_swapchain_imgs s')"
    and "2 \<le> length (m_swapchain_imgs s')"
    and "length (m_framebuffers s') = 2"
    and "length (m_command_buffers s') = 2"
    and "\<exists>h. m_fences s' = [h, Suc h] \<and> fence_state w' h = Some Signaled \<and>
             fence_state w' (Suc h) = Some Signaled"
proof -
  let ?v = "\<lambda>s. (m_swapchain_imgs s, m_swapchain_img_views s, m_framebuffers s,
                 m_command_buffers s, m_fences s)"
  from assms obtain \<sigma>1 \<sigma>2 \<sigma>3 \<sigma>4 \<sigma>5 \<sigma>6 \<sigma>7 \<sigma>8 \<sigma>9 \<sigma>10 \<sigma>11 \<sigma>12 where
    1: "createWindowAndSurface env (Scene_new g, w) = (Normal (), \<sigma>1)"
    and 2: "initializeVKInstance env \<sigma>1 = (Normal (), \<sigma>2)"
    and 3: "selectQueueFamilyAndPhysicalDevice env \<sigma>2 = (Normal (), \<sigma>3)"
    and 4: "initializeDevice env \<sigma>3 = (Normal (), \<sigma>4)"
    and 5: "createSurface env \<sigma>4 = (Normal (), \<sigma>5)"
    and 6: "createSwapChainAndImages env \<sigma>5 = (Normal (), \<sigma>6)"
    and 7: "createSwapChainImageViews env \<sigma>6 = (Normal (), \<sigma>7)"
    and 8: "createPass env \<sigma>7 = (Normal (), \<sigma>8)"
    and 9: "createFramebuffer env \<sigma>8 = (Normal (), \<sigma>9)"
    and 10: "allocateCommandBuffers env \<sigma>9 = (Normal (), \<sigma>10)"
    and 11: "createShaderInterface env \<sigma>10 = (Normal (), \<sigma>11)"
    and 12: "createPipeline env \<sigma>11 = (Normal (), \<sigma>12)"
    and 13: "initSyncEntities env \<sigma>12 = (Normal (), (s', w'))"
    by (auto simp: initialize_def bnd_Normal_iff return_Normal_iff)
  have k1: "?v (fst \<sigma>1) = ([], [], [], [], [])"
    using keepsD [OF keeps_createWindowAndSurface 1, of ?v] by (simp add: Scene_new_def)
  have k2: "?v (fst \<sigma>2) = ?v (fst \<sigma>1)"
    using keeps_initializeVKInstance 2 by (rule keepsD) simp
  have k3: "?v (fst \<sigma>3) = ?v (fst \<sigma>2)"
    using keeps_selectQueueFamilyAndPhysicalDevice 3 by (rule keepsD) simp_all
  have k4: "?v (fst \<sigma>4) = ?v (fst \<sigma>3)"
    using keeps_initializeDevice 4 by (rule keepsD) simp_all
  have k5: "?v (fst \<sigma>5) = ?v (fst \<sigma>4)"
    using keeps_createSurface 5 by (rule keepsD) simp
  have k6: "(\<lambda>s. (m_swapchain_img_views s, m_framebuffers s, m_command_buffers s, m_fences s))
      (fst \<sigma>6) = ([], [], [], [])"
    using keepsD [OF keeps_createSwapChainAndImages 6,
        of "\<lambda>s. (m_swapchain_img_views s, m_framebuffers s, m_command_buffers s, m_fences s)"]
      k1 k2 k3 k4 k5
    by simp
  have n6: "swapchainImages_res env = Inr (length (m_swapchain_imgs (fst \<sigma>6)))"
    using 6 by (rule createSwapChainAndImages_Normal)
  have k7: "(\<lambda>s. (m_swapchain_imgs s, m_framebuffers s, m_command_buffers s, m_fences s))
      (fst \<sigma>7) = (m_swapchain_imgs (fst \<sigma>6), [], [], [])"
    using keepsD [OF keeps_createSwapChainImageViews 7,
        of "\<lambda>s. (m_swapchain_imgs s, m_framebuffers s, m_command_buffers s, m_fences s)"] k6
    by simp
  have n7: "length (m_swapchain_img_views (fst \<sigma>7)) = length (m_swapchain_imgs (fst \<sigma>6))"
    using createSwapChainImageViews_Normal [OF 7] k6 by simp
  have k8: "?v (fst \<sigma>8) = ?v (fst \<sigma>7)"
    using keeps_createPass 8 by (rule keepsD) simp
  have k9: "(\<lambda>s. (m_swapchain_imgs s, m_swapchain_img_views s, m_command_buffers s, m_fences s))
      (fst \<sigma>9) =
      (\<lambda>s. (m_swapchain_imgs s, m_swapchain_img_views s, m_command_buffers s, m_fences s))
      (fst \<sigma>8)"
    using keeps_createFramebuffer 9 by (rule keepsD) simp
  have n9: "2 \<le> length (m_swapchain_img_views (fst \<sigma>8))"
    "length (m_framebuffers (fst \<sigma>9)) = 2"
    using createFramebuffer_Normal [OF 9] k7 k8 by simp_all
  have k10: "(\<lambda>s. (m_swapchain_imgs s, m_swapchain_img_views s, m_framebuffers s, m_fences s))
      (fst \<sigma>10) =
      (\<lambda>s. (m_swapchain_imgs s, m_swapchain_img_views s, m_framebuffers s, m_fences s))
      (fst \<sigma>9)"
    using keeps_allocateCommandBuffers 10 by (rule keepsD) simp_all
  have n10: "length (m_command_buffers (fst \<sigma>10)) = 2"
    using 10 by (rule allocateCommandBuffers_Normal)
  have k11: "?v (fst \<sigma>11) = ?v (fst \<sigma>10)"
    using keeps_createShaderInterface 11 by (rule keepsD) simp
  have k12: "?v (fst \<sigma>12) = ?v (fst \<sigma>11)"
    using keeps_createPipeline 12 by (rule keepsD) simp_all
  have k13: "(\<lambda>s. (m_swapchain_imgs s, m_swapchain_img_views s, m_framebuffers s,
      m_command_buffers s)) s' =
      (\<lambda>s. (m_swapchain_imgs s, m_swapchain_img_views s, m_framebuffers s,
      m_command_buffers s)) (fst \<sigma>12)"
    using keepsD [OF keeps_initSyncEntities 13,
        of "\<lambda>s. (m_swapchain_imgs s, m_swapchain_img_views s, m_framebuffers s,
      m_command_buffers s)"]
    by simp
  have n13: "m_fences s' = m_fences (fst \<sigma>12) @
        [next_handle (snd \<sigma>12), Suc (next_handle (snd \<sigma>12))]"
    "fence_state w' = (fence_state (snd \<sigma>12))
        (next_handle (snd \<sigma>12) \<mapsto> Signaled, Suc (next_handle (snd \<sigma>12)) \<mapsto> Signaled)"
    using initSyncEntities_Normal [of env "fst \<sigma>12" "snd \<sigma>12" "()" s' w'] 13 by simp_all
  have imgs: "m_swapchain_imgs s' = m_swapchain_imgs (fst \<sigma>6)"
    using k7 k8 k9 k10 k11 k12 k13 by simp
  have views: "m_swapchain_img_views s' = m_swapchain_img_views (fst \<sigma>7)"
    using k8 k9 k10 k11 k12 k13 by simp
  have fences12: "m_fences (fst \<sigma>12) = []"
    using k7 k8 k9 k10 k11 k12 by simp
  show "swapchainImages_res env = Inr (length (m_swapchain_imgs s'))"
    using n6 by (simp add: imgs)
  show "length (m_swapchain_img_views s') = length (m_swapchain_imgs s')"
    using n7 by (simp add: imgs views)
  show "2 \<le> length (m_swapchain_imgs s')"
    using n9(1) n7 k8 by (simp add: imgs)
  show "length (m_framebuffers s') = 2"
    using n9(2) k10 k11 k12 k13 by simp
  show "length (m_command_buffers s') = 2"
    using n10 k11 k12 k13 by simp
  show "\<exists>h. m_fences s' = [h, Suc h] \<and> fence_state w' h = Some Signaled \<and>
             fence_state w' (Suc h) = Some Signaled"
    using n13 fences12 by simp
qed

lemma loop_pass_scene: "fst (snd (loop_pass fr (s, w))) = s"
proof (cases "should_close fr")
  case True
  then show ?thesis by (simp add: loop_pass_close)
next
  case False
  show ?thesis
  proof (cases "acquire_res fr")
    case (Inl e)
    show ?thesis
      by (rule emits_prefix_emitted(1) [OF ep_loop_pass_acquire_fails [OF False Inl, where j = 0]])
  next
    case (Inr i)
    show ?thesis
      by (rule emits_prefix_emitted(1) [OF ep_loop_pass [OF False Inr]])
  qed
qed



section \<open>The acquired index and the fences\<close>



lemma ext_initSyncEntities_signaled:
  "preserves (extends_with (\<lambda>ev. \<forall>b. ev = CreateFence b \<longrightarrow> b)) (initSyncEntities env)"
  unfolding initSyncEntities_def createFenceUnique_def createSemaphoreUnique_def
  by (intro ext_intros) simp_all

lemma ext_initialize_signaled:
  "preserves (extends_with (\<lambda>ev. \<forall>b. ev = CreateFence b \<longrightarrow> b)) (initialize env)"
  unfolding initialize_def
  by (rule preserves_block)
     (auto simp: extends_with_refl extends_with_trans ext_initSyncEntities_signaled
        intro: preserves_mono [OF ext_createWindowAndSurface]
          preserves_mono [OF ext_initializeVKInstance]
          preserves_mono [OF ext_selectQueueFamilyAndPhysicalDevice]
          preserves_mono [OF ext_initializeDevice]
          preserves_mono [OF ext_createSurface]
          preserves_mono [OF ext_createSwapChainAndImages]
          preserves_mono [OF ext_createSwapChainImageViews]
          preserves_mono [OF ext_createPass]
          preserves_mono [OF ext_createFramebuffer]
          preserves_mono [OF ext_allocateCommandBuffers]
          preserves_mono [OF ext_createShaderInterface]
          preserves_mono [OF ext_createPipeline])

lemma loop_pass_signaled:
  assumes "\<not> should_close fr" and "acquire_res fr = Inr i"
    and "unat i < length (m_fences s)"
    and "wait_res fr = None"
    and "fence_state w (m_fences s ! unat i) = Some Signaled"
  shows "fst (loop_pass fr (s, w)) \<noteq> Abrupt Blocked \<and>
         take 5 (emitted w (snd (snd (loop_pass fr (s, w))))) = take 5 (frame_calls s i)"
  using assms
  by (cases "reset_res fr"; cases "begin_res fr"; cases "end_res fr";
      cases "submit_res fr"; cases "present_res fr")
     (auto simp: frame_defs prog_defs frame_calls_def emitted_def Let_def)

lemma loop_pass_unsignaled:
  assumes "\<not> should_close fr" and "acquire_res fr = Inr i"
    and "unat i < length (m_fences s)"
    and "wait_res fr = None"
    and "fence_state w (m_fences s ! unat i) = Some Unsignaled"
  shows "fst (loop_pass fr (s, w)) = Abrupt Blocked"
  using assms by (simp add: frame_defs prog_defs)

lemma waitForFences_Normal:
  "waitForFences r f b t (s, w) = (Normal u, (s', w')) \<Longrightarrow>
     s' = s \<and> (\<forall>h. h \<noteq> f \<longrightarrow> fence_state w' h = fence_state w h)"
  by (auto simp: waitForFences_def normal_simps get_world_def
      split: option.splits fence_status.splits)

lemma resetFences_Normal:
  "resetFences r f (s, w) = (Normal u, (s', w')) \<Longrightarrow>
     s' = s \<and> (\<forall>h. h \<noteq> f \<longrightarrow> fence_state w' h = fence_state w h)"
  by (auto simp: resetFences_def normal_simps)

lemma queue_submit_Normal:
  "queue_submit r cmds ws st ss f (s, w) = (Normal u, (s', w')) \<Longrightarrow>
     s' = s \<and> (\<forall>h. h \<noteq> f \<longrightarrow> fence_state w' h = fence_state w h)"
  by (auto simp: queue_submit_def normal_simps)

lemma buildCommandBuffer_Normal:
  "buildCommandBuffer fr i (s, w) = (Normal u, (s', w')) \<Longrightarrow>
     s' = s \<and> fence_state w' = fence_state w"
  by (auto simp: buildCommandBuffer_def normal_simps)

lemma loop_pass_other_fence:
  assumes "loop_pass fr (s, w) = (Normal b, (s', w'))"
    and "acquire_res fr = Inr j"
    and "h \<noteq> m_fences s ! unat j"
  shows "fence_state w' h = fence_state w h"
proof (cases "should_close fr")
  case True
  then show ?thesis using assms(1) by (auto simp: loop_pass_close)
next
  case False
  from assms(1) False obtain s2 w2 s3 w3 s4 w4 s5 w5 where
    1: "waitForFences (wait_res fr) (m_fences s ! unat j) True UINT64_MAX
          (s, w\<lparr>trace := trace w @
              [GlfwPollEvents, GlfwWindowShouldClose (m_window s),
               AcquireNextImage (m_swapchain s) UINT64_MAX (m_draw_semaphore s)]\<rparr>) =
        (Normal (), (s2, w2))"
    and 2: "resetFences (reset_res fr) (m_fences s ! unat j) (s2, w2) = (Normal (), (s3, w3))"
    and 3: "buildCommandBuffer fr j (s3, w3) = (Normal (), (s4, w4))"
    and 4: "queue_submit (submit_res fr) [m_command_buffers s ! unat j] [m_draw_semaphore s]
        eColorAttachmentOutput [m_present_semaphore s] (m_fences s ! unat j) (s4, w4) =
        (Normal (), (s5, w5))"
    and b: "w' = w5\<lparr>trace := trace w5 @
        [QueuePresent [m_present_semaphore s] (m_swapchain s) j]\<rparr>"
    by (auto simp: loop_pass_def render_frame_def normal_simps assms(2))
  have "fence_state w2 h = fence_state w h"
    using waitForFences_Normal [OF 1] assms(3) by simp
  moreover have "fence_state w3 h = fence_state w2 h"
    using resetFences_Normal [OF 2] assms(3) by simp
  moreover have "fence_state w4 h = fence_state w3 h"
    using buildCommandBuffer_Normal [OF 3] by simp
  moreover have "fence_state w5 h = fence_state w4 h"
    using queue_submit_Normal [OF 4] assms(3) by simp
  ultimately show ?thesis by (simp add: b)
qed

section \<open>The passes of run\<close>

lemma loop_pass_Normal_False:
  assumes "loop_pass fr (s, w) = (Normal b, (s', w'))" and "\<not> should_close fr"
  shows "b = False \<and> (\<exists>i. acquire_res fr = Inr i)"
  using assms
  by (cases "acquire_res fr") (auto simp: loop_pass_def render_frame_def normal_simps)

lemma loop_pass_acquire_fails:
  assumes "\<not> should_close fr" and "acquire_res fr = Inl e"
  shows "\<exists>a. loop_pass fr (s, w) =
     (Abrupt a,
      (s, w\<lparr>trace := trace w @ take 3 (frame_calls s i)\<rparr>))"
  using assms by (simp add: loop_pass_def render_frame_def prog_defs frame_calls_def Let_def)

lemma bnd_get_scene_apply: "bnd get_scene f (s, w) = f s (s, w)"
  by (simp add: bnd_def get_scene_def)

lemma bnd_emit_apply: "bnd (emit ev) f (s, w) = f () (s, w\<lparr>trace := trace w @ [ev]\<rparr>)"
  by (simp add: bnd_def emit_def log_event_def modify_world_def)

lemma bnd_vk_value_Inr: "bnd (vk_value m (Inr x)) f = f x"
  by (simp add: bnd_def vk_value_def return_def)

lemma render_frame_after_acquire:
  assumes "acquire_res fr = Inr i"
  shows "\<exists>m. emits_prefix s (drop 3 (frame_calls s i)) m \<and>
        (\<forall>w. render_frame fr (s, w) =
           m (s, w\<lparr>trace := trace w @
                [AcquireNextImage (m_swapchain s) UINT64_MAX (m_draw_semaphore s)]\<rparr>))"
proof (intro exI conjI allI)
  let ?m = "bnd (at_index (m_fences s) (unat i)) (\<lambda>f.
     bnd (waitForFences (wait_res fr) f True UINT64_MAX) (\<lambda>_.
     bnd (at_index (m_fences s) (unat i)) (\<lambda>f.
     bnd (resetFences (reset_res fr) f) (\<lambda>_.
     bnd (buildCommandBuffer fr i) (\<lambda>_.
     bnd (at_index (m_command_buffers s) (unat i)) (\<lambda>cmd.
     bnd (at_index (m_fences s) (unat i)) (\<lambda>f.
     bnd (queue_submit (submit_res fr) [cmd] [m_draw_semaphore s] eColorAttachmentOutput
            [m_present_semaphore s] f) (\<lambda>_.
     bnd (emit (QueuePresent [m_present_semaphore s] (m_swapchain s) i)) (\<lambda>_.
     vk_check ''vk::Queue::presentKHR'' (present_res fr))))))))))"
  show "emits_prefix s (drop 3 (frame_calls s i)) ?m"
    apply (rule ep_eq)
     apply (rule ep_at_index)
     apply (rule ep_bnd [OF ep_waitForFences])
     apply (rule ep_at_index)
     apply (rule ep_bnd [OF ep_resetFences])
     apply (rule ep_bnd [OF ep_buildCommandBuffer])
     apply (rule ep_at_index)
     apply (rule ep_at_index)
     apply (rule ep_bnd [OF ep_queue_submit])
     apply (rule ep_bnd [OF ep_emit])
     apply (rule ep_vk_check)
    apply (simp add: frame_calls_def Let_def)
    done
  fix w
  show "render_frame fr (s, w) =
      ?m (s, w\<lparr>trace := trace w @
                [AcquireNextImage (m_swapchain s) UINT64_MAX (m_draw_semaphore s)]\<rparr>)"
    unfolding render_frame_def assms
    by (simp only: bnd_get_scene_apply bnd_emit_apply bnd_vk_value_Inr)
qed

lemma loop_pass_cut:
  assumes "\<not> should_close fr" and "acquire_res fr = Inr i"
    and "loop_pass fr (s, w) = (r, (s', w'))"
  shows "s' = s \<and> (\<exists>k. 3 \<le> k \<and> trace w' = trace w @ take k (frame_calls s i)) \<and>
         (\<forall>b. r = Normal b \<longrightarrow> \<not> b \<and> trace w' = trace w @ frame_calls s i)"
proof -
  obtain m where ep: "emits_prefix s (drop 3 (frame_calls s i)) m"
    and rf: "\<And>w. render_frame fr (s, w) =
           m (s, w\<lparr>trace := trace w @
                [AcquireNextImage (m_swapchain s) UINT64_MAX (m_draw_semaphore s)]\<rparr>)"
    using render_frame_after_acquire [OF assms(2), of s] by blast
  let ?w3 = "w\<lparr>trace := trace w @ take 3 (frame_calls s i)\<rparr>"
  obtain r3 s3 w3 where m3: "m (s, ?w3) = (r3, (s3, w3))" by (metis surj_pair)
  have lp: "loop_pass fr (s, w) = bnd m (\<lambda>_. return False) (s, ?w3)"
    unfolding loop_pass_def
    by (simp add: bnd_get_scene_apply bnd_emit_apply assms(1) bnd_def [of "render_frame fr"]
        bnd_def [of m] rf frame_calls_def Let_def)
  obtain k where k: "trace w3 = trace ?w3 @ take k (drop 3 (frame_calls s i))"
    using emits_prefixD(2) [OF ep m3] by blast
  have s3: "s3 = s" using emits_prefixD(1) [OF ep m3] .
  have t3: "take 3 (frame_calls s i) @ take k (drop 3 (frame_calls s i)) =
      take (3 + k) (frame_calls s i)"
    by (simp add: take_add)
  have res: "s' = s" "w' = w3" "r = (case r3 of Normal _ \<Rightarrow> Normal False | Abrupt a \<Rightarrow> Abrupt a)"
    using assms(3) by (cases r3; simp add: lp bnd_def m3 return_def s3)+
  have "trace w' = trace w @ take (3 + k) (frame_calls s i)"
    using k t3 by (simp add: res)
  then have "\<exists>k. 3 \<le> k \<and> trace w' = trace w @ take k (frame_calls s i)"
    by (metis le_add1)
  moreover have "\<not> b \<and> trace w' = trace w @ frame_calls s i" if rb: "r = Normal b" for b
  proof -
    obtain u where "r3 = Normal u" using rb res(3) by (cases r3) simp_all
    then have "trace w3 = trace ?w3 @ drop 3 (frame_calls s i)"
      using emits_prefixD(3) [OF ep m3] by simp
    then show ?thesis using rb res \<open>r3 = Normal u\<close> by simp
  qed
  ultimately show ?thesis using res(1) by blast
qed

lemma queue_submit_pending:
  "queue_submit r cmds ws st ss f (s, w) = (Normal u, (s', w')) \<Longrightarrow>
     fence_state w' f = Some Pending"
  by (auto simp: queue_submit_def normal_simps)

lemma loop_pass_fence_pending:
  assumes "loop_pass fr (s, w) = (Normal False, (s', w'))"
    and "acquire_res fr = Inr j"
  shows "fence_state w' (m_fences s ! unat j) = Some Pending"
proof -
  have nc: "\<not> should_close fr"
    using assms(1) by (auto simp: loop_pass_def normal_simps split: if_splits)
  from assms(1) nc obtain s4 w4 s5 w5 where
    4: "queue_submit (submit_res fr) [m_command_buffers s ! unat j] [m_draw_semaphore s]
        eColorAttachmentOutput [m_present_semaphore s] (m_fences s ! unat j) (s4, w4) =
        (Normal (), (s5, w5))"
    and b: "w' = w5\<lparr>trace := trace w5 @
        [QueuePresent [m_present_semaphore s] (m_swapchain s) j]\<rparr>"
    by (auto simp: loop_pass_def render_frame_def normal_simps assms(2))
  show ?thesis using queue_submit_pending [OF 4] by (simp add: b)
qed

lemma loop_pass_fences_ready:
  assumes "loop_pass fr (s, w) = (Normal False, (s', w'))"
    and "\<forall>f\<in>set (m_fences s). fence_state w f = Some Signaled \<or> fence_state w f = Some Pending"
  shows "\<forall>f\<in>set (m_fences s). fence_state w' f = Some Signaled \<or> fence_state w' f = Some Pending"
proof
  fix f assume f: "f \<in> set (m_fences s)"
  have nc: "\<not> should_close fr"
    using assms(1) by (auto simp: loop_pass_def normal_simps split: if_splits)
  obtain j where j: "acquire_res fr = Inr j"
    using loop_pass_Normal_False [OF assms(1) nc] by blast
  show "fence_state w' f = Some Signaled \<or> fence_state w' f = Some Pending"
  proof (cases "f = m_fences s ! unat j")
    case True
    then show ?thesis using loop_pass_fence_pending [OF assms(1) j] by simp
  next
    case False
    then show ?thesis using loop_pass_other_fence [OF assms(1) j False] assms(2) f by simp
  qed
qed

lemma loop_pass_succeeds:
  assumes "\<not> should_close fr" and "pass_succeeds s fr" and "fences_ready s w"
  shows "fst (loop_pass fr (s, w)) = Normal False"
proof -
  obtain i where i: "acquire_res fr = Inr i"
    using assms(2) by (cases "acquire_res fr") (simp_all add: pass_succeeds_def)
  have "m_fences s ! unat i \<in> set (m_fences s)"
    using assms(2) by (simp add: pass_succeeds_def in_range_def i)
  then have "fence_state w (m_fences s ! unat i) = Some Signaled \<or>
         fence_state w (m_fences s ! unat i) = Some Pending"
    using assms(3) by (simp add: fences_ready_def)
  then show ?thesis
    using assms(1,2)
    by (intro loop_pass_all_ok [where i = i]) (simp_all add: pass_succeeds_def in_range_def i)
qed

lemma loop_pass_Normal_range:
  assumes "loop_pass fr (s, w) = (Normal b, (s', w'))" and "\<not> should_close fr"
    and "acquire_res fr = Inr i"
  shows "in_range s i"
  using assms
  by (auto simp: in_range_def loop_pass_def render_frame_def buildCommandBuffer_def normal_simps
      dest!: waitForFences_Normal resetFences_Normal)

lemma run_loop_passes:
  assumes "run_loop frs (s, w) = (r, (s', w'))"
  shows "\<exists>is rest.
     length is \<le> length frs \<and>
     (\<forall>n<length is. \<not> should_close (frs ! n) \<and> acquire_res (frs ! n) = Inr (is ! n) \<and>
        in_range s (is ! n)) \<and>
     s' = s \<and>
     trace w' = trace w @ concat (map (frame_calls s) is) @ rest \<and>
     last_pass s w frs (length is) r rest"
  using assms
proof (induction frs arbitrary: w)
  case Nil
  then have "r = Abrupt OutOfScript" "s' = s" "w' = w"
    by (simp_all add: abort_def)
  then have "length ([] :: 32 word list) \<le> length ([] :: frame list) \<and>
     (\<forall>n<length ([] :: 32 word list). \<not> should_close ([] ! n) \<and> acquire_res ([] ! n) = Inr ([] ! n) \<and>
        in_range s ([] ! n)) \<and>
     s' = s \<and>
     trace w' = trace w @ concat (map (frame_calls s) []) @ [] \<and>
     last_pass s w [] (length ([] :: 32 word list)) r []"
    by (simp add: last_pass_def)
  then show ?case by blast
next
  case (Cons fr frs)
  obtain r1 s1 w1 where lp: "loop_pass fr (s, w) = (r1, (s1, w1))" by (metis surj_pair)
  show ?case
  proof (cases "should_close fr")
    case True
    have "r = Normal ()" "s' = s"
      "w' = w\<lparr>trace := trace w @ [GlfwPollEvents, GlfwWindowShouldClose (m_window s)]\<rparr>"
      using Cons.prems by (auto simp: bnd_def loop_pass_close [OF True] return_def)
    then have "length ([] :: 32 word list) \<le> length (fr # frs) \<and>
       (\<forall>n<length ([] :: 32 word list). \<not> should_close ((fr # frs) ! n) \<and>
           acquire_res ((fr # frs) ! n) = Inr ([] ! n) \<and> in_range s ([] ! n)) \<and>
       s' = s \<and>
       trace w' = trace w @ concat (map (frame_calls s) []) @
         [GlfwPollEvents, GlfwWindowShouldClose (m_window s)] \<and>
       last_pass s w (fr # frs) (length ([] :: 32 word list)) r
         [GlfwPollEvents, GlfwWindowShouldClose (m_window s)]"
      using True by (simp add: last_pass_def)
    then show ?thesis by blast
  next
    case False
    show ?thesis
    proof (cases r1)
      case (Abrupt a)
      have res: "r = Abrupt a" "s' = s1" "w' = w1"
        using Cons.prems by (simp_all add: bnd_def lp Abrupt)
      have ns: "fences_ready s w \<longrightarrow> \<not> pass_succeeds s fr"
        using loop_pass_succeeds [OF False, of s w] by (auto simp: lp Abrupt)
      have "s1 = s \<and> (\<exists>k i. 3 \<le> k \<and> trace w1 = trace w @ take k (frame_calls s i) \<and>
                  (\<forall>j. acquire_res fr = Inr j \<longrightarrow> j = i))"
      proof (cases "acquire_res fr")
        case (Inl e)
        obtain a' where "loop_pass fr (s, w) =
            (Abrupt a', (s, w\<lparr>trace := trace w @ take 3 (frame_calls s 0)\<rparr>))"
          using loop_pass_acquire_fails [OF False Inl] by blast
        then have "s1 = s" "trace w1 = trace w @ take 3 (frame_calls s 0)"
          using lp by simp_all
        then show ?thesis using Inl by (metis order_refl sum.distinct(1))
      next
        case (Inr i)
        show ?thesis using loop_pass_cut [OF False Inr lp] Inr by auto
      qed
      then obtain k i where ki: "s1 = s" "3 \<le> k" "trace w1 = trace w @ take k (frame_calls s i)"
        "\<forall>j. acquire_res fr = Inr j \<longrightarrow> j = i"
        by blast
      have "length ([] :: 32 word list) \<le> length (fr # frs) \<and>
         (\<forall>n<length ([] :: 32 word list). \<not> should_close ((fr # frs) ! n) \<and>
             acquire_res ((fr # frs) ! n) = Inr ([] ! n) \<and> in_range s ([] ! n)) \<and>
         s' = s \<and>
         trace w' = trace w @ concat (map (frame_calls s) []) @ take k (frame_calls s i) \<and>
         last_pass s w (fr # frs) (length ([] :: 32 word list)) r (take k (frame_calls s i))"
        using False ki ns res by (auto simp: last_pass_def)
      then show ?thesis by blast
    next
      case (Normal b)
      obtain i where i: "acquire_res fr = Inr i" and b: "b = False"
        using loop_pass_Normal_False [OF lp [unfolded Normal] False] by blast
      have c: "s1 = s" "trace w1 = trace w @ frame_calls s i"
        using loop_pass_cut [OF False i lp] Normal by auto
      have rest: "run_loop frs (s, w1) = (r, (s', w'))"
        using Cons.prems by (simp add: bnd_def lp Normal b c)
      obtain "is" rest where ih: "length is \<le> length frs"
        "\<forall>n<length is. \<not> should_close (frs ! n) \<and> acquire_res (frs ! n) = Inr (is ! n) \<and>
           in_range s (is ! n)"
        "s' = s" "trace w' = trace w1 @ concat (map (frame_calls s) is) @ rest"
        "last_pass s w1 frs (length is) r rest"
        using Cons.IH [OF rest] by blast
      have fr: "fences_ready s w \<Longrightarrow> fences_ready s w1"
        using loop_pass_fences_ready [OF lp [unfolded Normal b c(1)]]
        by (simp add: fences_ready_def)
      have lpass: "last_pass s w (fr # frs) (length (i # is)) r rest"
        using ih(5) fr by (auto simp: last_pass_def)
      have rng: "in_range s i"
        using loop_pass_Normal_range [OF lp [unfolded Normal] False i] .
      have idx: "\<forall>n<length (i # is). \<not> should_close ((fr # frs) ! n) \<and>
          acquire_res ((fr # frs) ! n) = Inr ((i # is) ! n) \<and> in_range s ((i # is) ! n)"
        using ih(2) False i rng by (auto simp: nth_Cons split: nat.split)
      have "length (i # is) \<le> length (fr # frs) \<and>
         (\<forall>n<length (i # is). \<not> should_close ((fr # frs) ! n) \<and>
             acquire_res ((fr # frs) ! n) = Inr ((i # is) ! n) \<and> in_range s ((i # is) ! n)) \<and>
         s' = s \<and>
         trace w' = trace w @ concat (map (frame_calls s) (i # is)) @ rest \<and>
         last_pass s w (fr # frs) (length (i # is)) r rest"
        using ih(1,3,4) c(2) lpass idx by simp
      then show ?thesis by blast
    qed
  qed
qed

lemma run_env_lost:
  "run env_lost (scene_ok (next_handle w), world_ok w) =
     (Abrupt (Throw (DeviceLostError ''vk::Device::waitForFences: ErrorDeviceLost'')),
      (scene_ok (next_handle w), world_lost w))"
  using first_try_env_lost [of None w]
  by (simp add: first_try_def bnd_def initialize_env_lost)

section \<open>The windows that GLFW releases\<close>


section \<open>The claims\<close>

subsection \<open>The re-creation protocol\<close>

text \<open>
  C1. Let the \<^verbatim>\<open>try\<close> block of the first lifecycle (\<^verbatim>\<open>initialize()\<close>, then \<^verbatim>\<open>run()\<close>)
  return or throw, leaving the scene \<open>s1\<close> and the world \<open>w1\<close>.
  If it threw a device-loss error, \<open>main\<close> prints the device-loss message, calls
  \<^verbatim>\<open>shutdown()\<close> on the first scene (world \<open>w2\<close>), then calls \<^verbatim>\<open>initialize()\<close> on a
  newly constructed scene (world \<open>w3\<close>), and after that only reports the result, calls
  \<^verbatim>\<open>shutdown()\<close> on the new scene and pauses: no call of the frame loop is made after
  the first lifecycle. Otherwise \<open>main\<close> returns after the first lifecycle: all it does
  after \<open>w1\<close> is report the error, if any, and call \<^verbatim>\<open>shutdown()\<close> on the first scene.
\<close>

theorem recreation_after_device_loss_only:
  assumes first: "first_try env1 (Scene_new g1, log_event SetProcessDPIAware w0) = (r1, (s1, w1))"
    and ret: "returns_or_throws r1"
    and w2: "w2 = w1\<lparr>trace := trace w1 @ Cerr ''Device Lost, re-init...'' # shutdown_calls s1\<rparr>"
    and second: "initialize env2 (Scene_new g2, w2) = (r2, (s2, w3))"
    and main: "main_prog g1 g2 env1 env2 w0 = (r, w)"
  shows "if is_device_lost r1
         then shutdown env1 (s1, log_event (Cerr ''Device Lost, re-init...'') w1) =
                (Normal (), (s1, w2)) \<and>
              take (length (trace w3)) (trace w) = trace w3 \<and>
              list_all (\<lambda>ev. caller_of ev \<noteq> Run) (emitted w1 w) \<and>
              (r2 = Normal () \<longrightarrow>
                 emitted w3 w = Cout ''re-initialization successful'' # shutdown_calls s2 @
                   [SystemCall ''pause'']) \<and>
              (\<forall>e. r2 = Abrupt (Throw e) \<longrightarrow>
                 emitted w3 w = Cerr (''Error Occurred: '' @ what e) # shutdown_calls s2 @
                   [SystemCall ''pause''])
         else (\<exists>rv. r = Normal rv) \<and>
              emitted w1 w =
                (case r1 of Abrupt (Throw e) \<Rightarrow> [Cerr (''Error Occurred: '' @ what e)]
                 | _ \<Rightarrow> []) @ shutdown_calls s1"
proof (cases "is_device_lost r1")
  case True
  then obtain m where r1: "r1 = Abrupt (Throw (DeviceLostError m))"
    by (cases r1 rule: is_device_lost.cases) simp_all
  have re: "re_init g2 env2 0 w2 = (r, w)"
    using main_prog_lost [of env1 g1 w0 m s1 w1 g2 env2] first main by (simp add: r1 w2)
  note e = re_init_emitted [OF second re]
  have "emitted w1 w = Cerr ''Device Lost, re-init...'' # shutdown_calls s1 @ emitted w2 w"
    using e(1) by (simp add: w2 emitted_def [of w1 w])
  then have "list_all (\<lambda>ev. caller_of ev \<noteq> Run) (emitted w1 w)"
    using e(3) by (simp add: shutdown_calls_not_Run)
  moreover have "r2 = Normal () \<Longrightarrow>
      emitted w3 w = Cout ''re-initialization successful'' # shutdown_calls s2 @
        [SystemCall ''pause'']"
    using re second by (simp add: re_init_Normal) (auto simp: emitted_def)
  moreover have "r2 = Abrupt (Throw e) \<Longrightarrow>
      emitted w3 w = Cerr (''Error Occurred: '' @ what e) # shutdown_calls s2 @
        [SystemCall ''pause'']" for e
    using re second by (simp add: re_init_Throw) (auto simp: emitted_def)
  ultimately show ?thesis
    using True e(2) by (simp add: log_event_shutdown w2)
next
  case False
  show ?thesis
  proof (cases r1 rule: returns_or_throws.cases)
    case (1 x)
    then show ?thesis
      using main_prog_Normal [of env1 g1 w0 s1 w1 g2 env2] first main by (auto simp: emitted_def)
  next
    case (2 e)
    then show ?thesis
      using main_prog_error [of env1 g1 w0 e s1 w1 g2 env2] first main False
      by (auto simp: emitted_def)
  qed (use ret in simp_all)
qed

theorem recreation_after_device_loss_only_witness:
  "let w1 = world_lost (log_event SetProcessDPIAware world0);
       w2 = w1\<lparr>trace := trace w1 @
              Cerr ''Device Lost, re-init...'' # shutdown_calls (scene_ok 1)\<rparr>;
       w = snd (main_prog None None env_lost env_ok world0)
   in first_try env_lost (Scene_new None, log_event SetProcessDPIAware world0) =
        (Abrupt (Throw (DeviceLostError ''vk::Device::waitForFences: ErrorDeviceLost'')), (scene_ok 1, w1)) \<and>
      initialize env_ok (Scene_new None, w2) = (Normal (), (scene_ok 25, world_ok w2)) \<and>
      shutdown env_lost (scene_ok 1, log_event (Cerr ''Device Lost, re-init...'') w1) =
        (Normal (), (scene_ok 1, w2)) \<and>
      take (length (trace (world_ok w2))) (trace w) = trace (world_ok w2) \<and>
      list_all (\<lambda>ev. caller_of ev \<noteq> Run) (emitted w1 w) \<and>
      emitted (world_ok w2) w =
        [Cout ''re-initialization successful'', DeviceWaitIdle, GlfwDestroyWindow 25,
         GlfwTerminate, SystemCall ''pause'']"
proof -
  define w1 where "w1 = world_lost (log_event SetProcessDPIAware world0)"
  define w2 where "w2 = w1\<lparr>trace := trace w1 @
              Cerr ''Device Lost, re-init...'' # shutdown_calls (scene_ok 1)\<rparr>"
  define w where "w = snd (main_prog None None env_lost env_ok world0)"
  have first: "first_try env_lost (Scene_new None, log_event SetProcessDPIAware world0) =
      (Abrupt (Throw (DeviceLostError ''vk::Device::waitForFences: ErrorDeviceLost'')), (scene_ok 1, w1))"
    using first_try_env_lost [of None "log_event SetProcessDPIAware world0"]
    by (simp only: next_handle_start w1_def)
  have ret: "returns_or_throws
      (Abrupt (Throw (DeviceLostError ''vk::Device::waitForFences: ErrorDeviceLost'')) :: unit outcome)"
    by simp
  have nh: "next_handle w2 = 25"
    by (simp add: w2_def w1_def next_handle_world_lost next_handle_start)
  have second: "initialize env_ok (Scene_new None, w2) = (Normal (), (scene_ok 25, world_ok w2))"
    using initialize_env_ok' [of None w2] by (simp only: nh)
  have main: "main_prog None None env_lost env_ok world0 =
      (fst (main_prog None None env_lost env_ok world0), w)"
    by (simp add: w_def)
  have "first_try env_lost (Scene_new None, log_event SetProcessDPIAware world0) =
        (Abrupt (Throw (DeviceLostError ''vk::Device::waitForFences: ErrorDeviceLost'')), (scene_ok 1, w1)) \<and>
      initialize env_ok (Scene_new None, w2) = (Normal (), (scene_ok 25, world_ok w2)) \<and>
      shutdown env_lost (scene_ok 1, log_event (Cerr ''Device Lost, re-init...'') w1) =
        (Normal (), (scene_ok 1, w2)) \<and>
      take (length (trace (world_ok w2))) (trace w) = trace (world_ok w2) \<and>
      list_all (\<lambda>ev. caller_of ev \<noteq> Run) (emitted w1 w) \<and>
      emitted (world_ok w2) w =
        [Cout ''re-initialization successful'', DeviceWaitIdle, GlfwDestroyWindow 25,
         GlfwTerminate, SystemCall ''pause'']"
    using first second recreation_after_device_loss_only [OF first ret w2_def second main]
    by (simp add: shutdown_calls_scene_ok)
  then show ?thesis
    by (simp only: Let_def w1_def w2_def w_def)
qed

subsection \<open>shutdown\<close>


subsection \<open>The size of the surface\<close>

text \<open>
  C3, as the code has it. When the surface reports an extent other than 1280x720,
  \<^verbatim>\<open>initialize()\<close> throws, and it has created no swapchain object: the swapchain, its
  images, the image views and the framebuffers are still missing, and every call made
  belongs to the first six steps and is neither the creation of a swapchain nor the query
  of its images. When the five steps before \<^verbatim>\<open>createSwapChainAndImages()\<close> succeed, the
  error is that of the image size, and the instance, the device and the surface exist.
\<close>

theorem other_extent_fails_before_swapchain:
  assumes caps: "surfaceCapabilities_res env = Inr caps"
    and diff: "currentExtent_width caps \<noteq> 1280 \<or> currentExtent_height caps \<noteq> 720"
    and init: "initialize env (Scene_new g, w) = (r, (s', w'))"
  shows "(\<exists>e. r = Abrupt (Throw e)) \<and>
         m_swapchain s' = None \<and> m_swapchain_imgs s' = [] \<and>
         m_swapchain_img_views s' = [] \<and> m_framebuffers s' = [] \<and>
         list_all (\<lambda>ev. \<exists>k\<le>6. caller_of ev = Init k) (emitted w w') \<and>
         list_all (\<lambda>ev. ev \<noteq> GetSwapchainImages \<and>
                        (\<forall>n f x y pm. ev \<noteq> CreateSwapchain n f x y pm)) (emitted w w') \<and>
         (\<forall>\<sigma>. before_swapchain env (Scene_new g, w) = (Normal (), \<sigma>) \<longrightarrow>
              r = Abrupt (Throw
                    (RuntimeError ''chosen image size not supported by window surface'')) \<and>
              m_instance s' \<noteq> None \<and> m_device s' \<noteq> None \<and> m_surface s' \<noteq> None)"
proof -
  let ?P = "\<lambda>ev. (\<exists>k\<le>5. caller_of ev = Init k) \<or> ev = GetSurfaceCapabilities"
  obtain r5 s5 w5 where b: "before_swapchain env (Scene_new g, w) = (r5, (s5, w5))"
    by (metis surj_pair)
  have k: "m_swapchain s5 = None" "m_swapchain_imgs s5 = []" "m_swapchain_img_views s5 = []"
    "m_framebuffers s5 = []" "m_width s5 = 1280" "m_height s5 = 720"
    using keepsD [OF before_swapchain_keeps b] by (simp_all add: Scene_new_def)
  have e5: "extends_with ?P (Scene_new g, w) (s5, w5)"
    using preservesD [OF before_swapchain_trace b] by (rule extends_with_mono) simp
  have rt: "returns_or_throws r5"
    using before_swapchain_safe b by (rule safeD)
  have main: "(\<exists>e. r = Abrupt (Throw e)) \<and> s' = s5 \<and> extends_with ?P (Scene_new g, w) (s', w') \<and>
      (r5 = Normal () \<longrightarrow>
         r = Abrupt (Throw (RuntimeError ''chosen image size not supported by window surface'')))"
  proof (cases r5 rule: returns_or_throws.cases)
    case (1 u)
    have six: "createSwapChainAndImages env (s5, w5) =
        (Abrupt (Throw (RuntimeError ''chosen image size not supported by window surface'')),
         (s5, w5\<lparr>trace := trace w5 @ [GetSurfaceCapabilities]\<rparr>))"
      using caps diff by (intro createSwapChainAndImages_other_extent) (auto simp: k)
    have res: "r = Abrupt (Throw (RuntimeError ''chosen image size not supported by window surface''))"
      "s' = s5" "w' = w5\<lparr>trace := trace w5 @ [GetSurfaceCapabilities]\<rparr>"
      using init by (simp_all add: initialize_split bnd_def b 1 six)
    have "extends_with ?P (s5, w5) (s', w')"
      by (rule extends_withI [where evs = "[GetSurfaceCapabilities]"]) (simp_all add: res)
    with e5 have "extends_with ?P (Scene_new g, w) (s', w')"
      using extends_with_trans [of ?P] by (blast dest: transpD)
    then show ?thesis by (simp add: res)
  next
    case (2 e)
    then have "r = Abrupt (Throw e)" "s' = s5" "w' = w5"
      using init by (simp_all add: initialize_split bnd_def b)
    then show ?thesis using e5 2 by simp
  qed (use rt in simp_all)
  then have ext: "extends_with ?P (Scene_new g, w) (s', w')" by blast
  have t1: "list_all (\<lambda>ev. \<exists>k\<le>6. caller_of ev = Init k) (emitted w w')"
    using ext by (auto simp: extends_with_def list_all_iff intro: le_trans [of _ 5 6])
  have t2: "list_all (\<lambda>ev. ev \<noteq> GetSwapchainImages \<and>
                        (\<forall>n f x y pm. ev \<noteq> CreateSwapchain n f x y pm)) (emitted w w')"
    using ext by (auto simp: extends_with_def list_all_iff)
  have t3: "r = Abrupt (Throw (RuntimeError ''chosen image size not supported by window surface'')) \<and>
      m_instance s' \<noteq> None \<and> m_device s' \<noteq> None \<and> m_surface s' \<noteq> None"
    if "before_swapchain env (Scene_new g, w) = (Normal (), \<sigma>)" for \<sigma>
    using that main before_swapchain_Normal [OF that] b by auto
  show ?thesis
    using main k t1 t2 t3 by simp
qed

theorem other_extent_fails_before_swapchain_witness:
  "surfaceCapabilities_res env_other_extent =
     Inr (caps_1280x720\<lparr>currentExtent_width := 800, currentExtent_height := 600\<rparr>) \<and>
   fst (initialize env_other_extent (Scene_new None, world0)) =
     Abrupt (Throw (RuntimeError ''chosen image size not supported by window surface'')) \<and>
   m_swapchain (fst (snd (initialize env_other_extent (Scene_new None, world0)))) = None \<and>
   m_swapchain_imgs (fst (snd (initialize env_other_extent (Scene_new None, world0)))) = [] \<and>
   list_all (\<lambda>ev. ev \<noteq> GetSwapchainImages \<and> (\<forall>n f x y pm. ev \<noteq> CreateSwapchain n f x y pm))
     (emitted world0 (snd (snd (initialize env_other_extent (Scene_new None, world0)))))"
proof -
  have caps: "surfaceCapabilities_res env_other_extent =
     Inr (caps_1280x720\<lparr>currentExtent_width := 800, currentExtent_height := 600\<rparr>)"
    by (simp add: env_other_extent_def)
  have diff: "currentExtent_width (caps_1280x720\<lparr>currentExtent_width := 800,
      currentExtent_height := 600\<rparr>) \<noteq> 1280 \<or>
    currentExtent_height (caps_1280x720\<lparr>currentExtent_width := 800,
      currentExtent_height := 600\<rparr>) \<noteq> 720"
    by simp
  have pair: "f = (fst f, (fst (snd f), snd (snd f)))" for f :: "unit outcome \<times> scene \<times> world"
    by simp
  have r: "fst (initialize env_other_extent (Scene_new None, world0)) =
     Abrupt (Throw (RuntimeError ''chosen image size not supported by window surface''))"
    by (simp add: initialize_env_other_extent)
  show ?thesis
    using caps r other_extent_fails_before_swapchain [OF caps diff pair, of None world0]
    by simp
qed

text \<open>
  C3, as the claim has it, fails: when \<^verbatim>\<open>initialize()\<close> stops at the size of the
  surface, the device has been created.
\<close>

theorem other_extent_fails_after_device:
  "surfaceCapabilities_res env_other_extent =
     Inr (caps_1280x720\<lparr>currentExtent_width := 800, currentExtent_height := 600\<rparr>) \<and>
   fst (initialize env_other_extent (Scene_new None, world0)) =
     Abrupt (Throw (RuntimeError ''chosen image size not supported by window surface'')) \<and>
   m_device (fst (snd (initialize env_other_extent (Scene_new None, world0)))) = Some 3 \<and>
   CreateDevice 0 [''VK_KHR_swapchain''] \<in>
     set (trace (snd (snd (initialize env_other_extent (Scene_new None, world0)))))"
proof -
  have "surfaceCapabilities_res env_other_extent =
     Inr (caps_1280x720\<lparr>currentExtent_width := 800, currentExtent_height := 600\<rparr>)"
    by (simp add: env_other_extent_def)
  then show ?thesis
    by (simp add: initialize_env_other_extent world0_def init_calls_ok_def)
qed

subsection \<open>Where the device loss is caught\<close>

text \<open>
  C4, as the code has it. A device-loss error thrown anywhere in the \<^verbatim>\<open>try\<close> block of
  the first lifecycle, by \<^verbatim>\<open>initialize()\<close> or by \<^verbatim>\<open>run()\<close>, is caught by the
  device-loss handler: the next thing \<open>main\<close> does is print the device-loss message,
  and from there on \<^verbatim>\<open>initialize()\<close> is started exactly once more and the frame loop
  never. A device loss in that second \<^verbatim>\<open>initialize()\<close> ends \<open>main\<close> with exit code 1.
\<close>

theorem device_loss_in_first_lifecycle_recreates_once:
  assumes lost:
      "initialize env1 (Scene_new g1, log_event SetProcessDPIAware w0) =
         (Abrupt (Throw (DeviceLostError m)), (s1, w1)) \<or>
       (\<exists>\<sigma>. initialize env1 (Scene_new g1, log_event SetProcessDPIAware w0) = (Normal (), \<sigma>) \<and>
            run env1 \<sigma> = (Abrupt (Throw (DeviceLostError m)), (s1, w1)))"
    and main: "main_prog g1 g2 env1 env2 w0 = (r, w)"
  shows "trace w = trace w1 @ emitted w1 w \<and>
         hd (emitted w1 w) = Cerr ''Device Lost, re-init...'' \<and>
         count_list (emitted w1 w) GlfwInit = 1 \<and>
         list_all (\<lambda>ev. caller_of ev \<noteq> Run) (emitted w1 w) \<and>
         (is_device_lost
            (fst (initialize env2
               (Scene_new g2,
                w1\<lparr>trace := trace w1 @
                   Cerr ''Device Lost, re-init...'' # shutdown_calls s1\<rparr>))) \<longrightarrow>
          r = Normal 1)"
proof -
  let ?w2 = "w1\<lparr>trace := trace w1 @ Cerr ''Device Lost, re-init...'' # shutdown_calls s1\<rparr>"
  have first: "first_try env1 (Scene_new g1, log_event SetProcessDPIAware w0) =
      (Abrupt (Throw (DeviceLostError m)), (s1, w1))"
    using lost by (auto simp: first_try_initialize_Abrupt first_try_initialize_Normal)
  have re: "re_init g2 env2 0 ?w2 = (r, w)"
    using main_prog_lost [OF first, of g2 env2] main by simp
  obtain r2 s2 w3 where second: "initialize env2 (Scene_new g2, ?w2) = (r2, (s2, w3))"
    by (metis surj_pair)
  note e = re_init_emitted [OF second re]
  have em: "emitted w1 w = Cerr ''Device Lost, re-init...'' # shutdown_calls s1 @ emitted ?w2 w"
    using e(1) by (simp add: emitted_def [of w1 w])
  have "trace w = trace w1 @ emitted w1 w"
    using e(1) by (simp add: em)
  moreover have "hd (emitted w1 w) = Cerr ''Device Lost, re-init...''"
    by (simp add: em)
  moreover have "count_list (emitted w1 w) GlfwInit = 1"
    using e(4) by (simp add: em shutdown_calls_no_GlfwInit)
  moreover have "list_all (\<lambda>ev. caller_of ev \<noteq> Run) (emitted w1 w)"
    using e(3) by (simp add: em shutdown_calls_not_Run)
  moreover have "r = Normal 1" if "is_device_lost r2"
  proof -
    from that obtain m2 where "r2 = Abrupt (Throw (DeviceLostError m2))"
      by (cases r2 rule: is_device_lost.cases) simp_all
    then show ?thesis using re second by (simp add: re_init_Throw)
  qed
  ultimately show ?thesis by (simp add: second)
qed

theorem device_loss_in_first_lifecycle_recreates_once_witness:
  "let w1 = (log_event SetProcessDPIAware world0)
              \<lparr>trace := [SetProcessDPIAware] @ take 10 (init_calls_ok 1), next_handle := 3\<rparr>;
       w = snd (main_prog None None env_lost_in_init env_lost_in_init world0)
   in fst (initialize env_lost_in_init (Scene_new None, log_event SetProcessDPIAware world0)) =
        Abrupt (Throw (DeviceLostError ''vk::PhysicalDevice::createDeviceUnique: ErrorDeviceLost'')) \<and>
      snd (snd (initialize env_lost_in_init (Scene_new None, log_event SetProcessDPIAware world0)))
        = w1 \<and>
      trace w = trace w1 @ emitted w1 w \<and>
      hd (emitted w1 w) = Cerr ''Device Lost, re-init...'' \<and>
      count_list (emitted w1 w) GlfwInit = 1 \<and>
      list_all (\<lambda>ev. caller_of ev \<noteq> Run) (emitted w1 w) \<and>
      fst (main_prog None None env_lost_in_init env_lost_in_init world0) = Normal 1"
proof -
  define s1 where "s1 = (Scene_new None)\<lparr>m_window := Some 1, m_instance := Some (1 + 1),
          m_phys_dev := Some 100, m_gq_fam_idx := 0\<rparr>"
  define w1 where "w1 = (log_event SetProcessDPIAware world0)
              \<lparr>trace := [SetProcessDPIAware] @ take 10 (init_calls_ok 1), next_handle := 3\<rparr>"
  define w where "w = snd (main_prog None None env_lost_in_init env_lost_in_init world0)"
  have i: "initialize env_lost_in_init (Scene_new None, log_event SetProcessDPIAware world0) =
      (Abrupt (Throw (DeviceLostError ''vk::PhysicalDevice::createDeviceUnique: ErrorDeviceLost'')), (s1, w1))"
    using initialize_env_lost_in_init [of None "log_event SetProcessDPIAware world0"]
    by (simp add: s1_def w1_def log_event_def world0_def)
  have main: "main_prog None None env_lost_in_init env_lost_in_init world0 =
      (fst (main_prog None None env_lost_in_init env_lost_in_init world0), w)"
    by (simp add: w_def)
  have second: "is_device_lost
            (fst (initialize env_lost_in_init
               (Scene_new None,
                w1\<lparr>trace := trace w1 @
                   Cerr ''Device Lost, re-init...'' # shutdown_calls s1\<rparr>)))"
    by (simp add: initialize_env_lost_in_init)
  have "fst (initialize env_lost_in_init (Scene_new None, log_event SetProcessDPIAware world0)) =
        Abrupt (Throw (DeviceLostError ''vk::PhysicalDevice::createDeviceUnique: ErrorDeviceLost'')) \<and>
      snd (snd (initialize env_lost_in_init (Scene_new None, log_event SetProcessDPIAware world0)))
        = w1 \<and>
      trace w = trace w1 @ emitted w1 w \<and>
      hd (emitted w1 w) = Cerr ''Device Lost, re-init...'' \<and>
      count_list (emitted w1 w) GlfwInit = 1 \<and>
      list_all (\<lambda>ev. caller_of ev \<noteq> Run) (emitted w1 w) \<and>
      fst (main_prog None None env_lost_in_init env_lost_in_init world0) = Normal 1"
    using second device_loss_in_first_lifecycle_recreates_once [OF disjI1 [OF i] main]
    by (simp add: i)
  then show ?thesis
    by (simp only: Let_def w1_def w_def)
qed

text \<open>
  C4, as the claim has it, fails: a device loss reported while \<^verbatim>\<open>initialize()\<close> creates
  the device is caught by the device-loss handler and starts the re-creation.
\<close>

theorem device_loss_in_initialize_is_caught:
  "fst (initialize env_lost_in_init (Scene_new None, log_event SetProcessDPIAware world0)) =
     Abrupt (Throw (DeviceLostError ''vk::PhysicalDevice::createDeviceUnique: ErrorDeviceLost'')) \<and>
   Cerr ''Device Lost, re-init...'' \<in>
     set (trace (snd (main_prog None None env_lost_in_init env_ok world0))) \<and>
   count_list (trace (snd (main_prog None None env_lost_in_init env_ok world0))) GlfwInit = 2 \<and>
   last (trace (snd (main_prog None None env_lost_in_init env_ok world0))) = SystemCall ''pause'' \<and>
   fst (main_prog None None env_lost_in_init env_ok world0) = Normal 0"
proof -
  have "main_prog None None env_lost_in_init env_ok world0 =
      re_init None env_ok 0
        (world0\<lparr>trace := [SetProcessDPIAware] @ take 10 (init_calls_ok 1) @
            [Cerr ''Device Lost, re-init...'', GlfwDestroyWindow 1, GlfwTerminate],
          next_handle := 3\<rparr>)"
    by (simp add: main_prog_def first_try_def bnd_def initialize_env_lost_in_init
        log_event_shutdown shutdown_calls_def)
       (simp add: log_event_def world0_def Scene_new_def numeral_3_eq_3)
  then show ?thesis
    by (simp add: initialize_env_lost_in_init re_init_Normal [OF initialize_env_ok']
        shutdown_calls_scene_ok world_ok_def init_calls_ok_def)
qed

subsection \<open>Exit codes\<close>

text \<open>
  C5. Let \<open>r1\<close> be the outcome of the \<^verbatim>\<open>try\<close> block of the first lifecycle and \<open>r2\<close>
  the outcome of \<^verbatim>\<open>initialize()\<close> on the second scene, in the world that the first
  \<^verbatim>\<open>shutdown()\<close> leaves. The exit code of \<open>main\<close> is 0 when the first lifecycle ends
  without error, and it does when the window is closed at the first poll; 0 after a
  device loss followed by a successful re-initialization; 1 when the first lifecycle
  throws another error, and 1 when the re-initialization throws any error.
\<close>

theorem exit_codes:
  assumes first: "first_try env1 (Scene_new g1, log_event SetProcessDPIAware w0) = (r1, (s1, w1))"
    and second: "initialize env2
        (Scene_new g2,
         w1\<lparr>trace := trace w1 @ Cerr ''Device Lost, re-init...'' # shutdown_calls s1\<rparr>) =
        (r2, (s2, w3))"
  shows "(r1 = Normal () \<longrightarrow> fst (main_prog g1 g2 env1 env2 w0) = Normal 0) \<and>
         (is_device_lost r1 \<and> r2 = Normal () \<longrightarrow> fst (main_prog g1 g2 env1 env2 w0) = Normal 0) \<and>
         (\<forall>e. r1 = Abrupt (Throw e) \<and> \<not> is_device_lost r1 \<longrightarrow>
              fst (main_prog g1 g2 env1 env2 w0) = Normal 1) \<and>
         (\<forall>e. is_device_lost r1 \<and> r2 = Abrupt (Throw e) \<longrightarrow>
              fst (main_prog g1 g2 env1 env2 w0) = Normal 1) \<and>
         (\<forall>\<sigma> fr frs.
              initialize env1 (Scene_new g1, log_event SetProcessDPIAware w0) = (Normal (), \<sigma>) \<and>
              frames env1 = fr # frs \<and> should_close fr \<longrightarrow> r1 = Normal ())"
proof -
  have a: "fst (main_prog g1 g2 env1 env2 w0) = Normal 0" if "r1 = Normal ()"
    using main_prog_Normal [of env1 g1 w0 s1 w1 g2 env2] first that by simp
  have lost: "main_prog g1 g2 env1 env2 w0 =
      re_init g2 env2 0
        (w1\<lparr>trace := trace w1 @ Cerr ''Device Lost, re-init...'' # shutdown_calls s1\<rparr>)"
    if "is_device_lost r1"
  proof -
    from that obtain m where "r1 = Abrupt (Throw (DeviceLostError m))"
      by (cases r1 rule: is_device_lost.cases) simp_all
    then show ?thesis using main_prog_lost [of env1 g1 w0 m s1 w1 g2 env2] first by simp
  qed
  have b: "fst (main_prog g1 g2 env1 env2 w0) = Normal 0" if "is_device_lost r1" "r2 = Normal ()"
    using lost [OF that(1)] second that(2) by (simp add: re_init_Normal)
  have c: "fst (main_prog g1 g2 env1 env2 w0) = Normal 1"
    if "r1 = Abrupt (Throw e)" "\<not> is_device_lost r1" for e
    using main_prog_error [of env1 g1 w0 e s1 w1 g2 env2] first that by simp
  have d: "fst (main_prog g1 g2 env1 env2 w0) = Normal 1"
    if "is_device_lost r1" "r2 = Abrupt (Throw e)" for e
    using lost [OF that(1)] second that(2) by (simp add: re_init_Throw)
  have e: "r1 = Normal ()"
    if "initialize env1 (Scene_new g1, log_event SetProcessDPIAware w0) = (Normal (), \<sigma>)"
      "frames env1 = fr # frs" "should_close fr" for \<sigma> fr frs
    using first that run_close [OF that(2,3), of "fst \<sigma>" "snd \<sigma>"]
    by (simp add: first_try_initialize_Normal)
  show ?thesis
    using a b c d e by blast
qed

theorem exit_codes_witness:
  "fst (first_try env_ok (Scene_new None, log_event SetProcessDPIAware world0)) = Normal () \<and>
   fst (main_prog None None env_ok env_ok world0) = Normal 0 \<and>
   is_device_lost (fst (first_try env_lost (Scene_new None, log_event SetProcessDPIAware world0))) \<and>
   fst (main_prog None None env_lost env_ok world0) = Normal 0 \<and>
   fst (main_prog None None env_lost env_no_win32 world0) = Normal 1 \<and>
   fst (first_try env_no_win32 (Scene_new None, log_event SetProcessDPIAware world0)) =
     Abrupt (Throw (RuntimeError ''VK_KHR_surface is not available!'')) \<and>
   fst (main_prog None None env_no_win32 env_ok world0) = Normal 1"
proof -
  let ?\<sigma> = "(Scene_new None, log_event SetProcessDPIAware world0)"
  have pair: "f = (fst f, (fst (snd f), snd (snd f)))" for f :: "unit outcome \<times> scene \<times> world"
    by simp
  have ok: "fst (first_try env_ok ?\<sigma>) = Normal ()"
    by (simp add: first_try_env_ok)
  have lost: "fst (first_try env_lost ?\<sigma>) =
      Abrupt (Throw (DeviceLostError ''vk::Device::waitForFences: ErrorDeviceLost''))"
    by (simp add: first_try_env_lost)
  have nowin: "fst (first_try env_no_win32 ?\<sigma>) =
      Abrupt (Throw (RuntimeError ''VK_KHR_surface is not available!''))"
    by (rule first_try_env_no_win32)
  have i2: "fst (initialize env_ok (Scene_new None, w)) = Normal ()" for w
    by (simp add: initialize_env_ok')
  have i3: "fst (initialize env_no_win32 (Scene_new None, w)) =
      Abrupt (Throw (RuntimeError ''VK_KHR_surface is not available!''))" for w
    by (rule initialize_env_no_win32)
  have 1: "fst (main_prog None None env_ok env_ok world0) = Normal 0"
    using exit_codes [where ?env1.0 = env_ok and ?g1.0 = None and ?w0.0 = world0
        and ?env2.0 = env_ok and ?g2.0 = None, OF pair pair] ok by simp
  have 2: "fst (main_prog None None env_lost env_ok world0) = Normal 0"
    using exit_codes [where ?env1.0 = env_lost and ?g1.0 = None and ?w0.0 = world0
        and ?env2.0 = env_ok and ?g2.0 = None, OF pair pair] lost i2 by simp
  have 3: "fst (main_prog None None env_lost env_no_win32 world0) = Normal 1"
    using exit_codes [where ?env1.0 = env_lost and ?g1.0 = None and ?w0.0 = world0
        and ?env2.0 = env_no_win32 and ?g2.0 = None, OF pair pair] lost i3 by simp
  have 4: "fst (main_prog None None env_no_win32 env_ok world0) = Normal 1"
    using exit_codes [where ?env1.0 = env_no_win32 and ?g1.0 = None and ?w0.0 = world0
        and ?env2.0 = env_ok and ?g2.0 = None, OF pair pair] nowin by simp
  show ?thesis
    using ok lost nowin 1 2 3 4 by simp
qed

subsection \<open>The order of the calls of a frame\<close>

text \<open>
  C6. The calls of \<^verbatim>\<open>run()\<close> are those of its passes, one after the other. Every pass
  but the last is complete: the close flag is not set, the acquired image \<open>i\<close> is one of
  the scene, and the calls of the pass are, in this order, those of \<open>frame_calls s i\<close>:
  poll, test of the flag, acquisition without timeout, wait without timeout on the fence
  of the acquired image, reset of that fence, the recording (begin, render pass cleared
  to \<open>{0,0,1,1}\<close>, pipeline, draw of 3 vertices and 1 instance, end of pass, end),
  submission, presentation. The last pass either finds the close flag set, and then it
  polls, tests the flag and \<^verbatim>\<open>run()\<close> returns; or it is cut short, \<^verbatim>\<open>run()\<close> does not
  return, and the pass has made the first calls of that list, the acquisition at least.
  A pass is cut short only when an answer stops it: when the fences are ready at the
  start, the answers of that pass do not let it succeed. The members of the scene are
  left as they are. (When the script of answers ends, the loop is still running.)
\<close>

theorem run_passes_calls_in_order:
  assumes "run env (s, w) = (r, (s', w'))"
  shows "\<exists>is rest.
     length is \<le> length (frames env) \<and>
     (\<forall>n<length is.
        \<not> should_close (frames env ! n) \<and> acquire_res (frames env ! n) = Inr (is ! n) \<and>
        in_range s (is ! n)) \<and>
     s' = s \<and>
     trace w' = trace w @ concat (map (frame_calls s) is) @ rest \<and>
     (if length is = length (frames env) then r = Abrupt OutOfScript \<and> rest = []
      else if should_close (frames env ! length is) then
        r = Normal () \<and> rest = [GlfwPollEvents, GlfwWindowShouldClose (m_window s)]
      else (\<exists>a. r = Abrupt a) \<and>
           (\<exists>k i. 3 \<le> k \<and> rest = take k (frame_calls s i) \<and>
                  (\<forall>j. acquire_res (frames env ! length is) = Inr j \<longrightarrow> j = i)) \<and>
           (fences_ready s w \<longrightarrow> \<not> pass_succeeds s (frames env ! length is)))"
  using run_loop_passes [OF assms [unfolded run_def]] unfolding last_pass_def by blast

theorem run_passes_calls_in_order_witness:
  "run env_lost (scene_ok 1, world_ok world0) =
     (Abrupt (Throw (DeviceLostError ''vk::Device::waitForFences: ErrorDeviceLost'')),
      (scene_ok 1, world_lost world0)) \<and>
   trace (world_lost world0) =
     trace (world_ok world0) @ concat (map (frame_calls (scene_ok 1)) [0, 1]) @
     take 4 (frame_calls (scene_ok 1) 0) \<and>
   frame_calls (scene_ok 1) 0 =
     [GlfwPollEvents, GlfwWindowShouldClose (Some 1),
      AcquireNextImage (Some 6) UINT64_MAX (Some 23),
      WaitForFences 21 True UINT64_MAX, ResetFences 21,
      CmdBegin 15, CmdBeginRenderPass 15 (Some 11) 12 [0, 0, 1, 1],
      CmdBindPipeline 15 eGraphics (Some 20), CmdDraw 15 3 1 0 0,
      CmdEndRenderPass 15, CmdEnd 15,
      QueueSubmit [15] [Some 23] eColorAttachmentOutput [Some 24] 21,
      QueuePresent [Some 24] (Some 6) 0] \<and>
   fences_ready (scene_ok 1) (world_ok world0) \<and>
   \<not> pass_succeeds (scene_ok 1) (frames env_lost ! 2)"
proof -
  have nh: "next_handle world0 = 1"
    by (simp add: world0_def)
  have run: "run env_lost (scene_ok 1, world_ok world0) =
     (Abrupt (Throw (DeviceLostError ''vk::Device::waitForFences: ErrorDeviceLost'')),
      (scene_ok 1, world_lost world0))"
    using run_env_lost [of world0] by (simp only: nh)
  have tr: "trace (world_lost world0) =
     trace (world_ok world0) @ concat (map (frame_calls (scene_ok 1)) [0, 1]) @
     take 4 (frame_calls (scene_ok 1) 0)"
    by (simp add: world_lost_def world_ok_def Let_def nh)
  have calls: "frame_calls (scene_ok h) 0 =
     [GlfwPollEvents, GlfwWindowShouldClose (Some h),
      AcquireNextImage (Some (h + 5)) UINT64_MAX (Some (h + 22)),
      WaitForFences (h + 20) True UINT64_MAX, ResetFences (h + 20),
      CmdBegin (h + 14), CmdBeginRenderPass (h + 14) (Some (h + 10)) (h + 11) [0, 0, 1, 1],
      CmdBindPipeline (h + 14) eGraphics (Some (h + 19)), CmdDraw (h + 14) 3 1 0 0,
      CmdEndRenderPass (h + 14), CmdEnd (h + 14),
      QueueSubmit [h + 14] [Some (h + 22)] eColorAttachmentOutput [Some (h + 23)] (h + 20),
      QueuePresent [Some (h + 23)] (Some (h + 5)) 0]" for h
    by (simp add: frame_calls_def scene_ok_def Let_def)
  have "fences_ready (scene_ok (next_handle w)) (world_ok w)" for w
    by (simp add: fences_ready_def scene_ok_def world_ok_def)
  from this [of world0] have ready: "fences_ready (scene_ok 1) (world_ok world0)"
    by (simp only: nh)
  have third: "\<not> pass_succeeds s (frames env_lost ! 2)" for s
    by (simp add: pass_succeeds_def env_lost_def frame_ok_def frame_close_def)
  show ?thesis
    using run tr ready third run_passes_calls_in_order [OF run]
    by (simp add: calls)
qed

subsection \<open>The vectors with one element for each image\<close>




subsection \<open>The acquired index\<close>



subsection \<open>The fences\<close>

text \<open>
  C9. Every fence that \<^verbatim>\<open>initialize()\<close> creates is created with the signaled flag, and
  after an \<^verbatim>\<open>initialize()\<close> that returns each of the fences of the scene is signaled. A
  pass of the frame loop that returns leaves the fences of the other images as they are.
  So the first pass that draws on an image finds its fence signaled: its wait returns and
  the pass goes on to reset the fence, where a fence that is unsignaled with no
  submission pending would block the pass for ever.
\<close>

theorem fences_created_signaled:
  assumes init: "initialize env (Scene_new g, w0) = (Normal (), (s, w1))"
  shows "list_all (\<lambda>ev. \<forall>b. ev = CreateFence b \<longrightarrow> b) (emitted w0 w1) \<and>
         (\<forall>k<length (m_fences s). fence_state w1 (m_fences s ! k) = Some Signaled) \<and>
         (\<forall>fr j b s' w w' k.
            loop_pass fr (s, w) = (Normal b, (s', w')) \<and> acquire_res fr = Inr j \<and>
            unat j < length (m_fences s) \<and> k < length (m_fences s) \<and> k \<noteq> unat j \<longrightarrow>
            fence_state w' (m_fences s ! k) = fence_state w (m_fences s ! k)) \<and>
         (\<forall>fr i w.
            \<not> should_close fr \<and> acquire_res fr = Inr i \<and> unat i < length (m_fences s) \<and>
            wait_res fr = None \<and> fence_state w (m_fences s ! unat i) = Some Signaled \<longrightarrow>
            fst (loop_pass fr (s, w)) \<noteq> Abrupt Blocked \<and>
            take 5 (emitted w (snd (snd (loop_pass fr (s, w))))) = take 5 (frame_calls s i)) \<and>
         (\<forall>fr i w.
            \<not> should_close fr \<and> acquire_res fr = Inr i \<and> unat i < length (m_fences s) \<and>
            wait_res fr = None \<and> fence_state w (m_fences s ! unat i) = Some Unsignaled \<longrightarrow>
            fst (loop_pass fr (s, w)) = Abrupt Blocked)"
proof -
  obtain h where h: "m_fences s = [h, Suc h]" "fence_state w1 h = Some Signaled"
    "fence_state w1 (Suc h) = Some Signaled"
    using initialize_Normal_shape(6) [OF init] by blast
  have a: "list_all (\<lambda>ev. \<forall>b. ev = CreateFence b \<longrightarrow> b) (emitted w0 w1)"
    using preservesD [OF ext_initialize_signaled init] by (simp add: extends_with_def)
  have b: "fence_state w1 (m_fences s ! k) = Some Signaled" if "k < length (m_fences s)" for k
    using that h by (cases k) simp_all
  have c: "fence_state w' (m_fences s ! k) = fence_state w (m_fences s ! k)"
    if "loop_pass fr (s, w) = (Normal b, (s', w'))" "acquire_res fr = Inr j"
      "unat j < length (m_fences s)" "k < length (m_fences s)" "k \<noteq> unat j"
    for fr j b s' w w' k
  proof -
    have "m_fences s ! k \<noteq> m_fences s ! unat j"
      using that(3-5) by (cases k; cases "unat j") (simp_all add: h(1))
    then show ?thesis by (rule loop_pass_other_fence [OF that(1,2)])
  qed
  show ?thesis
    using a b c loop_pass_signaled loop_pass_unsignaled by blast
qed

theorem fences_created_signaled_witness:
  "initialize env_ok (Scene_new None, world0) = (Normal (), (scene_ok 1, world_ok world0)) \<and>
   m_fences (scene_ok 1) = [21, 22] \<and>
   list_all (\<lambda>ev. \<forall>b. ev = CreateFence b \<longrightarrow> b) (emitted world0 (world_ok world0)) \<and>
   fence_state (world_ok world0) 21 = Some Signaled \<and>
   fence_state (world_ok world0) 22 = Some Signaled \<and>
   fst (loop_pass (frame_ok 0) (scene_ok 1, world_ok world0)) = Normal False \<and>
   fence_state (snd (snd (loop_pass (frame_ok 0) (scene_ok 1, world_ok world0)))) 22 =
     Some Signaled \<and>
   fst (loop_pass (frame_ok 1) (snd (loop_pass (frame_ok 0) (scene_ok 1, world_ok world0)))) \<noteq>
     Abrupt Blocked"
proof -
  let ?s = "scene_ok 1" and ?w1 = "world_ok world0"
  let ?p = "loop_pass (frame_ok 0) (?s, ?w1)"
  have init: "initialize env_ok (Scene_new None, world0) = (Normal (), (?s, ?w1))"
    using initialize_env_ok' [of None world0] by (simp add: world0_def)
  have fs: "m_fences (scene_ok h) = [h + 20, h + 21]" for h
    by (simp add: scene_ok_def)
  have fs1: "m_fences ?s = [21, 22]"
    by (simp add: fs)
  have fr: "\<not> should_close (frame_ok k)" "acquire_res (frame_ok k) = Inr k"
    "wait_res (frame_ok k) = None" for k
    by (simp_all add: frame_ok_def frame_close_def)
  note T = fences_created_signaled [OF init]
  have a: "list_all (\<lambda>ev. \<forall>b. ev = CreateFence b \<longrightarrow> b) (emitted world0 ?w1)"
    using T by blast
  have b: "fence_state ?w1 (m_fences ?s ! k) = Some Signaled" if "k < length (m_fences ?s)" for k
    using T that by blast
  have b0: "fence_state ?w1 21 = Some Signaled"
    using b [of 0] by (simp add: fs)
  have b1: "fence_state ?w1 22 = Some Signaled"
    using b [of 1] by (simp add: fs)
  have p: "fst ?p = Normal False"
    using b0
    by (intro loop_pass_all_ok [where i = 0])
       (simp_all add: frame_ok_def frame_close_def fs scene_ok_def)
  have ps: "?p = (Normal False, (?s, snd (snd ?p)))"
    using p loop_pass_scene [of "frame_ok 0" ?s ?w1] by (metis prod.collapse)
  have c: "fence_state (snd (snd ?p)) (m_fences ?s ! 1) = fence_state ?w1 (m_fences ?s ! 1)"
  proof -
    have "unat (0 :: 32 word) < length (m_fences ?s) \<and> 1 < length (m_fences ?s) \<and>
        (1 :: nat) \<noteq> unat (0 :: 32 word)"
      by (simp add: fs)
    with T ps fr(2) [of 0] show ?thesis by blast
  qed
  then have c1: "fence_state (snd (snd ?p)) 22 = Some Signaled"
    using b1 by (simp add: fs)
  have d: "fst (loop_pass (frame_ok 1) (?s, snd (snd ?p))) \<noteq> Abrupt Blocked"
  proof -
    have "unat (1 :: 32 word) < length (m_fences ?s) \<and>
        fence_state (snd (snd ?p)) (m_fences ?s ! unat (1 :: 32 word)) = Some Signaled"
      using c1 by (simp add: fs)
    with T fr [of 1] show ?thesis by blast
  qed
  have "snd ?p = (?s, snd (snd ?p))"
    using loop_pass_scene [of "frame_ok 0" ?s ?w1] by (metis prod.collapse)
  then show ?thesis
    using init fs1 a b0 b1 p c1 d by simp
qed

subsection \<open>The message for a missing extension\<close>

text \<open>
  C10. When the window can be created and the list of instance extensions, as
  enumerated for the second test, lacks \<^verbatim>\<open>VK_KHR_win32_surface\<close>, \<^verbatim>\<open>initialize()\<close>
  throws a \<^verbatim>\<open>std::runtime_error\<close> whose message is \<^verbatim>\<open>VK_KHR_surface is not available!\<close>:
  it names the generic surface extension, not the Win32 one that is missing.
\<close>

theorem win32_extension_missing_names_generic:
  assumes "createWindow_ok env"
    and "instance_extensions env 0 = Inr exts0"
    and "instance_extensions env 1 = Inr exts1"
    and "VK_KHR_WIN32_SURFACE_EXTENSION_NAME \<notin> set exts1"
  shows "fst (initialize env (s, w)) =
           Abrupt (Throw (RuntimeError ''VK_KHR_surface is not available!''))"
  using assms
  by (simp add: initialize_def createWindowAndSurface_ok initializeVKInstance_def
      isInstanceExtensionAvailable_def prog_defs VK_KHR_SURFACE_EXTENSION_NAME_def)

theorem win32_extension_missing_names_generic_witness:
  "createWindow_ok env_no_win32 \<and>
   instance_extensions env_no_win32 0 = Inr [''VK_KHR_surface''] \<and>
   instance_extensions env_no_win32 1 = Inr [''VK_KHR_surface''] \<and>
   VK_KHR_WIN32_SURFACE_EXTENSION_NAME \<notin> set [''VK_KHR_surface''] \<and>
   fst (initialize env_no_win32 (Scene_new None, world0)) =
     Abrupt (Throw (RuntimeError ''VK_KHR_surface is not available!''))"
proof -
  have 1: "createWindow_ok env_no_win32"
    and 2: "instance_extensions env_no_win32 0 = Inr [''VK_KHR_surface'']"
    and 3: "instance_extensions env_no_win32 1 = Inr [''VK_KHR_surface'']"
    by (simp_all add: env_no_win32_def env_ok_def)
  have 4: "VK_KHR_WIN32_SURFACE_EXTENSION_NAME \<notin> set [''VK_KHR_surface'']"
    by (simp add: VK_KHR_WIN32_SURFACE_EXTENSION_NAME_def)
  show ?thesis
    using 1 2 3 4 win32_extension_missing_names_generic [OF 1 2 3 4, of "Scene_new None" world0]
    by simp
qed

end
